(* ===== verification/Prelude.thy ===== *)
theory Prelude
  imports Main "HOL-Library.State_Monad"
begin

text \<open>
  Shared material of the CachetAPI development: the named collections the component
  theories fill, and generic lemmas on strings (character lists) used by the JavaScript
  value layer, the route table and the error-message format: stripping a known prefix
  and splitting a string at the first occurrence of a separator character.
\<close>

named_theorems js_simps \<open>evaluation rules of the JavaScript value layer\<close>
named_theorems api_defs \<open>definitions of the CachetAPI methods\<close>

section \<open>Prefixes\<close>

fun strip_prefix :: "'a list \<Rightarrow> 'a list \<Rightarrow> 'a list option" where
  "strip_prefix [] ys = Some ys"
| "strip_prefix (x # xs) [] = None"
| "strip_prefix (x # xs) (y # ys) = (if x = y then strip_prefix xs ys else None)"

lemma strip_prefix_append [simp]: "strip_prefix xs (xs @ ys) = Some ys"
  by (induction xs) auto

lemma strip_prefix_Some: "strip_prefix xs zs = Some ys \<Longrightarrow> zs = xs @ ys"
  by (induction xs zs rule: strip_prefix.induct) (auto split: if_splits)

section \<open>Splitting at a separator\<close>

text \<open>\<open>split_at c s\<close>: the part of \<open>s\<close> before the first \<open>c\<close> and the part after it.\<close>

fun split_at :: "'a \<Rightarrow> 'a list \<Rightarrow> ('a list \<times> 'a list) option" where
  "split_at c [] = None"
| "split_at c (x # xs) =
     (if x = c then Some ([], xs)
      else map_option (\<lambda>(a, b). (x # a, b)) (split_at c xs))"

lemma split_at_append [simp]: "c \<notin> set a \<Longrightarrow> split_at c (a @ c # b) = Some (a, b)"
  by (induction a) auto

lemma split_at_Some: "split_at c s = Some (a, b) \<Longrightarrow> s = a @ c # b \<and> c \<notin> set a"
  by (induction s arbitrary: a) (auto split: if_splits)

lemma split_at_None: "split_at c s = None \<longleftrightarrow> c \<notin> set s"
  by (induction s) auto

text \<open>Splitting a string at every separator, the inverse of joining with it.\<close>

function split_all :: "'a \<Rightarrow> 'a list \<Rightarrow> 'a list list" where
  "split_all c s =
     (case split_at c s of
        None \<Rightarrow> [s]
      | Some (a, b) \<Rightarrow> a # split_all c b)"
  by pat_completeness auto
termination
  by (relation "measure (\<lambda>(c, s). length s)") (auto dest: split_at_Some)

declare split_all.simps [simp del]

lemma split_all_no_sep [simp]: "c \<notin> set s \<Longrightarrow> split_all c s = [s]"
  by (subst split_all.simps) (simp add: split_at_None [THEN iffD2])

lemma split_all_sep [simp]: "c \<notin> set a \<Longrightarrow> split_all c (a @ c # b) = a # split_all c b"
  by (subst split_all.simps) simp

lemma split_all_not_Nil [simp]: "split_all c s \<noteq> []"
  by (subst split_all.simps) (simp split: option.splits prod.splits)

lemma split_all_Cons:
  "split_all c (x # xs) =
     (if x = c then [] # split_all c xs
      else case split_all c xs of [] \<Rightarrow> [[x]] | y # ys \<Rightarrow> (x # y) # ys)"
proof (cases "x = c")
  case True
  then show ?thesis by (subst split_all.simps) simp
next
  case False
  show ?thesis
  proof (cases "split_at c xs")
    case None
    with False show ?thesis
      by (simp add: split_at_None split_all_no_sep)
  next
    case (Some ab)
    then obtain a b where ab: "split_at c xs = Some (a, b)" by (cases ab) auto
    then have "xs = a @ c # b" and "c \<notin> set a" by (auto dest: split_at_Some)
    with False show ?thesis using split_all_sep [of c "x # a" b] by simp
  qed
qed

section \<open>Joining with a separator\<close>

text \<open>\<open>join sep xs\<close>: JavaScript's \<open>xs.join(sep)\<close> on strings.\<close>

fun join :: "'a list \<Rightarrow> 'a list list \<Rightarrow> 'a list" where
  "join sep [] = []"
| "join sep [x] = x"
| "join sep (x # y # zs) = x @ sep @ join sep (y # zs)"

lemma split_all_append_sep: "split_all c (a @ c # b) = split_all c a @ split_all c b"
proof (induction a)
  case Nil
  then show ?case by (simp add: split_all_Cons)
next
  case (Cons x a)
  obtain y ys where "split_all c a = y # ys"
    by (cases "split_all c a") auto
  with Cons show ?case by (simp add: split_all_Cons)
qed

lemma split_all_join:
  "xs \<noteq> [] \<Longrightarrow> \<forall>x \<in> set xs. c \<notin> set x \<Longrightarrow> split_all c (join [c] xs) = xs"
  by (induction "[c]" xs rule: join.induct) simp_all

section \<open>Sums as exceptions\<close>

text \<open>
  A JavaScript computation that may throw returns \<open>Inl\<close> of the thrown value or \<open>Inr\<close> of its
  result; \<open>sum_bind\<close> sequences two of them, propagating the first exception.
\<close>

definition sum_bind :: "'e + 'a \<Rightarrow> ('a \<Rightarrow> 'e + 'b) \<Rightarrow> 'e + 'b" where
  "sum_bind m f = (case m of Inl e \<Rightarrow> Inl e | Inr a \<Rightarrow> f a)"

lemma sum_bind_simps [simp]:
  "sum_bind (Inl e) f = Inl e"
  "sum_bind (Inr a) f = f a"
  by (simp_all add: sum_bind_def)

lemma sum_bind_Inr_iff: "sum_bind m f = Inr b \<longleftrightarrow> (\<exists>a. m = Inr a \<and> f a = Inr b)"
  by (cases m) auto

end
