(* ===== verification/JsValue.thy ===== *)
theory JsValue
  imports Prelude
begin

text \<open>
  The JavaScript values the CachetAPI client handles, and the parts of the language's
  semantics its code relies on: truthiness (the guards \<open>if (!options || !options.url)\<close>,
  \<open>if (with_meta)\<close> and the tests of \<open>createError\<close>), string conversion (the \<open>+\<close>
  that builds request paths and error texts), property access (\<open>response.data.data\<close>,
  which throws a TypeError on \<open>undefined\<close> and \<open>null\<close>), thrown values with their
  \<open>toString\<close>, and \<open>JSON.stringify\<close>. Numbers are the integers; strings are sequences
  of 8-bit characters.
\<close>

section \<open>Values\<close>

datatype jsval =
    JUndef
  | JNull
  | JBool bool
  | JNum int
  | JStr string
  | JArr "jsval list"
  | JObj "(string \<times> jsval) list"

text \<open>A thrown value: an \<open>Error\<close> object (name, message, own properties) or any other value.\<close>

datatype thrown =
    JSError (err_name: string) (err_message: string) (err_props: "(string \<times> jsval) list")
  | Thrown jsval

section \<open>Truthiness\<close>

fun truthy :: "jsval \<Rightarrow> bool" where
  "truthy JUndef = False"
| "truthy JNull = False"
| "truthy (JBool b) = b"
| "truthy (JNum n) = (n \<noteq> 0)"
| "truthy (JStr s) = (s \<noteq> [])"
| "truthy (JArr xs) = True"
| "truthy (JObj ps) = True"

fun thrown_truthy :: "thrown \<Rightarrow> bool" where
  "thrown_truthy (JSError n m ps) = True"
| "thrown_truthy (Thrown v) = truthy v"

section \<open>Decimal numerals\<close>

definition digit_char :: "nat \<Rightarrow> char" where
  "digit_char d = char_of (48 + d)"

fun nat_to_dec :: "nat \<Rightarrow> string" where
  "nat_to_dec n =
     (if n < 10 then [digit_char n] else nat_to_dec (n div 10) @ [digit_char (n mod 10)])"

declare nat_to_dec.simps [simp del]

definition int_to_dec :: "int \<Rightarrow> string" where
  "int_to_dec i = (if i < 0 then CHR ''-'' # nat_to_dec (nat (- i)) else nat_to_dec (nat i))"

definition digit_val :: "char \<Rightarrow> nat option" where
  "digit_val c = (let k = of_char c in if 48 \<le> k \<and> k < 58 then Some (k - 48) else None)"

fun dec_acc :: "nat \<Rightarrow> string \<Rightarrow> nat option" where
  "dec_acc acc [] = Some acc"
| "dec_acc acc (c # cs) =
     (case digit_val c of None \<Rightarrow> None | Some d \<Rightarrow> dec_acc (10 * acc + d) cs)"

definition dec_to_nat :: "string \<Rightarrow> nat option" where
  "dec_to_nat s = (if s = [] then None else dec_acc 0 s)"

definition dec_to_int :: "string \<Rightarrow> int option" where
  "dec_to_int s =
     (case s of
        c # cs \<Rightarrow> if c = CHR ''-'' then map_option (\<lambda>n. - int n) (dec_to_nat cs)
                  else map_option int (dec_to_nat s)
      | [] \<Rightarrow> None)"

section \<open>String conversion and property access\<close>

text \<open>\<open>String(v)\<close>, as the \<open>+\<close> operator applies it to a non-string operand.\<close>

fun js_to_string :: "jsval \<Rightarrow> string" where
  "js_to_string JUndef = ''undefined''"
| "js_to_string JNull = ''null''"
| "js_to_string (JBool b) = (if b then ''true'' else ''false'')"
| "js_to_string (JNum n) = int_to_dec n"
| "js_to_string (JStr s) = s"
| "js_to_string (JArr xs) =
     join '','' (map (\<lambda>x. if x = JUndef \<or> x = JNull then [] else js_to_string x) xs)"
| "js_to_string (JObj ps) = ''[object Object]''"

definition type_error_read :: "jsval \<Rightarrow> string \<Rightarrow> thrown" where
  "type_error_read v k =
     JSError ''TypeError''
       (''Cannot read properties of '' @ js_to_string v @ '' (reading '' @ [CHR 0x27] @ k @ [CHR 0x27] @ '')'')
       []"

text \<open>An array index: the canonical decimal numeral of a natural number.\<close>

definition array_index :: "string \<Rightarrow> nat option" where
  "array_index k =
     (case dec_to_nat k of None \<Rightarrow> None | Some i \<Rightarrow> if nat_to_dec i = k then Some i else None)"

text \<open>
  \<open>v.k\<close> and \<open>v[k]\<close>: the own property of an object; \<open>length\<close> and the elements of
  arrays and strings; \<open>undefined\<close> on the other values that have no such property; a
  TypeError on \<open>undefined\<close> and \<open>null\<close>. The client reads the names \<open>url\<close>,
  \<open>apiToken\<close>, \<open>data\<close>, \<open>response\<close>, \<open>status\<close> and \<open>statusText\<close>, which no
  primitive value or array has; the test suite reads \<open>length\<close> and \<open>[0]\<close> of lists.
\<close>

fun js_get :: "jsval \<Rightarrow> string \<Rightarrow> thrown + jsval" where
  "js_get JUndef k = Inl (type_error_read JUndef k)"
| "js_get JNull k = Inl (type_error_read JNull k)"
| "js_get (JObj ps) k = Inr (case map_of ps k of None \<Rightarrow> JUndef | Some v \<Rightarrow> v)"
| "js_get (JArr vs) k =
     Inr (if k = ''length'' then JNum (int (length vs))
          else case array_index k of
                 None \<Rightarrow> JUndef
               | Some i \<Rightarrow> if i < length vs then vs ! i else JUndef)"
| "js_get (JStr cs) k =
     Inr (if k = ''length'' then JNum (int (length cs))
          else case array_index k of
                 None \<Rightarrow> JUndef
               | Some i \<Rightarrow> if i < length cs then JStr [cs ! i] else JUndef)"
| "js_get v k = Inr JUndef"

fun thrown_get :: "thrown \<Rightarrow> string \<Rightarrow> thrown + jsval" where
  "thrown_get (JSError n m ps) k =
     Inr (if k = ''name'' then JStr n else if k = ''message'' then JStr m
          else case map_of ps k of None \<Rightarrow> JUndef | Some v \<Rightarrow> v)"
| "thrown_get (Thrown v) k = js_get v k"

text \<open>\<open>error.toString()\<close>: \<open>Error.prototype.toString\<close> for errors, a TypeError on
  \<open>undefined\<close> and \<open>null\<close>, the string conversion otherwise.\<close>

fun thrown_to_string :: "thrown \<Rightarrow> thrown + string" where
  "thrown_to_string (JSError n m ps) = Inr (if m = [] then n else n @ '': '' @ m)"
| "thrown_to_string (Thrown v) =
     (if v = JUndef \<or> v = JNull then Inl (type_error_read v ''toString'') else Inr (js_to_string v))"

section \<open>JSON.stringify\<close>

definition hex_char :: "nat \<Rightarrow> char" where
  "hex_char d = (if d < 10 then digit_char d else char_of (87 + d))"

text \<open>The escape of one character in a JSON string literal (lower-case \<open>\u00xx\<close>).\<close>

definition json_escape_char :: "char \<Rightarrow> string" where
  "json_escape_char c =
     (if c = CHR 0x22 then [CHR 0x5C, CHR 0x22]
      else if c = CHR 0x5C then [CHR 0x5C, CHR 0x5C]
      else if c = CHR 0x08 then [CHR 0x5C, CHR ''b'']
      else if c = CHR 0x0C then [CHR 0x5C, CHR ''f'']
      else if c = CHR 0x0A then [CHR 0x5C, CHR ''n'']
      else if c = CHR 0x0D then [CHR 0x5C, CHR ''r'']
      else if c = CHR 0x09 then [CHR 0x5C, CHR ''t'']
      else if of_char c < (32::nat)
        then [CHR 0x5C, CHR ''u'', CHR ''0'', CHR ''0'',
              hex_char (of_char c div 16), hex_char (of_char c mod 16)]
      else [c])"

definition json_quote :: "string \<Rightarrow> string" where
  "json_quote s = CHR 0x22 # concat (map json_escape_char s) @ [CHR 0x22]"

text \<open>
  \<open>JSON.stringify(v)\<close>: \<open>None\<close> is its result \<open>undefined\<close>, for \<open>undefined\<close>
  itself; inside an array that becomes \<open>null\<close>, inside an object the property is left out.
\<close>

fun json_stringify :: "jsval \<Rightarrow> string option" where
  "json_stringify JUndef = None"
| "json_stringify JNull = Some ''null''"
| "json_stringify (JBool b) = Some (if b then ''true'' else ''false'')"
| "json_stringify (JNum n) = Some (int_to_dec n)"
| "json_stringify (JStr s) = Some (json_quote s)"
| "json_stringify (JArr xs) =
     Some (''['' @ join '','' (map (\<lambda>x. case json_stringify x of None \<Rightarrow> ''null'' | Some t \<Rightarrow> t) xs)
           @ '']'')"
| "json_stringify (JObj ps) =
     Some (''{'' @ join '','' (concat (map (\<lambda>(k, v). case json_stringify v of None \<Rightarrow> []
                                          | Some t \<Rightarrow> [json_quote k @ '':'' @ t]) ps))
           @ ''}'')"

section \<open>Decimal numerals: round trip\<close>

definition dec_digits :: "char set" where
  "dec_digits = {c. digit_val c \<noteq> None}"

lemma digit_char_val [simp]: "d < 10 \<Longrightarrow> digit_val (digit_char d) = Some d"
  by (simp add: digit_val_def digit_char_def)

lemma digit_char_mem [simp]: "d < 10 \<Longrightarrow> digit_char d \<in> dec_digits"
  by (simp add: dec_digits_def)

lemma dec_acc_append:
  "dec_acc acc (xs @ ys) = (case dec_acc acc xs of None \<Rightarrow> None | Some a \<Rightarrow> dec_acc a ys)"
  by (induction acc xs rule: dec_acc.induct) (auto split: option.splits)

lemma nat_to_dec_small [simp]: "n < 10 \<Longrightarrow> nat_to_dec n = [digit_char n]"
  by (simp add: nat_to_dec.simps)

lemma nat_to_dec_large: "\<not> n < 10 \<Longrightarrow> nat_to_dec n = nat_to_dec (n div 10) @ [digit_char (n mod 10)]"
  by (simp add: nat_to_dec.simps)

lemma nat_to_dec_not_Nil [simp]: "nat_to_dec n \<noteq> []"
  by (cases "n < 10") (simp_all add: nat_to_dec_large)

lemma nat_to_dec_digits: "set (nat_to_dec n) \<subseteq> dec_digits"
proof (induction n rule: nat_to_dec.induct)
  case (1 n)
  then show ?case by (cases "n < 10") (simp_all add: nat_to_dec_large)
qed

lemma dec_acc_nat_to_dec:
  "dec_acc acc (nat_to_dec n) = Some (acc * 10 ^ length (nat_to_dec n) + n)"
proof (induction n arbitrary: acc rule: nat_to_dec.induct)
  case (1 n)
  show ?case
  proof (cases "n < 10")
    case True
    then show ?thesis by simp
  next
    case False
    let ?m = "length (nat_to_dec (n div 10))"
    have "dec_acc acc (nat_to_dec n)
        = dec_acc (acc * 10 ^ ?m + n div 10) [digit_char (n mod 10)]"
      using False "1.IH" by (simp add: nat_to_dec_large dec_acc_append)
    also have "\<dots> = Some (10 * (acc * 10 ^ ?m + n div 10) + n mod 10)"
      by simp
    also have "10 * (acc * 10 ^ ?m + n div 10) + n mod 10 = acc * 10 ^ Suc ?m + n"
      by (simp add: algebra_simps)
    finally show ?thesis using False by (simp add: nat_to_dec_large)
  qed
qed

lemma dec_to_nat_nat_to_dec [simp]: "dec_to_nat (nat_to_dec n) = Some n"
  by (simp add: dec_to_nat_def dec_acc_nat_to_dec)

lemma nat_to_dec_hd_not_minus: "hd (nat_to_dec n) \<noteq> CHR ''-''"
proof -
  have "hd (nat_to_dec n) \<in> dec_digits"
    using nat_to_dec_digits [of n] by (auto intro: hd_in_set)
  then show ?thesis by (auto simp: dec_digits_def digit_val_def)
qed

lemma dec_to_int_unsigned:
  "s \<noteq> [] \<Longrightarrow> hd s \<noteq> CHR ''-'' \<Longrightarrow> dec_to_int s = map_option int (dec_to_nat s)"
  by (cases s) (simp_all add: dec_to_int_def)

lemma dec_to_int_int_to_dec [simp]: "dec_to_int (int_to_dec i) = Some i"
proof (cases "i < 0")
  case True
  then show ?thesis by (simp add: dec_to_int_def int_to_dec_def)
next
  case False
  then have "dec_to_int (int_to_dec i) = map_option int (dec_to_nat (nat_to_dec (nat i)))"
    by (simp add: int_to_dec_def dec_to_int_unsigned nat_to_dec_hd_not_minus)
  with False show ?thesis by simp
qed

lemma int_to_dec_inj: "int_to_dec i = int_to_dec j \<longleftrightarrow> i = j"
  by (metis dec_to_int_int_to_dec option.inject)

lemma int_to_dec_digit_or_minus: "c \<in> set (int_to_dec i) \<Longrightarrow> c = CHR ''-'' \<or> digit_val c \<noteq> None"
  using nat_to_dec_digits by (auto simp: int_to_dec_def dec_digits_def split: if_splits)

lemma int_to_dec_no_slash: "CHR ''/'' \<notin> set (int_to_dec i)"
proof
  assume "CHR ''/'' \<in> set (int_to_dec i)"
  then have "digit_val (CHR ''/'') \<noteq> None" by (auto dest: int_to_dec_digit_or_minus)
  then show False by (simp add: digit_val_def)
qed

text \<open>A name that does not start with a digit is no array index: the names the client and
  the tests read (\<open>data\<close>, \<open>url\<close>, \<open>id\<close>, ...) are properties, not elements.\<close>

lemma array_index_Cons_non_digit [simp]:
  "\<not> ((48::nat) \<le> of_char c \<and> of_char c < (58::nat)) \<Longrightarrow> array_index (c # cs) = None"
  by (auto simp: array_index_def dec_to_nat_def digit_val_def Let_def)

lemma array_index_Nil [simp]: "array_index [] = None"
  by (simp add: array_index_def dec_to_nat_def)

lemma array_index_nat_to_dec [simp]: "array_index (nat_to_dec i) = Some i"
  by (simp add: array_index_def)

text \<open>Evaluating conversions on concrete values.\<close>

declare int_to_dec_def [js_simps] digit_char_def [js_simps] char_of_def [js_simps] bit_0 [js_simps]

lemma array_index_0 [simp]: "array_index ''0'' = Some 0"
  using array_index_nat_to_dec [of 0] by (simp add: nat_to_dec.simps js_simps)

end
