(* ===== verification/Http.thy ===== *)
theory Http
  imports JsValue
begin

text \<open>
  The interface between the CachetAPI client and the HTTP library it calls (axios): the
  request the client hands to its axios instance, the effects of a call (the remote
  service, of an arbitrary type \<open>'w\<close>, and the console the client logs to), and a
  transport as the function that settles one request into a rejection or a resolved
  response object. Every client lemma is stated over an arbitrary transport; \<open>axios\<close>
  is the transport axios builds from a server that answers with a status and a body
  (documented axios behaviour: a status outside 2xx rejects with an \<open>AxiosError\<close>
  that carries the response).
\<close>

datatype http_method = GET | POST | PUT | DELETE

fun method_name :: "http_method \<Rightarrow> string" where
  "method_name GET = ''GET''"
| "method_name POST = ''POST''"
| "method_name PUT = ''PUT''"
| "method_name DELETE = ''DELETE''"

text \<open>\<open>this.api.get(url)\<close>, \<open>post(url, data)\<close>, \<open>put(url, data)\<close>, \<open>delete(url)\<close>
  on an axios instance with a base URL and fixed headers.\<close>

record request =
  req_method :: http_method
  req_base :: jsval
  req_headers :: "(string \<times> jsval) list"
  req_url :: string
  req_data :: jsval

record 'w world =
  net :: 'w
  console :: "thrown list"

type_synonym 'w transport = "request \<Rightarrow> 'w \<Rightarrow> (thrown + jsval) \<times> 'w"

definition send :: "'w transport \<Rightarrow> request \<Rightarrow> ('w world, thrown + jsval) state" where
  "send tr rq = State (\<lambda>s. let (r, n) = tr rq (net s) in (r, s\<lparr>net := n\<rparr>))"

definition log_error :: "thrown \<Rightarrow> ('w world, unit) state" where
  "log_error e = State (\<lambda>s. ((), s\<lparr>console := console s @ [e]\<rparr>))"

lemma run_send [simp]:
  "run_state (send tr rq) s = (fst (tr rq (net s)), s\<lparr>net := snd (tr rq (net s))\<rparr>)"
  by (simp add: send_def split: prod.splits)

lemma run_log_error [simp]:
  "run_state (log_error e) s = ((), s\<lparr>console := console s @ [e]\<rparr>)"
  by (simp add: log_error_def)

text \<open>A stub transport that settles every request the same way and keeps no state.\<close>

definition stub :: "thrown + jsval \<Rightarrow> unit transport" where
  "stub r rq n = (r, n)"

section \<open>The axios transport\<close>

record http_response =
  status :: nat
  status_text :: string
  body :: jsval

datatype answer = Answer http_response | NoAnswer string

definition response_obj :: "http_response \<Rightarrow> jsval" where
  "response_obj r =
     JObj [(''data'', body r), (''status'', JNum (int (status r))), (''statusText'', JStr (status_text r))]"

definition axios_settle :: "answer \<Rightarrow> thrown + jsval" where
  "axios_settle a =
     (case a of
        Answer r \<Rightarrow>
          if 200 \<le> status r \<and> status r < 300 then Inr (response_obj r)
          else Inl (JSError ''AxiosError'' (''Request failed with status code '' @ nat_to_dec (status r))
                      [(''response'', response_obj r)])
      | NoAnswer msg \<Rightarrow> Inl (JSError ''AxiosError'' msg []))"

definition axios :: "(request \<Rightarrow> 'w \<Rightarrow> answer \<times> 'w) \<Rightarrow> 'w transport" where
  "axios server rq w = (let (a, w') = server rq w in (axios_settle a, w'))"

lemma axios_resolve:
  "server rq w = (Answer r, w') \<Longrightarrow> 200 \<le> status r \<Longrightarrow> status r < 300 \<Longrightarrow>
   axios server rq w = (Inr (response_obj r), w')"
  by (simp add: axios_def axios_settle_def)

lemma axios_reject:
  "server rq w = (Answer r, w') \<Longrightarrow> \<not> (200 \<le> status r \<and> status r < 300) \<Longrightarrow>
   axios server rq w = (Inl (JSError ''AxiosError'' (''Request failed with status code '' @ nat_to_dec (status r))
                           [(''response'', response_obj r)]), w')"
  by (simp add: axios_def axios_settle_def)

end
