(* ===== verification/ClientCore.thy ===== *)
theory ClientCore
  imports Http
begin

text \<open>
  The core of class \<open>CachetAPI\<close> (src/src/CachetAPI.js): the instance state set up by the
  constructor, the request every method sends through its axios instance, the error
  normalisation of \<open>createError\<close>, and the two shapes of result unwrapping that the
  methods share (\<open>response.data.data\<close>, and \<open>response.data\<close> when \<open>with_meta\<close> is
  truthy).
\<close>

section \<open>Instance state and constructor\<close>

text \<open>\<open>this.options\<close> and the axios instance \<open>this.api\<close>, kept as its base URL and headers.\<close>

record cachet_api =
  options :: jsval
  api_base :: jsval
  api_headers :: "(string \<times> jsval) list"

definition url_required :: thrown where
  "url_required = JSError ''Error'' ''Error! options.url a is required option!'' []"

definition CachetAPI_constructor :: "jsval \<Rightarrow> thrown + cachet_api" where
  "CachetAPI_constructor opts =
     (if \<not> truthy opts then Inl url_required
      else sum_bind (js_get opts ''url'') (\<lambda>url.
        if \<not> truthy url then Inl url_required
        else sum_bind (js_get opts ''apiToken'') (\<lambda>token.
          Inr \<lparr>options = opts, api_base = url, api_headers = [(''X-Cachet-Token'', token)]\<rparr>)))"

text \<open>The instance the test suite builds (\<open>new CachetAPI({url: ..., apiToken: ...})\<close>).\<close>

definition test_options :: jsval where
  "test_options = JObj [(''url'', JStr ''https://demo.cachethq.io/api''), (''apiToken'', JStr ''9yMHsdioQosnyVK4iCVR'')]"

definition test_api :: cachet_api where
  "test_api = \<lparr>options = test_options, api_base = JStr ''https://demo.cachethq.io/api'',
               api_headers = [(''X-Cachet-Token'', JStr ''9yMHsdioQosnyVK4iCVR'')]\<rparr>"

section \<open>Requests\<close>

text \<open>\<open>this.api.get(url)\<close> and its kin: one request on the instance's base URL and headers.\<close>

definition api_request ::
  "'w transport \<Rightarrow> cachet_api \<Rightarrow> http_method \<Rightarrow> string \<Rightarrow> jsval \<Rightarrow> ('w world, thrown + jsval) state" where
  "api_request tr c m url d =
     send tr \<lparr>req_method = m, req_base = api_base c, req_headers = api_headers c, req_url = url, req_data = d\<rparr>"

section \<open>Error normalisation\<close>

text \<open>The diagnostic built from \<open>error.response\<close> when it is truthy.\<close>

definition response_text :: "jsval \<Rightarrow> thrown + string" where
  "response_text resp =
     sum_bind (js_get resp ''status'') (\<lambda>st.
     sum_bind (js_get resp ''statusText'') (\<lambda>stx.
     sum_bind (js_get resp ''data'') (\<lambda>d.
       Inr ((if truthy st then js_to_string st @ '' '' else [])
            @ (if truthy stx then js_to_string stx @ '' | '' else [])
            @ (if truthy d then (case json_stringify d of None \<Rightarrow> ''undefined'' | Some t \<Rightarrow> t)
               else [])))))"

text \<open>\<open>extraErrorText\<close>: from the response if \<open>error && error.response\<close>, else
  \<open>error.toString()\<close>, which throws on a thrown \<open>undefined\<close> or \<open>null\<close>.\<close>

definition error_text :: "thrown \<Rightarrow> thrown + string" where
  "error_text error =
     (let resp = (if thrown_truthy error then thrown_get error ''response'' else Inr JUndef) in
      case resp of
        Inl ex \<Rightarrow> Inl ex
      | Inr r \<Rightarrow> if thrown_truthy error \<and> truthy r then response_text r else thrown_to_string error)"

text \<open>The normalised error: \<open>new Error("Unable to " + type + " " + url + ": " + extra)\<close>.\<close>

definition unable_to :: "string \<Rightarrow> string \<Rightarrow> string \<Rightarrow> thrown" where
  "unable_to type url extra = JSError ''Error'' (''Unable to '' @ type @ '' '' @ url @ '': '' @ extra) []"

text \<open>
  \<open>createError(url, type, error)\<close>: the exception the caller's \<open>throw\<close> raises, either
  the new \<open>Error\<close> (after \<open>console.error(error)\<close>) or the TypeError thrown while
  building its text, before anything is logged.
\<close>

definition createError :: "string \<Rightarrow> string \<Rightarrow> thrown \<Rightarrow> ('w world, thrown) state" where
  "createError url type error =
     (case error_text error of
        Inl ex \<Rightarrow> State_Monad.return ex
      | Inr extra \<Rightarrow> do {
          log_error error;
          State_Monad.return (JSError ''Error'' (''Unable to '' @ type @ '' '' @ url @ '': '' @ extra) [])
        })"

text \<open>\<open>catch (e) { throw this.createError(url, type, e) }\<close>.\<close>

definition rethrow :: "string \<Rightarrow> string \<Rightarrow> thrown \<Rightarrow> ('w world, thrown + jsval) state" where
  "rethrow url type e = do { ex \<leftarrow> createError url type e; State_Monad.return (Inl ex) }"

section \<open>Unwrapping the envelopes\<close>

text \<open>\<open>response.data.data\<close>: the axios envelope, then the Cachet envelope.\<close>

definition unwrap_data :: "jsval \<Rightarrow> thrown + jsval" where
  "unwrap_data response = sum_bind (js_get response ''data'') (\<lambda>d. js_get d ''data'')"

text \<open>\<open>if (with_meta) return response.data else return response.data.data\<close>.\<close>

definition unwrap_meta :: "jsval \<Rightarrow> jsval \<Rightarrow> thrown + jsval" where
  "unwrap_meta with_meta response =
     (if truthy with_meta then js_get response ''data'' else unwrap_data response)"

section \<open>Reading a normalised error back\<close>

text \<open>
  The inverse of the message format of \<open>createError\<close>, as a caller that parses the
  diagnostic would write it: the verb up to the first space, the path up to the first
  colon, the diagnostic after the following space.
\<close>

definition parse_unable_to :: "string \<Rightarrow> (string \<times> string \<times> string) option" where
  "parse_unable_to msg =
     (case strip_prefix ''Unable to '' msg of
        None \<Rightarrow> None
      | Some r \<Rightarrow>
          (case split_at CHR '' '' r of
             None \<Rightarrow> None
           | Some (type, r2) \<Rightarrow>
               (case split_at CHR '':'' r2 of
                  None \<Rightarrow> None
                | Some (url, r3) \<Rightarrow> map_option (\<lambda>extra. (type, url, extra)) (strip_prefix '' '' r3))))"

section \<open>Lemmas\<close>

lemma unwrap_meta_falsy [simp]: "\<not> truthy raw \<Longrightarrow> unwrap_meta raw resp = unwrap_data resp"
  by (simp add: unwrap_meta_def)

lemma unwrap_meta_truthy [simp]: "truthy raw \<Longrightarrow> unwrap_meta raw resp = js_get resp ''data''"
  by (simp add: unwrap_meta_def)

lemma run_createError:
  "run_state (createError url type e) s =
     (case error_text e of
        Inl ex \<Rightarrow> (ex, s)
      | Inr extra \<Rightarrow> (unable_to type url extra, s\<lparr>console := console s @ [e]\<rparr>))"
  by (simp add: createError_def unable_to_def split: sum.splits)

lemma response_text_truthy: "truthy r \<Longrightarrow> \<exists>t. response_text r = Inr t"
  by (cases r) (auto simp: response_text_def)

lemma error_text_Error: "\<exists>extra. error_text (JSError n msg ps) = Inr extra"
  using response_text_truthy by (auto simp: error_text_def)

subsection \<open>The constructor\<close>

text \<open>
  C4: the constructor succeeds exactly on an object whose \<open>url\<close> property is truthy;
  the instance keeps the options, uses that url as the base URL and sends the
  \<open>apiToken\<close> property (\<open>undefined\<close> when absent) as the \<open>X-Cachet-Token\<close> header.
  Every other argument (absent, \<open>null\<close>, a primitive, an array, an object without a
  truthy url) makes it throw the configuration error, and it throws nothing else: the
  guard \<open>!options\<close> keeps \<open>options.url\<close> from raising a TypeError.
\<close>

theorem constructor_contract:
  "(CachetAPI_constructor opts = Inr c \<longleftrightarrow>
     (\<exists>ps u. opts = JObj ps \<and> map_of ps ''url'' = Some u \<and> truthy u \<and>
        c = \<lparr>options = opts, api_base = u,
             api_headers = [(''X-Cachet-Token'', case map_of ps ''apiToken'' of None \<Rightarrow> JUndef | Some t \<Rightarrow> t)]\<rparr>))
   \<and> CachetAPI_constructor opts \<in> insert (Inl url_required) (range Inr)"
  by (cases opts) (auto simp: CachetAPI_constructor_def split: option.splits)

theorem constructor_contract_witness:
  "CachetAPI_constructor test_options = Inr test_api"
  using constructor_contract [of test_options test_api]
  by (simp add: test_options_def test_api_def)

subsection \<open>createError\<close>

text \<open>
  C6: when the caught value is \<open>undefined\<close> or \<open>null\<close>, the guard
  \<open>error && error.response\<close> sends \<open>createError\<close> to \<open>error.toString()\<close>, which
  throws a TypeError: the caller sees that TypeError instead of the normalised error, and
  nothing is logged.
\<close>

theorem createError_thrown_undefined:
  "run_state (createError url type (Thrown JUndef)) s = (type_error_read JUndef ''toString'', s)
   \<and> run_state (createError url type (Thrown JNull)) s = (type_error_read JNull ''toString'', s)"
  by (simp add: run_createError error_text_def)

text \<open>
  C11: for a rejection that carries an HTTP response (an axios error for a non-2xx
  status), the diagnostic is the status code and a space when the code is non-zero, the
  status text and \<open>" | "\<close> when it is non-empty, and the JSON serialisation of the body
  when the body is truthy.
\<close>

theorem error_text_http_response:
  "error_text (JSError n msg [(''response'', response_obj r)]) =
     Inr ((if status r = 0 then [] else nat_to_dec (status r) @ '' '')
          @ (if status_text r = [] then [] else status_text r @ '' | '')
          @ (if truthy (body r) then (case json_stringify (body r) of None \<Rightarrow> ''undefined'' | Some t \<Rightarrow> t)
             else []))"
  by (simp add: error_text_def response_text_def response_obj_def int_to_dec_def)

text \<open>
  C12: the message of a normalised error can be read back: a parser recovers the verb,
  the path and the diagnostic, provided the verb has no space and the path no colon.
\<close>

theorem unable_to_message_roundtrip:
  assumes "CHR '' '' \<notin> set type" and "CHR '':'' \<notin> set url"
  shows "parse_unable_to (err_message (unable_to type url extra)) = Some (type, url, extra)"
proof -
  have msg: "err_message (unable_to type url extra)
      = ''Unable to '' @ (type @ CHR '' '' # (url @ CHR '':'' # CHR '' '' # extra))"
    by (simp add: unable_to_def)
  have "split_at CHR '' '' (type @ CHR '' '' # (url @ CHR '':'' # CHR '' '' # extra))
      = Some (type, url @ CHR '':'' # CHR '' '' # extra)"
    using assms(1) by (rule split_at_append)
  moreover have "split_at CHR '':'' (url @ CHR '':'' # CHR '' '' # extra) = Some (url, CHR '' '' # extra)"
    using assms(2) by (rule split_at_append)
  ultimately show ?thesis
    by (simp only: msg parse_unable_to_def strip_prefix_append) simp
qed

theorem unable_to_message_roundtrip_witness:
  "CHR '' '' \<notin> set ''GET'' \<and> CHR '':'' \<notin> set ''/v1/components/7''
   \<and> parse_unable_to (err_message (unable_to ''GET'' ''/v1/components/7'' ''404 Not Found | {}''))
       = Some (''GET'', ''/v1/components/7'', ''404 Not Found | {}'')"
  using unable_to_message_roundtrip [of "''GET''" "''/v1/components/7''" "''404 Not Found | {}''"]
  by simp

end
