(* ===== verification/Resources.thy ===== *)
theory Resources
  imports ClientCore
begin

text \<open>
  The 32 request methods of class \<open>CachetAPI\<close> (src/src/CachetAPI.js), in the order of
  the source, one definition each: the path built by string concatenation, the single
  request through the axios instance, the \<open>catch\<close> that rethrows through
  \<open>createError\<close> with the method's verb, and the unwrapping of the result. A method
  takes the transport and the instance (\<open>this\<close>) first, then the JavaScript arguments.
  \<open>api_op\<close> names every method with its arguments and \<open>invoke\<close> dispatches a call.
\<close>

section \<open>General\<close>

definition ping :: "'w transport \<Rightarrow> cachet_api \<Rightarrow> ('w world, thrown + jsval) state" where
  "ping tr c = do {
     let url = ''/v1/ping'';
     r \<leftarrow> api_request tr c GET url JUndef;
     case r of
       Inl e \<Rightarrow> rethrow url ''GET'' e
     | Inr response \<Rightarrow> State_Monad.return (unwrap_data response)
   }"

definition getVersion :: "'w transport \<Rightarrow> cachet_api \<Rightarrow> jsval \<Rightarrow> ('w world, thrown + jsval) state" where
  "getVersion tr c with_meta = do {
     let url = ''/v1/version'';
     r \<leftarrow> api_request tr c GET url JUndef;
     case r of
       Inl e \<Rightarrow> rethrow url ''GET'' e
     | Inr response \<Rightarrow> State_Monad.return (unwrap_meta with_meta response)
   }"

section \<open>Components\<close>

definition getComponents :: "'w transport \<Rightarrow> cachet_api \<Rightarrow> jsval \<Rightarrow> ('w world, thrown + jsval) state" where
  "getComponents tr c with_meta = do {
     let url = ''/v1/components'';
     r \<leftarrow> api_request tr c GET url JUndef;
     case r of
       Inl e \<Rightarrow> rethrow url ''GET'' e
     | Inr response \<Rightarrow> State_Monad.return (unwrap_meta with_meta response)
   }"

definition getComponent :: "'w transport \<Rightarrow> cachet_api \<Rightarrow> jsval \<Rightarrow> ('w world, thrown + jsval) state" where
  "getComponent tr c component_id = do {
     let url = ''/v1/components/'' @ js_to_string component_id;
     r \<leftarrow> api_request tr c GET url JUndef;
     case r of
       Inl e \<Rightarrow> rethrow url ''GET'' e
     | Inr response \<Rightarrow> State_Monad.return (unwrap_data response)
   }"

definition addComponent :: "'w transport \<Rightarrow> cachet_api \<Rightarrow> jsval \<Rightarrow> ('w world, thrown + jsval) state" where
  "addComponent tr c component = do {
     let url = ''/v1/components'';
     r \<leftarrow> api_request tr c POST url component;
     case r of
       Inl e \<Rightarrow> rethrow url ''POST'' e
     | Inr response \<Rightarrow> State_Monad.return (unwrap_data response)
   }"

definition updateComponent :: "'w transport \<Rightarrow> cachet_api \<Rightarrow> jsval \<Rightarrow> jsval \<Rightarrow> ('w world, thrown + jsval) state" where
  "updateComponent tr c component_id component = do {
     let url = ''/v1/components/'' @ js_to_string component_id;
     r \<leftarrow> api_request tr c PUT url component;
     case r of
       Inl e \<Rightarrow> rethrow url ''PUT'' e
     | Inr response \<Rightarrow> State_Monad.return (unwrap_data response)
   }"

definition deleteComponent :: "'w transport \<Rightarrow> cachet_api \<Rightarrow> jsval \<Rightarrow> ('w world, thrown + jsval) state" where
  "deleteComponent tr c component_id = do {
     let url = ''/v1/components/'' @ js_to_string component_id;
     r \<leftarrow> api_request tr c DELETE url JUndef;
     case r of
       Inl e \<Rightarrow> rethrow url ''DELETE'' e
     | Inr response \<Rightarrow> State_Monad.return (Inr (JBool True))
   }"

section \<open>Component Groups\<close>

definition getComponentGroups :: "'w transport \<Rightarrow> cachet_api \<Rightarrow> jsval \<Rightarrow> ('w world, thrown + jsval) state" where
  "getComponentGroups tr c with_meta = do {
     let url = ''/v1/components/groups'';
     r \<leftarrow> api_request tr c GET url JUndef;
     case r of
       Inl e \<Rightarrow> rethrow url ''GET'' e
     | Inr response \<Rightarrow> State_Monad.return (unwrap_meta with_meta response)
   }"

definition getComponentGroup :: "'w transport \<Rightarrow> cachet_api \<Rightarrow> jsval \<Rightarrow> ('w world, thrown + jsval) state" where
  "getComponentGroup tr c group_id = do {
     let url = ''/v1/components/groups/'' @ js_to_string group_id;
     r \<leftarrow> api_request tr c GET url JUndef;
     case r of
       Inl e \<Rightarrow> rethrow url ''GET'' e
     | Inr response \<Rightarrow> State_Monad.return (unwrap_data response)
   }"

definition addComponentGroup :: "'w transport \<Rightarrow> cachet_api \<Rightarrow> jsval \<Rightarrow> ('w world, thrown + jsval) state" where
  "addComponentGroup tr c group' = do {
     let url = ''/v1/components/groups'';
     r \<leftarrow> api_request tr c POST url group';
     case r of
       Inl e \<Rightarrow> rethrow url ''POST'' e
     | Inr response \<Rightarrow> State_Monad.return (unwrap_data response)
   }"

definition updateComponentGroup :: "'w transport \<Rightarrow> cachet_api \<Rightarrow> jsval \<Rightarrow> jsval \<Rightarrow> ('w world, thrown + jsval) state" where
  "updateComponentGroup tr c group_id group' = do {
     let url = ''/v1/components/groups/'' @ js_to_string group_id;
     r \<leftarrow> api_request tr c PUT url group';
     case r of
       Inl e \<Rightarrow> rethrow url ''PUT'' e
     | Inr response \<Rightarrow> State_Monad.return (unwrap_data response)
   }"

definition deleteComponentGroup :: "'w transport \<Rightarrow> cachet_api \<Rightarrow> jsval \<Rightarrow> ('w world, thrown + jsval) state" where
  "deleteComponentGroup tr c group_id = do {
     let url = ''/v1/components/groups/'' @ js_to_string group_id;
     r \<leftarrow> api_request tr c DELETE url JUndef;
     case r of
       Inl e \<Rightarrow> rethrow url ''DELETE'' e
     | Inr response \<Rightarrow> State_Monad.return (Inr (JBool True))
   }"

section \<open>Incidents\<close>

definition getIncidents :: "'w transport \<Rightarrow> cachet_api \<Rightarrow> jsval \<Rightarrow> ('w world, thrown + jsval) state" where
  "getIncidents tr c with_meta = do {
     let url = ''/v1/incidents'';
     r \<leftarrow> api_request tr c GET url JUndef;
     case r of
       Inl e \<Rightarrow> rethrow url ''GET'' e
     | Inr response \<Rightarrow> State_Monad.return (unwrap_meta with_meta response)
   }"

definition getIncident :: "'w transport \<Rightarrow> cachet_api \<Rightarrow> jsval \<Rightarrow> ('w world, thrown + jsval) state" where
  "getIncident tr c incident_id = do {
     let url = ''/v1/incidents/'' @ js_to_string incident_id;
     r \<leftarrow> api_request tr c GET url JUndef;
     case r of
       Inl e \<Rightarrow> rethrow url ''GET'' e
     | Inr response \<Rightarrow> State_Monad.return (unwrap_data response)
   }"

definition addIncident :: "'w transport \<Rightarrow> cachet_api \<Rightarrow> jsval \<Rightarrow> ('w world, thrown + jsval) state" where
  "addIncident tr c incident = do {
     let url = ''/v1/incidents'';
     r \<leftarrow> api_request tr c POST url incident;
     case r of
       Inl e \<Rightarrow> rethrow url ''POST'' e
     | Inr response \<Rightarrow> State_Monad.return (unwrap_data response)
   }"

definition updateIncident :: "'w transport \<Rightarrow> cachet_api \<Rightarrow> jsval \<Rightarrow> jsval \<Rightarrow> ('w world, thrown + jsval) state" where
  "updateIncident tr c incident_id incident = do {
     let url = ''/v1/incidents/'' @ js_to_string incident_id;
     r \<leftarrow> api_request tr c PUT url incident;
     case r of
       Inl e \<Rightarrow> rethrow url ''PUT'' e
     | Inr response \<Rightarrow> State_Monad.return (unwrap_data response)
   }"

definition deleteIncident :: "'w transport \<Rightarrow> cachet_api \<Rightarrow> jsval \<Rightarrow> ('w world, thrown + jsval) state" where
  "deleteIncident tr c incident_id = do {
     let url = ''/v1/incidents/'' @ js_to_string incident_id;
     r \<leftarrow> api_request tr c DELETE url JUndef;
     case r of
       Inl e \<Rightarrow> rethrow url ''DELETE'' e
     | Inr response \<Rightarrow> State_Monad.return (Inr (JBool True))
   }"

section \<open>Incident Updates\<close>

definition getIncidentUpdates :: "'w transport \<Rightarrow> cachet_api \<Rightarrow> jsval \<Rightarrow> jsval \<Rightarrow> ('w world, thrown + jsval) state" where
  "getIncidentUpdates tr c incident_id with_meta = do {
     let url = ''/v1/incidents/'' @ js_to_string incident_id @ ''/updates'';
     r \<leftarrow> api_request tr c GET url JUndef;
     case r of
       Inl e \<Rightarrow> rethrow url ''GET'' e
     | Inr response \<Rightarrow> State_Monad.return (unwrap_meta with_meta response)
   }"

definition getIncidentUpdate :: "'w transport \<Rightarrow> cachet_api \<Rightarrow> jsval \<Rightarrow> jsval \<Rightarrow> ('w world, thrown + jsval) state" where
  "getIncidentUpdate tr c incident_id update_id = do {
     let url = ''/v1/incidents/'' @ js_to_string incident_id @ ''/updates/'' @ js_to_string update_id;
     r \<leftarrow> api_request tr c GET url JUndef;
     case r of
       Inl e \<Rightarrow> rethrow url ''GET'' e
     | Inr response \<Rightarrow> State_Monad.return (unwrap_data response)
   }"

definition addIncidentUpdate :: "'w transport \<Rightarrow> cachet_api \<Rightarrow> jsval \<Rightarrow> jsval \<Rightarrow> ('w world, thrown + jsval) state" where
  "addIncidentUpdate tr c incident_id update = do {
     let url = ''/v1/incidents/'' @ js_to_string incident_id @ ''/updates'';
     r \<leftarrow> api_request tr c POST url update;
     case r of
       Inl e \<Rightarrow> rethrow url ''POST'' e
     | Inr response \<Rightarrow> State_Monad.return (unwrap_data response)
   }"

definition updateIncidentUpdate :: "'w transport \<Rightarrow> cachet_api \<Rightarrow> jsval \<Rightarrow> jsval \<Rightarrow> jsval \<Rightarrow> ('w world, thrown + jsval) state" where
  "updateIncidentUpdate tr c incident_id update_id update = do {
     let url = ''/v1/incidents/'' @ js_to_string incident_id @ ''/updates/'' @ js_to_string update_id;
     r \<leftarrow> api_request tr c PUT url update;
     case r of
       Inl e \<Rightarrow> rethrow url ''PUT'' e
     | Inr response \<Rightarrow> State_Monad.return (unwrap_data response)
   }"

definition deleteIncidentUpdate :: "'w transport \<Rightarrow> cachet_api \<Rightarrow> jsval \<Rightarrow> jsval \<Rightarrow> ('w world, thrown + jsval) state" where
  "deleteIncidentUpdate tr c incident_id update_id = do {
     let url = ''/v1/incidents/'' @ js_to_string incident_id @ ''/updates/'' @ js_to_string update_id;
     r \<leftarrow> api_request tr c DELETE url JUndef;
     case r of
       Inl e \<Rightarrow> rethrow url ''DELETE'' e
     | Inr response \<Rightarrow> State_Monad.return (Inr (JBool True))
   }"

section \<open>Metrics\<close>

definition getMetrics :: "'w transport \<Rightarrow> cachet_api \<Rightarrow> jsval \<Rightarrow> ('w world, thrown + jsval) state" where
  "getMetrics tr c with_meta = do {
     let url = ''/v1/metrics'';
     r \<leftarrow> api_request tr c GET url JUndef;
     case r of
       Inl e \<Rightarrow> rethrow url ''GET'' e
     | Inr response \<Rightarrow> State_Monad.return (unwrap_meta with_meta response)
   }"

definition getMetric :: "'w transport \<Rightarrow> cachet_api \<Rightarrow> jsval \<Rightarrow> ('w world, thrown + jsval) state" where
  "getMetric tr c metric_id = do {
     let url = ''/v1/metrics/'' @ js_to_string metric_id;
     r \<leftarrow> api_request tr c GET url JUndef;
     case r of
       Inl e \<Rightarrow> rethrow url ''GET'' e
     | Inr response \<Rightarrow> State_Monad.return (unwrap_data response)
   }"

definition addMetric :: "'w transport \<Rightarrow> cachet_api \<Rightarrow> jsval \<Rightarrow> ('w world, thrown + jsval) state" where
  "addMetric tr c metric = do {
     let url = ''/v1/metrics'';
     r \<leftarrow> api_request tr c POST url metric;
     case r of
       Inl e \<Rightarrow> rethrow url ''POST'' e
     | Inr response \<Rightarrow> State_Monad.return (unwrap_data response)
   }"

definition deleteMetric :: "'w transport \<Rightarrow> cachet_api \<Rightarrow> jsval \<Rightarrow> ('w world, thrown + jsval) state" where
  "deleteMetric tr c metric_id = do {
     let url = ''/v1/metrics/'' @ js_to_string metric_id;
     r \<leftarrow> api_request tr c DELETE url JUndef;
     case r of
       Inl e \<Rightarrow> rethrow url ''DELETE'' e
     | Inr response \<Rightarrow> State_Monad.return (Inr (JBool True))
   }"

section \<open>Metric Points\<close>

definition getMetricPoints :: "'w transport \<Rightarrow> cachet_api \<Rightarrow> jsval \<Rightarrow> ('w world, thrown + jsval) state" where
  "getMetricPoints tr c metric_id = do {
     let url = ''/v1/metrics/'' @ js_to_string metric_id @ ''/points'';
     r \<leftarrow> api_request tr c GET url JUndef;
     case r of
       Inl e \<Rightarrow> rethrow url ''GET'' e
     | Inr response \<Rightarrow> State_Monad.return (unwrap_data response)
   }"

definition addMetricPoint :: "'w transport \<Rightarrow> cachet_api \<Rightarrow> jsval \<Rightarrow> jsval \<Rightarrow> ('w world, thrown + jsval) state" where
  "addMetricPoint tr c metric_id point = do {
     let url = ''/v1/metrics/'' @ js_to_string metric_id @ ''/points'';
     r \<leftarrow> api_request tr c POST url point;
     case r of
       Inl e \<Rightarrow> rethrow url ''POST'' e
     | Inr response \<Rightarrow> State_Monad.return (unwrap_data response)
   }"

definition deleteMetricPoint :: "'w transport \<Rightarrow> cachet_api \<Rightarrow> jsval \<Rightarrow> jsval \<Rightarrow> ('w world, thrown + jsval) state" where
  "deleteMetricPoint tr c metric_id point_id = do {
     let url = ''/v1/metrics/'' @ js_to_string metric_id @ ''/points/'' @ js_to_string point_id;
     r \<leftarrow> api_request tr c DELETE url JUndef;
     case r of
       Inl e \<Rightarrow> rethrow url ''DELETE'' e
     | Inr response \<Rightarrow> State_Monad.return (Inr (JBool True))
   }"

section \<open>Subscribers\<close>

definition getSubscribers :: "'w transport \<Rightarrow> cachet_api \<Rightarrow> ('w world, thrown + jsval) state" where
  "getSubscribers tr c = do {
     let url = ''/v1/subscribers'';
     r \<leftarrow> api_request tr c GET url JUndef;
     case r of
       Inl e \<Rightarrow> rethrow url ''GET'' e
     | Inr response \<Rightarrow> State_Monad.return (unwrap_data response)
   }"

definition addSubscriber :: "'w transport \<Rightarrow> cachet_api \<Rightarrow> jsval \<Rightarrow> ('w world, thrown + jsval) state" where
  "addSubscriber tr c subscriber = do {
     let url = ''/v1/subscribers'';
     r \<leftarrow> api_request tr c POST url subscriber;
     case r of
       Inl e \<Rightarrow> rethrow url ''POST'' e
     | Inr response \<Rightarrow> State_Monad.return (unwrap_data response)
   }"

definition deleteSubscriber :: "'w transport \<Rightarrow> cachet_api \<Rightarrow> jsval \<Rightarrow> ('w world, thrown + jsval) state" where
  "deleteSubscriber tr c subscriber_id = do {
     let url = ''/v1/subscribers/'' @ js_to_string subscriber_id;
     r \<leftarrow> api_request tr c DELETE url JUndef;
     case r of
       Inl e \<Rightarrow> rethrow url ''DELETE'' e
     | Inr response \<Rightarrow> State_Monad.return (Inr (JBool True))
   }"

section \<open>The method table\<close>

datatype api_op =
    OpPing
  | OpGetVersion jsval
  | OpGetComponents jsval
  | OpGetComponent jsval
  | OpAddComponent jsval
  | OpUpdateComponent jsval jsval
  | OpDeleteComponent jsval
  | OpGetComponentGroups jsval
  | OpGetComponentGroup jsval
  | OpAddComponentGroup jsval
  | OpUpdateComponentGroup jsval jsval
  | OpDeleteComponentGroup jsval
  | OpGetIncidents jsval
  | OpGetIncident jsval
  | OpAddIncident jsval
  | OpUpdateIncident jsval jsval
  | OpDeleteIncident jsval
  | OpGetIncidentUpdates jsval jsval
  | OpGetIncidentUpdate jsval jsval
  | OpAddIncidentUpdate jsval jsval
  | OpUpdateIncidentUpdate jsval jsval jsval
  | OpDeleteIncidentUpdate jsval jsval
  | OpGetMetrics jsval
  | OpGetMetric jsval
  | OpAddMetric jsval
  | OpDeleteMetric jsval
  | OpGetMetricPoints jsval
  | OpAddMetricPoint jsval jsval
  | OpDeleteMetricPoint jsval jsval
  | OpGetSubscribers
  | OpAddSubscriber jsval
  | OpDeleteSubscriber jsval

fun invoke :: "'w transport \<Rightarrow> cachet_api \<Rightarrow> api_op \<Rightarrow> ('w world, thrown + jsval) state" where
  "invoke tr c OpPing = ping tr c"
| "invoke tr c (OpGetVersion with_meta) = getVersion tr c with_meta"
| "invoke tr c (OpGetComponents with_meta) = getComponents tr c with_meta"
| "invoke tr c (OpGetComponent component_id) = getComponent tr c component_id"
| "invoke tr c (OpAddComponent component) = addComponent tr c component"
| "invoke tr c (OpUpdateComponent component_id component) = updateComponent tr c component_id component"
| "invoke tr c (OpDeleteComponent component_id) = deleteComponent tr c component_id"
| "invoke tr c (OpGetComponentGroups with_meta) = getComponentGroups tr c with_meta"
| "invoke tr c (OpGetComponentGroup group_id) = getComponentGroup tr c group_id"
| "invoke tr c (OpAddComponentGroup group') = addComponentGroup tr c group'"
| "invoke tr c (OpUpdateComponentGroup group_id group') = updateComponentGroup tr c group_id group'"
| "invoke tr c (OpDeleteComponentGroup group_id) = deleteComponentGroup tr c group_id"
| "invoke tr c (OpGetIncidents with_meta) = getIncidents tr c with_meta"
| "invoke tr c (OpGetIncident incident_id) = getIncident tr c incident_id"
| "invoke tr c (OpAddIncident incident) = addIncident tr c incident"
| "invoke tr c (OpUpdateIncident incident_id incident) = updateIncident tr c incident_id incident"
| "invoke tr c (OpDeleteIncident incident_id) = deleteIncident tr c incident_id"
| "invoke tr c (OpGetIncidentUpdates incident_id with_meta) = getIncidentUpdates tr c incident_id with_meta"
| "invoke tr c (OpGetIncidentUpdate incident_id update_id) = getIncidentUpdate tr c incident_id update_id"
| "invoke tr c (OpAddIncidentUpdate incident_id update) = addIncidentUpdate tr c incident_id update"
| "invoke tr c (OpUpdateIncidentUpdate incident_id update_id update) = updateIncidentUpdate tr c incident_id update_id update"
| "invoke tr c (OpDeleteIncidentUpdate incident_id update_id) = deleteIncidentUpdate tr c incident_id update_id"
| "invoke tr c (OpGetMetrics with_meta) = getMetrics tr c with_meta"
| "invoke tr c (OpGetMetric metric_id) = getMetric tr c metric_id"
| "invoke tr c (OpAddMetric metric) = addMetric tr c metric"
| "invoke tr c (OpDeleteMetric metric_id) = deleteMetric tr c metric_id"
| "invoke tr c (OpGetMetricPoints metric_id) = getMetricPoints tr c metric_id"
| "invoke tr c (OpAddMetricPoint metric_id point) = addMetricPoint tr c metric_id point"
| "invoke tr c (OpDeleteMetricPoint metric_id point_id) = deleteMetricPoint tr c metric_id point_id"
| "invoke tr c OpGetSubscribers = getSubscribers tr c"
| "invoke tr c (OpAddSubscriber subscriber) = addSubscriber tr c subscriber"
| "invoke tr c (OpDeleteSubscriber subscriber_id) = deleteSubscriber tr c subscriber_id"

declare ping_def [api_defs] getVersion_def [api_defs] getComponents_def [api_defs] getComponent_def [api_defs] addComponent_def [api_defs] updateComponent_def [api_defs] deleteComponent_def [api_defs] getComponentGroups_def [api_defs] getComponentGroup_def [api_defs] addComponentGroup_def [api_defs] updateComponentGroup_def [api_defs] deleteComponentGroup_def [api_defs] getIncidents_def [api_defs] getIncident_def [api_defs] addIncident_def [api_defs] updateIncident_def [api_defs] deleteIncident_def [api_defs] getIncidentUpdates_def [api_defs] getIncidentUpdate_def [api_defs] addIncidentUpdate_def [api_defs] updateIncidentUpdate_def [api_defs] deleteIncidentUpdate_def [api_defs] getMetrics_def [api_defs] getMetric_def [api_defs] addMetric_def [api_defs] deleteMetric_def [api_defs] getMetricPoints_def [api_defs] addMetricPoint_def [api_defs] deleteMetricPoint_def [api_defs] getSubscribers_def [api_defs] addSubscriber_def [api_defs] deleteSubscriber_def [api_defs]

end
