(* ===== verification/ApiSpec.thy ===== *)
theory ApiSpec
  imports Resources
begin

text \<open>
  The abstract contract of the client (spec.md sections 4.2, 4.3 and 6): a uniform
  operation shape (list, get, create, update, delete) over resource families with their
  collection paths, nested families carrying their parent id, the HTTP verb of each
  action, the body it sends, and the result it returns (both envelopes stripped, only
  the transport envelope stripped in raw mode, \<open>true\<close> for a delete). \<open>spec_call\<close>
  is one request of that shape, normalised through \<open>createError\<close> on failure.
  \<open>implemented_by\<close> names the method of the source that implements an abstract
  operation, where there is one; the refinement lemmas show that every method is such an
  implementation and agrees with the contract.
\<close>

datatype family =
    Components
  | ComponentGroups
  | Incidents
  | IncidentUpdates jsval
  | Metrics
  | MetricPoints jsval
  | Subscribers

datatype action = List jsval | Get jsval | Create jsval | Update jsval jsval | Delete jsval

datatype spec_op = SPing | SVersion jsval | Resource family action

fun collection :: "family \<Rightarrow> string" where
  "collection Components = ''/v1/components''"
| "collection ComponentGroups = ''/v1/components/groups''"
| "collection Incidents = ''/v1/incidents''"
| "collection (IncidentUpdates p) = ''/v1/incidents/'' @ js_to_string p @ ''/updates''"
| "collection Metrics = ''/v1/metrics''"
| "collection (MetricPoints p) = ''/v1/metrics/'' @ js_to_string p @ ''/points''"
| "collection Subscribers = ''/v1/subscribers''"

fun action_method :: "action \<Rightarrow> http_method" where
  "action_method (List raw) = GET"
| "action_method (Get i) = GET"
| "action_method (Create b) = POST"
| "action_method (Update i b) = PUT"
| "action_method (Delete i) = DELETE"

fun spec_method :: "spec_op \<Rightarrow> http_method" where
  "spec_method SPing = GET"
| "spec_method (SVersion raw) = GET"
| "spec_method (Resource f a) = action_method a"

fun spec_path :: "spec_op \<Rightarrow> string" where
  "spec_path SPing = ''/v1/ping''"
| "spec_path (SVersion raw) = ''/v1/version''"
| "spec_path (Resource f (List raw)) = collection f"
| "spec_path (Resource f (Create b)) = collection f"
| "spec_path (Resource f (Get i)) = collection f @ ''/'' @ js_to_string i"
| "spec_path (Resource f (Update i b)) = collection f @ ''/'' @ js_to_string i"
| "spec_path (Resource f (Delete i)) = collection f @ ''/'' @ js_to_string i"

fun spec_data :: "spec_op \<Rightarrow> jsval" where
  "spec_data (Resource f (Create b)) = b"
| "spec_data (Resource f (Update i b)) = b"
| "spec_data op = JUndef"

fun spec_result :: "spec_op \<Rightarrow> jsval \<Rightarrow> thrown + jsval" where
  "spec_result (SVersion raw) resp = unwrap_meta raw resp"
| "spec_result (Resource f (List raw)) resp = unwrap_meta raw resp"
| "spec_result (Resource f (Delete i)) resp = Inr (JBool True)"
| "spec_result op resp = unwrap_data resp"

definition spec_call :: "'w transport \<Rightarrow> cachet_api \<Rightarrow> spec_op \<Rightarrow> ('w world, thrown + jsval) state" where
  "spec_call tr c op = do {
     r \<leftarrow> api_request tr c (spec_method op) (spec_path op) (spec_data op);
     case r of
       Inl e \<Rightarrow> rethrow (spec_path op) (method_name (spec_method op)) e
     | Inr response \<Rightarrow> State_Monad.return (spec_result op response)
   }"

text \<open>The method of the source implementing an abstract operation.\<close>

fun implemented_by :: "spec_op \<Rightarrow> api_op option" where
  "implemented_by SPing = Some OpPing"
| "implemented_by (SVersion raw) = Some (OpGetVersion raw)"
| "implemented_by (Resource Components (List raw)) = Some (OpGetComponents raw)"
| "implemented_by (Resource Components (Get i)) = Some (OpGetComponent i)"
| "implemented_by (Resource Components (Create b)) = Some (OpAddComponent b)"
| "implemented_by (Resource Components (Update i b)) = Some (OpUpdateComponent i b)"
| "implemented_by (Resource Components (Delete i)) = Some (OpDeleteComponent i)"
| "implemented_by (Resource ComponentGroups (List raw)) = Some (OpGetComponentGroups raw)"
| "implemented_by (Resource ComponentGroups (Get i)) = Some (OpGetComponentGroup i)"
| "implemented_by (Resource ComponentGroups (Create b)) = Some (OpAddComponentGroup b)"
| "implemented_by (Resource ComponentGroups (Update i b)) = Some (OpUpdateComponentGroup i b)"
| "implemented_by (Resource ComponentGroups (Delete i)) = Some (OpDeleteComponentGroup i)"
| "implemented_by (Resource Incidents (List raw)) = Some (OpGetIncidents raw)"
| "implemented_by (Resource Incidents (Get i)) = Some (OpGetIncident i)"
| "implemented_by (Resource Incidents (Create b)) = Some (OpAddIncident b)"
| "implemented_by (Resource Incidents (Update i b)) = Some (OpUpdateIncident i b)"
| "implemented_by (Resource Incidents (Delete i)) = Some (OpDeleteIncident i)"
| "implemented_by (Resource (IncidentUpdates p) (List raw)) = Some (OpGetIncidentUpdates p raw)"
| "implemented_by (Resource (IncidentUpdates p) (Get i)) = Some (OpGetIncidentUpdate p i)"
| "implemented_by (Resource (IncidentUpdates p) (Create b)) = Some (OpAddIncidentUpdate p b)"
| "implemented_by (Resource (IncidentUpdates p) (Update i b)) = Some (OpUpdateIncidentUpdate p i b)"
| "implemented_by (Resource (IncidentUpdates p) (Delete i)) = Some (OpDeleteIncidentUpdate p i)"
| "implemented_by (Resource Metrics (List raw)) = Some (OpGetMetrics raw)"
| "implemented_by (Resource Metrics (Get i)) = Some (OpGetMetric i)"
| "implemented_by (Resource Metrics (Create b)) = Some (OpAddMetric b)"
| "implemented_by (Resource Metrics (Update i b)) = None"
| "implemented_by (Resource Metrics (Delete i)) = Some (OpDeleteMetric i)"
| "implemented_by (Resource (MetricPoints p) (List raw)) = Some (OpGetMetricPoints p)"
| "implemented_by (Resource (MetricPoints p) (Get i)) = None"
| "implemented_by (Resource (MetricPoints p) (Create b)) = Some (OpAddMetricPoint p b)"
| "implemented_by (Resource (MetricPoints p) (Update i b)) = None"
| "implemented_by (Resource (MetricPoints p) (Delete i)) = Some (OpDeleteMetricPoint p i)"
| "implemented_by (Resource Subscribers (List raw)) = Some OpGetSubscribers"
| "implemented_by (Resource Subscribers (Get i)) = None"
| "implemented_by (Resource Subscribers (Create b)) = Some (OpAddSubscriber b)"
| "implemented_by (Resource Subscribers (Update i b)) = None"
| "implemented_by (Resource Subscribers (Delete i)) = Some (OpDeleteSubscriber i)"

text \<open>The list methods of the source that take no \<open>with_meta\<close> argument.\<close>

fun ignores_raw_flag :: "spec_op \<Rightarrow> bool" where
  "ignores_raw_flag (Resource (MetricPoints p) (List raw)) = True"
| "ignores_raw_flag (Resource Subscribers (List raw)) = True"
| "ignores_raw_flag op = False"

fun raw_flag :: "spec_op \<Rightarrow> jsval" where
  "raw_flag (SVersion raw) = raw"
| "raw_flag (Resource f (List raw)) = raw"
| "raw_flag op = JUndef"

text \<open>The abstract operation each method of the source performs.\<close>

fun spec_of :: "api_op \<Rightarrow> spec_op" where
  "spec_of OpPing = SPing"
| "spec_of (OpGetVersion with_meta) = SVersion with_meta"
| "spec_of (OpGetComponents with_meta) = Resource Components (List with_meta)"
| "spec_of (OpGetComponent component_id) = Resource Components (Get component_id)"
| "spec_of (OpAddComponent component) = Resource Components (Create component)"
| "spec_of (OpUpdateComponent component_id component) = Resource Components (Update component_id component)"
| "spec_of (OpDeleteComponent component_id) = Resource Components (Delete component_id)"
| "spec_of (OpGetComponentGroups with_meta) = Resource ComponentGroups (List with_meta)"
| "spec_of (OpGetComponentGroup group_id) = Resource ComponentGroups (Get group_id)"
| "spec_of (OpAddComponentGroup group') = Resource ComponentGroups (Create group')"
| "spec_of (OpUpdateComponentGroup group_id group') = Resource ComponentGroups (Update group_id group')"
| "spec_of (OpDeleteComponentGroup group_id) = Resource ComponentGroups (Delete group_id)"
| "spec_of (OpGetIncidents with_meta) = Resource Incidents (List with_meta)"
| "spec_of (OpGetIncident incident_id) = Resource Incidents (Get incident_id)"
| "spec_of (OpAddIncident incident) = Resource Incidents (Create incident)"
| "spec_of (OpUpdateIncident incident_id incident) = Resource Incidents (Update incident_id incident)"
| "spec_of (OpDeleteIncident incident_id) = Resource Incidents (Delete incident_id)"
| "spec_of (OpGetIncidentUpdates incident_id with_meta) = Resource (IncidentUpdates incident_id) (List with_meta)"
| "spec_of (OpGetIncidentUpdate incident_id update_id) = Resource (IncidentUpdates incident_id) (Get update_id)"
| "spec_of (OpAddIncidentUpdate incident_id update) = Resource (IncidentUpdates incident_id) (Create update)"
| "spec_of (OpUpdateIncidentUpdate incident_id update_id update) = Resource (IncidentUpdates incident_id) (Update update_id update)"
| "spec_of (OpDeleteIncidentUpdate incident_id update_id) = Resource (IncidentUpdates incident_id) (Delete update_id)"
| "spec_of (OpGetMetrics with_meta) = Resource Metrics (List with_meta)"
| "spec_of (OpGetMetric metric_id) = Resource Metrics (Get metric_id)"
| "spec_of (OpAddMetric metric) = Resource Metrics (Create metric)"
| "spec_of (OpDeleteMetric metric_id) = Resource Metrics (Delete metric_id)"
| "spec_of (OpGetMetricPoints metric_id) = Resource (MetricPoints metric_id) (List JUndef)"
| "spec_of (OpAddMetricPoint metric_id point) = Resource (MetricPoints metric_id) (Create point)"
| "spec_of (OpDeleteMetricPoint metric_id point_id) = Resource (MetricPoints metric_id) (Delete point_id)"
| "spec_of OpGetSubscribers = Resource Subscribers (List JUndef)"
| "spec_of (OpAddSubscriber subscriber) = Resource Subscribers (Create subscriber)"
| "spec_of (OpDeleteSubscriber subscriber_id) = Resource Subscribers (Delete subscriber_id)"

fun is_delete :: "spec_op \<Rightarrow> bool" where
  "is_delete (Resource f (Delete i)) = True"
| "is_delete op = False"

text \<open>The request an abstract operation sends.\<close>

definition spec_request :: "cachet_api \<Rightarrow> spec_op \<Rightarrow> request" where
  "spec_request c op =
     \<lparr>req_method = spec_method op, req_base = api_base c, req_headers = api_headers c,
      req_url = spec_path op, req_data = spec_data op\<rparr>"

section \<open>Running an operation\<close>

lemma run_spec_call:
  "run_state (spec_call tr c op) s =
     (case fst (tr (spec_request c op) (net s)) of
        Inr resp \<Rightarrow> (spec_result op resp, s\<lparr>net := snd (tr (spec_request c op) (net s))\<rparr>)
      | Inl e \<Rightarrow>
          (case error_text e of
             Inl ex \<Rightarrow> (Inl ex, s\<lparr>net := snd (tr (spec_request c op) (net s))\<rparr>)
           | Inr extra \<Rightarrow>
               (Inl (unable_to (method_name (spec_method op)) (spec_path op) extra),
                s\<lparr>net := snd (tr (spec_request c op) (net s)), console := console s @ [e]\<rparr>)))"
  by (simp add: spec_call_def api_request_def spec_request_def rethrow_def run_createError
      split: sum.splits)

lemma invoke_spec_call: "invoke tr c m = spec_call tr c (spec_of m)"
  by (cases m) (simp_all add: api_defs spec_call_def Let_def cong: sum.case_cong)

lemma implemented_by_spec_of: "implemented_by (spec_of m) = Some m"
  by (cases m) simp_all

lemma spec_call_table:
  "implemented_by a = Some m \<Longrightarrow> \<not> (ignores_raw_flag a \<and> truthy (raw_flag a)) \<Longrightarrow>
   spec_call tr c (spec_of m) = spec_call tr c a"
  by (induction a rule: implemented_by.induct) (auto simp: spec_call_def cong: sum.case_cong)

lemma spec_result_payload:
  "\<not> is_delete op \<Longrightarrow> \<not> truthy (raw_flag op) \<Longrightarrow> spec_result op resp = unwrap_data resp"
  by (induction op resp rule: spec_result.induct) simp_all

lemma spec_result_raw:
  "\<not> is_delete op \<Longrightarrow> truthy (raw_flag op) \<Longrightarrow> spec_result op resp = js_get resp ''data''"
  by (induction op resp rule: spec_result.induct) simp_all

lemma spec_result_delete: "is_delete op \<Longrightarrow> spec_result op resp = Inr (JBool True)"
  by (induction op resp rule: spec_result.induct) simp_all

lemma run_invoke_resolved:
  "fst (tr (spec_request c (spec_of m)) (net s)) = Inr resp \<Longrightarrow>
   run_state (invoke tr c m) s =
     (spec_result (spec_of m) resp, s\<lparr>net := snd (tr (spec_request c (spec_of m)) (net s))\<rparr>)"
  by (simp add: invoke_spec_call run_spec_call)

section \<open>The methods against the contract\<close>

text \<open>
  C1: every method of the source is the implementation of one entry of the endpoint
  table, and running it is running that entry: the same verb, path and body, the same
  result unwrapping, the same error normalisation.
\<close>

theorem methods_are_table_entries:
  "implemented_by (spec_of m) = Some m \<and> invoke tr c m = spec_call tr c (spec_of m)"
  by (simp add: implemented_by_spec_of invoke_spec_call)

text \<open>
  C2: when the request of a method is rejected and the rejection's diagnostic text can be
  built, the method rejects with \<open>Error("Unable to <VERB> <path>: <diagnostic>")\<close>
  for its own verb and path, and the original rejection is logged once.
\<close>

theorem failure_normalised:
  assumes "fst (tr (spec_request c (spec_of m)) (net s)) = Inl e"
    and "error_text e = Inr extra"
  shows "run_state (invoke tr c m) s =
           (Inl (unable_to (method_name (spec_method (spec_of m))) (spec_path (spec_of m)) extra),
            s\<lparr>net := snd (tr (spec_request c (spec_of m)) (net s)), console := console s @ [e]\<rparr>)"
  using assms by (simp add: invoke_spec_call run_spec_call)

theorem failure_normalised_witness:
  "fst (stub (Inl (JSError ''AxiosError'' ''Network Error'' [])) (spec_request test_api (spec_of (OpGetComponent (JNum 7)))) ()) = Inl (JSError ''AxiosError'' ''Network Error'' [])
   \<and> error_text (JSError ''AxiosError'' ''Network Error'' []) = Inr ''AxiosError: Network Error''
   \<and> run_state (invoke (stub (Inl (JSError ''AxiosError'' ''Network Error'' []))) test_api (OpGetComponent (JNum 7))) \<lparr>net = (), console = []\<rparr>
       = (Inl (unable_to ''GET'' ''/v1/components/7'' ''AxiosError: Network Error''),
          \<lparr>net = (), console = [JSError ''AxiosError'' ''Network Error'' []]\<rparr>)"
  using failure_normalised [of "stub (Inl (JSError ''AxiosError'' ''Network Error'' []))" test_api "OpGetComponent (JNum 7)" "\<lparr>net = (), console = []\<rparr>"
      "JSError ''AxiosError'' ''Network Error'' []" "''AxiosError: Network Error''"]
  by (simp add: stub_def error_text_def js_simps)

text \<open>
  C5: a rejection by an \<open>Error\<close> object (which every axios failure is) is always
  normalised: the method rejects with an \<open>Error\<close> naming its verb and path, the
  transport's effect is kept and the original error is logged exactly once.
\<close>

theorem error_object_rejection_logged:
  assumes "fst (tr (spec_request c (spec_of m)) (net s)) = Inl (JSError n msg ps)"
  shows "\<exists>extra. run_state (invoke tr c m) s =
           (Inl (unable_to (method_name (spec_method (spec_of m))) (spec_path (spec_of m)) extra),
            s\<lparr>net := snd (tr (spec_request c (spec_of m)) (net s)), console := console s @ [JSError n msg ps]\<rparr>)"
  using assms error_text_Error [of n msg ps] by (auto simp: invoke_spec_call run_spec_call)

theorem error_object_rejection_logged_witness:
  "fst (stub (Inl (JSError ''AxiosError'' ''Network Error'' [])) (spec_request test_api (spec_of (OpDeleteIncident (JNum 3)))) ()) = Inl (JSError ''AxiosError'' ''Network Error'' [])
   \<and> (\<exists>extra. run_state (invoke (stub (Inl (JSError ''AxiosError'' ''Network Error'' []))) test_api (OpDeleteIncident (JNum 3))) \<lparr>net = (), console = []\<rparr> =
           (Inl (unable_to ''DELETE'' ''/v1/incidents/3'' extra), \<lparr>net = (), console = [JSError ''AxiosError'' ''Network Error'' []]\<rparr>))"
  using error_object_rejection_logged [of "stub (Inl (JSError ''AxiosError'' ''Network Error'' []))" test_api "OpDeleteIncident (JNum 3)" "\<lparr>net = (), console = []\<rparr>"]
  by (simp add: stub_def js_simps)

text \<open>
  C3: when the request of a method resolves, the method resolves with the result the
  contract prescribes for its operation, the transport's effect is kept, and nothing is
  logged.
\<close>

theorem success_contract:
  assumes "fst (tr (spec_request c (spec_of m)) (net s)) = Inr resp"
  shows "run_state (invoke tr c m) s =
           (spec_result (spec_of m) resp, s\<lparr>net := snd (tr (spec_request c (spec_of m)) (net s))\<rparr>)"
  using assms by (simp add: invoke_spec_call run_spec_call)

theorem success_contract_witness:
  "fst (stub (Inr (JObj [(''data'', JObj [(''data'', JStr ''Pong!'')])])) (spec_request test_api (spec_of OpPing)) ())
     = Inr (JObj [(''data'', JObj [(''data'', JStr ''Pong!'')])])
   \<and> run_state (invoke (stub (Inr (JObj [(''data'', JObj [(''data'', JStr ''Pong!'')])]))) test_api OpPing) \<lparr>net = (), console = []\<rparr>
       = (Inr (JStr ''Pong!''), \<lparr>net = (), console = []\<rparr>)"
  using success_contract [of "stub (Inr (JObj [(''data'', JObj [(''data'', JStr ''Pong!'')])]))" test_api OpPing
      "\<lparr>net = (), console = []\<rparr>" "JObj [(''data'', JObj [(''data'', JStr ''Pong!'')])]"]
  by (simp add: stub_def unwrap_data_def)

text \<open>
  C7: a method that unwraps both envelopes and receives a resolved response whose
  \<open>data\<close> is \<open>null\<close> rejects with the TypeError of \<open>response.data.data\<close>, which
  is outside the \<open>try\<close>: not the normalised error, and nothing is logged.
\<close>

theorem malformed_response_type_error:
  assumes "fst (tr (spec_request c (spec_of m)) (net s)) = Inr (JObj [(''data'', JNull)])"
    and "\<not> is_delete (spec_of m)" and "\<not> truthy (raw_flag (spec_of m))"
  shows "run_state (invoke tr c m) s =
           (Inl (type_error_read JNull ''data''), s\<lparr>net := snd (tr (spec_request c (spec_of m)) (net s))\<rparr>)"
  using assms by (simp add: run_invoke_resolved spec_result_payload unwrap_data_def)

theorem malformed_response_type_error_witness:
  "fst (stub (Inr (JObj [(''data'', JNull)])) (spec_request test_api (spec_of (OpGetComponent (JNum 7)))) ())
     = Inr (JObj [(''data'', JNull)])
   \<and> \<not> is_delete (spec_of (OpGetComponent (JNum 7))) \<and> \<not> truthy (raw_flag (spec_of (OpGetComponent (JNum 7))))
   \<and> run_state (invoke (stub (Inr (JObj [(''data'', JNull)]))) test_api (OpGetComponent (JNum 7))) \<lparr>net = (), console = []\<rparr>
       = (Inl (type_error_read JNull ''data''), \<lparr>net = (), console = []\<rparr>)"
  using malformed_response_type_error [of "stub (Inr (JObj [(''data'', JNull)]))" test_api
      "OpGetComponent (JNum 7)" "\<lparr>net = (), console = []\<rparr>"]
  by (simp add: stub_def)

text \<open>
  C8: a delete method resolves with \<open>true\<close> whenever its request resolves, whatever
  the status and body of the response.
\<close>

theorem delete_resolves_true:
  assumes "fst (tr (spec_request c (spec_of m)) (net s)) = Inr resp" and "is_delete (spec_of m)"
  shows "run_state (invoke tr c m) s =
           (Inr (JBool True), s\<lparr>net := snd (tr (spec_request c (spec_of m)) (net s))\<rparr>)"
  using assms by (simp add: run_invoke_resolved spec_result_delete)

theorem delete_resolves_true_witness:
  "fst (stub (Inr (JObj [(''data'', JStr [])])) (spec_request test_api (spec_of (OpDeleteComponent (JNum 7)))) ())
     = Inr (JObj [(''data'', JStr [])])
   \<and> is_delete (spec_of (OpDeleteComponent (JNum 7)))
   \<and> run_state (invoke (stub (Inr (JObj [(''data'', JStr [])]))) test_api (OpDeleteComponent (JNum 7))) \<lparr>net = (), console = []\<rparr>
       = (Inr (JBool True), \<lparr>net = (), console = []\<rparr>)"
  using delete_resolves_true [of "stub (Inr (JObj [(''data'', JStr [])]))" test_api "OpDeleteComponent (JNum 7)"
      "\<lparr>net = (), console = []\<rparr>" "JObj [(''data'', JStr [])]"]
  by (simp add: stub_def)

text \<open>
  C9: on a service envelope \<open>{data, meta}\<close>, a method that is not a delete returns
  the whole envelope (with its meta) when its \<open>with_meta\<close> argument is truthy, and
  the payload alone otherwise.
\<close>

theorem raw_mode_envelope:
  assumes "fst (tr (spec_request c (spec_of m)) (net s)) = Inr (JObj [(''data'', JObj [(''data'', p), (''meta'', mt)])])"
    and "\<not> is_delete (spec_of m)"
  shows "fst (run_state (invoke tr c m) s) =
           Inr (if truthy (raw_flag (spec_of m)) then JObj [(''data'', p), (''meta'', mt)] else p)"
  using assms by (simp add: run_invoke_resolved spec_result_payload spec_result_raw unwrap_data_def)

theorem raw_mode_envelope_witness:
  "fst (stub (Inr (JObj [(''data'', JObj [(''data'', JStr ''2.4.0-dev''), (''meta'', JObj [(''on_latest'', JBool True)])])]))
        (spec_request test_api (spec_of (OpGetVersion (JBool True)))) ())
     = Inr (JObj [(''data'', JObj [(''data'', JStr ''2.4.0-dev''), (''meta'', JObj [(''on_latest'', JBool True)])])])
   \<and> \<not> is_delete (spec_of (OpGetVersion (JBool True)))
   \<and> fst (run_state (invoke (stub (Inr (JObj [(''data'', JObj [(''data'', JStr ''2.4.0-dev''),
                                        (''meta'', JObj [(''on_latest'', JBool True)])])])))
                      test_api (OpGetVersion (JBool True))) \<lparr>net = (), console = []\<rparr>)
       = Inr (JObj [(''data'', JStr ''2.4.0-dev''), (''meta'', JObj [(''on_latest'', JBool True)])])"
  using raw_mode_envelope [of "stub (Inr (JObj [(''data'', JObj [(''data'', JStr ''2.4.0-dev''),
                                        (''meta'', JObj [(''on_latest'', JBool True)])])]))"
      test_api "OpGetVersion (JBool True)" "\<lparr>net = (), console = []\<rparr>" "JStr ''2.4.0-dev''" "JObj [(''on_latest'', JBool True)]"]
  by (simp add: stub_def)

text \<open>
  C10: \<open>getMetricPoints\<close> and \<open>getSubscribers\<close> take no \<open>with_meta\<close> argument:
  on a service envelope they return the payload, where the contract's list operation in
  raw mode returns the envelope with its meta.
\<close>

theorem raw_flag_ignored:
  "fst (run_state (getMetricPoints (stub (Inr (JObj [(''data'', JObj [(''data'', d), (''meta'', mt)])]))) c p) s) = Inr d
   \<and> fst (run_state (spec_call (stub (Inr (JObj [(''data'', JObj [(''data'', d), (''meta'', mt)])]))) c
                       (Resource (MetricPoints p) (List (JBool True)))) s)
       = Inr (JObj [(''data'', d), (''meta'', mt)])
   \<and> fst (run_state (getSubscribers (stub (Inr (JObj [(''data'', JObj [(''data'', d), (''meta'', mt)])]))) c) s) = Inr d
   \<and> fst (run_state (spec_call (stub (Inr (JObj [(''data'', JObj [(''data'', d), (''meta'', mt)])]))) c
                       (Resource Subscribers (List (JBool True)))) s)
       = Inr (JObj [(''data'', d), (''meta'', mt)])"
  by (simp add: getMetricPoints_def getSubscribers_def run_spec_call api_request_def stub_def
      unwrap_data_def Let_def)

end
