(* ===== verification/Jest.thy ===== *)
theory Jest
  imports ApiSpec
begin

text \<open>
  The fragment of Jest the test suite of \<^verbatim>\<open>src/src/CachetAPI.js\<close> (from line 1122) is
  written in: \<open>describe\<close> blocks with \<open>beforeAll\<close>/\<open>afterAll\<close> hooks and \<open>test\<close>s, whose
  bodies await client calls, read properties of the results (\<open>x.p\<close>, \<open>x[0]\<close>,
  \<open>x.length\<close>, \<open>typeof x\<close>) and check them with the matchers \<open>toBe\<close>,
  \<open>toBeDefined\<close>, \<open>toBeUndefined\<close> and \<open>toBeGreaterThan\<close>. A test body is a list of
  statements executed over the variables of its block and the world of the client; the
  first rejected call, failed read or failed matcher ends the test with that error. Tests
  of a block run in order and share the block's variables; blocks run in order and share
  the world.
\<close>

section \<open>Test statements\<close>

type_synonym env = "string \<Rightarrow> jsval"

text \<open>\<open>x.p.q\<close> and \<open>x[0].id\<close> as a variable and the property names read in turn, and
  \<open>typeof e\<close>.\<close>

datatype texpr = Var string "string list" | TypeOf texpr

datatype matcher = ToBe jsval | ToBeDefined | ToBeUndefined | ToBeGreaterThan int

text \<open>\<open>let x = await cachet_api.m(args)\<close> (the arguments read the block's variables),
  \<open>expect(e).matcher\<close>, and \<open>x = e\<close>.\<close>

datatype stmt =
    Await string "env \<Rightarrow> api_op"
  | Expect texpr matcher
  | Assign string texpr

record describe_block =
  block_name :: string
  before_all :: "stmt list"
  tests :: "(string \<times> stmt list) list"
  after_all :: "stmt list"

datatype test_result = Pass | Fail thrown

section \<open>Evaluation\<close>

fun read_path :: "jsval \<Rightarrow> string list \<Rightarrow> thrown + jsval" where
  "read_path v [] = Inr v"
| "read_path v (k # ks) = sum_bind (js_get v k) (\<lambda>v'. read_path v' ks)"

fun js_typeof :: "jsval \<Rightarrow> string" where
  "js_typeof JUndef = ''undefined''"
| "js_typeof (JBool b) = ''boolean''"
| "js_typeof (JNum n) = ''number''"
| "js_typeof (JStr s) = ''string''"
| "js_typeof v = ''object''"

fun eval_texpr :: "env \<Rightarrow> texpr \<Rightarrow> thrown + jsval" where
  "eval_texpr e (Var x ks) = read_path (e x) ks"
| "eval_texpr e (TypeOf t) = sum_bind (eval_texpr e t) (\<lambda>v. Inr (JStr (js_typeof v)))"

text \<open>\<open>toBe\<close> is \<open>Object.is\<close>: equality on primitives, identity on objects and arrays;
  an expected object literal is a fresh object, identical to no received value.
  \<open>toBeGreaterThan\<close> fails on a received value that is not a number.\<close>

fun matches :: "matcher \<Rightarrow> jsval \<Rightarrow> bool" where
  "matches (ToBe x) v = (v = x \<and> (case x of JObj ps \<Rightarrow> False | JArr xs \<Rightarrow> False | _ \<Rightarrow> True))"
| "matches ToBeDefined v = (v \<noteq> JUndef)"
| "matches ToBeUndefined v = (v = JUndef)"
| "matches (ToBeGreaterThan n) v = (case v of JNum m \<Rightarrow> n < m | _ \<Rightarrow> False)"

fun matcher_name :: "matcher \<Rightarrow> string" where
  "matcher_name (ToBe x) = ''toBe''"
| "matcher_name ToBeDefined = ''toBeDefined''"
| "matcher_name ToBeUndefined = ''toBeUndefined''"
| "matcher_name (ToBeGreaterThan n) = ''toBeGreaterThan''"

definition expect_fail :: "matcher \<Rightarrow> thrown" where
  "expect_fail m = JSError ''Error'' (''expect(received).'' @ matcher_name m) []"

text \<open>Executing statements: the error that ends the test, if any, the variables and the
  world after it.\<close>

fun exec :: "'w transport \<Rightarrow> cachet_api \<Rightarrow> stmt list \<Rightarrow> env \<times> 'w world \<Rightarrow> thrown option \<times> env \<times> 'w world" where
  "exec tr c [] (e, w) = (None, e, w)"
| "exec tr c (Await x f # ss) (e, w) =
     (case run_state (invoke tr c (f e)) w of
        (Inl err, w') \<Rightarrow> (Some err, e, w')
      | (Inr v, w') \<Rightarrow> exec tr c ss (e(x := v), w'))"
| "exec tr c (Expect t m # ss) (e, w) =
     (case eval_texpr e t of
        Inl err \<Rightarrow> (Some err, e, w)
      | Inr v \<Rightarrow> if matches m v then exec tr c ss (e, w) else (Some (expect_fail m), e, w))"
| "exec tr c (Assign x t # ss) (e, w) =
     (case eval_texpr e t of
        Inl err \<Rightarrow> (Some err, e, w)
      | Inr v \<Rightarrow> exec tr c ss (e(x := v), w))"

definition result_of :: "thrown option \<Rightarrow> test_result" where
  "result_of r = (case r of None \<Rightarrow> Pass | Some err \<Rightarrow> Fail err)"

fun run_tests :: "'w transport \<Rightarrow> cachet_api \<Rightarrow> (string \<times> stmt list) list \<Rightarrow> env \<times> 'w world
                  \<Rightarrow> (string \<times> test_result) list \<times> env \<times> 'w world" where
  "run_tests tr c [] st = ([], st)"
| "run_tests tr c ((n, steps) # ts) st =
     (let (r, st') = exec tr c steps st;
          (rs, st'') = run_tests tr c ts st'
      in ((n, result_of r) # rs, st''))"

text \<open>A block: its \<open>beforeAll\<close> hook, then its tests, then its \<open>afterAll\<close> hook, over
  fresh block variables (all \<open>undefined\<close>). When \<open>beforeAll\<close> throws, Jest fails
  every test of the block with that error without running it; \<open>afterAll\<close> runs in any
  case, and an error it throws is reported apart from the tests.\<close>

definition run_describe :: "'w transport \<Rightarrow> cachet_api \<Rightarrow> describe_block \<Rightarrow> 'w world
                           \<Rightarrow> (string \<times> test_result) list \<times> 'w world" where
  "run_describe tr c d w =
     (let (rb, st1) = exec tr c (before_all d) (\<lambda>x. JUndef, w)
      in case rb of
           Some err \<Rightarrow> (map (\<lambda>(n, steps). (n, Fail err)) (tests d), snd (snd (exec tr c (after_all d) st1)))
         | None \<Rightarrow>
             (let (rs, st2) = run_tests tr c (tests d) st1
              in (rs, snd (snd (exec tr c (after_all d) st2)))))"

fun run_suite :: "'w transport \<Rightarrow> cachet_api \<Rightarrow> describe_block list \<Rightarrow> 'w world
                  \<Rightarrow> (string \<times> (string \<times> test_result) list) list \<times> 'w world" where
  "run_suite tr c [] w = ([], w)"
| "run_suite tr c (d # ds) w =
     (let (rs, w') = run_describe tr c d w;
          (rss, w'') = run_suite tr c ds w'
      in ((block_name d, rs) # rss, w''))"

text \<open>All tests of a run passed.\<close>

definition all_pass :: "(string \<times> test_result) list \<Rightarrow> bool" where
  "all_pass rs = list_all (\<lambda>(n, r). r = Pass) rs"

end
