(* ===== verification/Requests.thy ===== *)
theory Requests
  imports ApiSpec
begin

text \<open>
  The requests the client sends, seen from the remote service. A recording transport
  shows that every method sends exactly one request, the one of its endpoint-table entry,
  and that its result depends on nothing but the settlement of that request. The router
  of the endpoint table (spec.md section 6) reads a path back into the endpoint it
  addresses: for numeric ids, the path every method builds is read back as the endpoint
  of its operation; for string ids, concatenation without encoding lets one method
  address another method's endpoint.
\<close>

section \<open>Recording the requests\<close>

definition recorder :: "thrown + jsval \<Rightarrow> request list transport" where
  "recorder r rq log = (r, log @ [rq])"

section \<open>The router of the endpoint table\<close>

datatype coll = KComponents | KGroups | KIncidents | KUpdates int | KMetrics | KPoints int | KSubscribers

datatype endpoint = EPing | EVersion | EColl coll | EItem coll int

definition item :: "coll \<Rightarrow> string \<Rightarrow> endpoint option" where
  "item k s = map_option (EItem k) (dec_to_int s)"

fun route_segments :: "string list \<Rightarrow> endpoint option" where
  "route_segments [a] =
     (if a = ''ping'' then Some EPing
      else if a = ''version'' then Some EVersion
      else if a = ''components'' then Some (EColl KComponents)
      else if a = ''incidents'' then Some (EColl KIncidents)
      else if a = ''metrics'' then Some (EColl KMetrics)
      else if a = ''subscribers'' then Some (EColl KSubscribers)
      else None)"
| "route_segments [a, b] =
     (if a = ''components'' then (if b = ''groups'' then Some (EColl KGroups) else item KComponents b)
      else if a = ''incidents'' then item KIncidents b
      else if a = ''metrics'' then item KMetrics b
      else if a = ''subscribers'' then item KSubscribers b
      else None)"
| "route_segments [a, b, d] =
     (if a = ''components'' \<and> b = ''groups'' then item KGroups d
      else if a = ''incidents'' \<and> d = ''updates'' then map_option (\<lambda>p. EColl (KUpdates p)) (dec_to_int b)
      else if a = ''metrics'' \<and> d = ''points'' then map_option (\<lambda>p. EColl (KPoints p)) (dec_to_int b)
      else None)"
| "route_segments [a, b, d, e] =
     (if a = ''incidents'' \<and> d = ''updates'' then
        (case dec_to_int b of None \<Rightarrow> None | Some p \<Rightarrow> item (KUpdates p) e)
      else if a = ''metrics'' \<and> d = ''points'' then
        (case dec_to_int b of None \<Rightarrow> None | Some p \<Rightarrow> item (KPoints p) e)
      else None)"
| "route_segments segs = None"

definition parse_path :: "string \<Rightarrow> endpoint option" where
  "parse_path u =
     (case split_all CHR ''/'' u of
        [] # v # segs \<Rightarrow> if v = ''v1'' then route_segments segs else None
      | _ \<Rightarrow> None)"

text \<open>The endpoint of an abstract operation whose ids are numbers.\<close>

fun num_id :: "jsval \<Rightarrow> int option" where
  "num_id (JNum i) = Some i"
| "num_id v = None"

fun coll_of :: "family \<Rightarrow> coll option" where
  "coll_of Components = Some KComponents"
| "coll_of ComponentGroups = Some KGroups"
| "coll_of Incidents = Some KIncidents"
| "coll_of (IncidentUpdates p) = map_option KUpdates (num_id p)"
| "coll_of Metrics = Some KMetrics"
| "coll_of (MetricPoints p) = map_option KPoints (num_id p)"
| "coll_of Subscribers = Some KSubscribers"

fun endpoint_of :: "spec_op \<Rightarrow> endpoint option" where
  "endpoint_of SPing = Some EPing"
| "endpoint_of (SVersion raw) = Some EVersion"
| "endpoint_of (Resource f (List raw)) = map_option EColl (coll_of f)"
| "endpoint_of (Resource f (Create b)) = map_option EColl (coll_of f)"
| "endpoint_of (Resource f (Get i)) =
     (case coll_of f of None \<Rightarrow> None | Some k \<Rightarrow> map_option (EItem k) (num_id i))"
| "endpoint_of (Resource f (Update i b)) =
     (case coll_of f of None \<Rightarrow> None | Some k \<Rightarrow> map_option (EItem k) (num_id i))"
| "endpoint_of (Resource f (Delete i)) =
     (case coll_of f of None \<Rightarrow> None | Some k \<Rightarrow> map_option (EItem k) (num_id i))"

section \<open>Lemmas\<close>

lemma int_to_dec_not_word [simp]:
  "int_to_dec i \<noteq> ''groups''" "int_to_dec i \<noteq> ''updates''" "int_to_dec i \<noteq> ''points''"
  using int_to_dec_digit_or_minus [of "CHR ''g''" i] int_to_dec_digit_or_minus [of "CHR ''u''" i]
    int_to_dec_digit_or_minus [of "CHR ''p''" i]
  by (auto simp: digit_val_def)

lemma split_int_to_dec [simp]:
  "split_all CHR ''/'' (int_to_dec i) = [int_to_dec i]"
  "split_all CHR ''/'' (int_to_dec i @ CHR ''/'' # s) = int_to_dec i # split_all CHR ''/'' s"
  by (simp_all add: int_to_dec_no_slash)

lemma coll_path:
  "coll_of f = Some k \<Longrightarrow>
   split_all CHR ''/'' (collection f) = [] # ''v1'' # (case k of
      KComponents \<Rightarrow> [''components''] | KGroups \<Rightarrow> [''components'', ''groups'']
    | KIncidents \<Rightarrow> [''incidents''] | KUpdates p \<Rightarrow> [''incidents'', int_to_dec p, ''updates'']
    | KMetrics \<Rightarrow> [''metrics''] | KPoints p \<Rightarrow> [''metrics'', int_to_dec p, ''points'']
    | KSubscribers \<Rightarrow> [''subscribers''])"
  by (cases f rule: coll_of.cases) (auto simp: split_all_Cons elim!: num_id.elims)

lemma route_roundtrip:
  "endpoint_of op = Some ep \<Longrightarrow> parse_path (spec_path op) = Some ep"
proof (cases op rule: endpoint_of.cases)
qed (auto simp: parse_path_def split_all_append_sep coll_path item_def split_all_Cons
          split: option.splits coll.splits elim!: num_id.elims)

lemma run_invoke_recorder:
  "net (snd (run_state (invoke (recorder r) c m) s)) = net s @ [spec_request c (spec_of m)]"
  by (simp add: invoke_spec_call run_spec_call recorder_def split: sum.splits)

lemma recorded_request:
  "last (net (snd (run_state (invoke (recorder r) c m) s))) = spec_request c (spec_of m)"
  by (simp add: run_invoke_recorder)

section \<open>Properties\<close>

text \<open>
  C13: every method sends exactly one request, and it is the request of its entry in the
  endpoint table (verb, base URL, token header, path, body), whether the request then
  resolves or rejects.
\<close>

theorem one_request_per_call:
  "net (snd (run_state (invoke (recorder r) c m) s)) = net s @ [spec_request c (spec_of m)]"
  by (rule run_invoke_recorder)

text \<open>
  C14: a method keeps no state of its own between calls: its result is determined by the
  settlement of its one request, whatever the transport did before or does elsewhere.
  Calls interleaved on one instance therefore cannot influence each other's results
  except through the responses of the remote service.
\<close>

theorem result_depends_only_on_settlement:
  assumes "fst (tr1 (spec_request c (spec_of m)) (net s1)) = fst (tr2 (spec_request c (spec_of m)) (net s2))"
  shows "fst (run_state (invoke tr1 c m) s1) = fst (run_state (invoke tr2 c m) s2)"
  using assms by (simp add: invoke_spec_call run_spec_call split: sum.splits)

theorem result_depends_only_on_settlement_witness:
  "fst (stub (Inr JNull) (spec_request test_api (spec_of OpPing)) ())
     = fst (recorder (Inr JNull) (spec_request test_api (spec_of OpPing)) [])
   \<and> fst (run_state (invoke (stub (Inr JNull)) test_api OpPing) \<lparr>net = (), console = []\<rparr>)
     = fst (run_state (invoke (recorder (Inr JNull)) test_api OpPing) \<lparr>net = [], console = []\<rparr>)"
  using result_depends_only_on_settlement [of "stub (Inr JNull)" test_api OpPing
      "\<lparr>net = (), console = []\<rparr>" "recorder (Inr JNull)" "\<lparr>net = [], console = []\<rparr>"]
  by (simp add: stub_def recorder_def)

text \<open>
  C15: with numeric ids, the path a method sends is read back by the router of the
  endpoint table as the endpoint of the method's operation: distinct endpoints never
  share a path.
\<close>

theorem sent_path_routes_back:
  assumes "endpoint_of (spec_of m) = Some ep"
  shows "parse_path (req_url (last (net (snd (run_state (invoke (recorder r) c m) s))))) = Some ep"
  using assms by (simp add: recorded_request spec_request_def route_roundtrip)

theorem sent_path_routes_back_witness:
  "endpoint_of (spec_of (OpUpdateIncidentUpdate (JNum 12) (JNum 5) JNull)) = Some (EItem (KUpdates 12) 5)
   \<and> parse_path (req_url (last (net (snd (run_state
        (invoke (recorder (Inr JNull)) test_api (OpUpdateIncidentUpdate (JNum 12) (JNum 5) JNull)) \<lparr>net = [], console = []\<rparr>)))))
       = Some (EItem (KUpdates 12) 5)"
  using sent_path_routes_back [of "OpUpdateIncidentUpdate (JNum 12) (JNum 5) JNull" "EItem (KUpdates 12) 5"
      "Inr JNull" test_api "\<lparr>net = [], console = []\<rparr>"]
  by simp

text \<open>
  Ids are concatenated into paths without encoding, so a string id can address
  another method's endpoint: \<open>getComponent("groups")\<close> sends exactly the request of
  \<open>getComponentGroups()\<close>, and \<open>getIncident("4/updates")\<close> lists the updates of
  incident 4.
\<close>

theorem string_id_collision:
  "net (snd (run_state (getComponent (recorder r) c (JStr ''groups'')) s))
     = net (snd (run_state (getComponentGroups (recorder r) c raw) s))
   \<and> net (snd (run_state (getIncident (recorder r) c (JStr ''4/updates'')) s))
     = net (snd (run_state (getIncidentUpdates (recorder r) c (JNum 4) raw) s))
   \<and> parse_path (req_url (last (net (snd (run_state (getComponent (recorder r) c (JStr ''groups'')) s)))))
     = Some (EColl KGroups)"
  using run_invoke_recorder [of r c "OpGetComponent (JStr ''groups'')" s]
    run_invoke_recorder [of r c "OpGetComponentGroups raw" s]
    run_invoke_recorder [of r c "OpGetIncident (JStr ''4/updates'')" s]
    run_invoke_recorder [of r c "OpGetIncidentUpdates (JNum 4) raw" s]
  by (simp add: spec_request_def parse_path_def split_all_Cons js_simps)

end
