(* ===== verification/Service.thy ===== *)
theory Service
  imports Requests
begin

text \<open>
  A reference model of the remote Cachet service, written from spec.md (sections 3, 6
  and 8) since its code is not part of the repository, against which the client's
  end-to-end behaviour is stated. The state (\<open>service\<close>) holds collections of records
  keyed by a server-assigned integer id; nested collections (incident updates, metric
  points) exist only under an existing parent; creation assigns a fresh id, updates
  replace the fields sent and keep the others, deletes answer 204 without a body, and an
  unknown path, record or parent answers 404. Requests are routed by \<open>parse_path\<close> of
  the endpoint table; \<open>cachet\<close> is the axios transport over this server. The invariant
  \<open>service_inv\<close> (unique ids below the next id) holds in every reachable state.
\<close>

section \<open>State\<close>

record service =
  items :: "coll \<Rightarrow> (int \<times> jsval) list"
  next_id :: int
  version :: string

definition empty_service :: service where
  "empty_service = \<lparr>items = (\<lambda>k. []), next_id = 1, version = ''2.4.0-dev''\<rparr>"

section \<open>Answers\<close>

definition ok :: "jsval \<Rightarrow> answer" where
  "ok b = Answer \<lparr>status = 200, status_text = ''OK'', body = b\<rparr>"

definition no_content :: answer where
  "no_content = Answer \<lparr>status = 204, status_text = ''No Content'', body = JStr []\<rparr>"

definition not_found :: answer where
  "not_found = Answer \<lparr>status = 404, status_text = ''Not Found'', body = JObj [(''message'', JStr ''Not Found'')]\<rparr>"

definition not_allowed :: answer where
  "not_allowed = Answer \<lparr>status = 405, status_text = ''Method Not Allowed'', body = JObj [(''message'', JStr ''Method Not Allowed'')]\<rparr>"

definition unprocessable :: answer where
  "unprocessable = Answer \<lparr>status = 422, status_text = ''Unprocessable Entity'', body = JObj [(''message'', JStr ''The given data was invalid.'')]\<rparr>"

text \<open>The rejection axios makes of a 404 answer, and the diagnostic \<open>createError\<close> builds from it.\<close>

definition not_found_error :: thrown where
  "not_found_error =
     JSError ''AxiosError'' ''Request failed with status code 404''
       [(''response'', response_obj \<lparr>status = 404, status_text = ''Not Found'',
                                    body = JObj [(''message'', JStr ''Not Found'')]\<rparr>)]"

definition not_found_text :: string where
  "not_found_text = ''404 Not Found | {'' @ json_quote ''message'' @ '':'' @ json_quote ''Not Found'' @ ''}''"

section \<open>Records\<close>

text \<open>The fields a client sends, without an \<open>id\<close> of its own.\<close>

definition strip_id :: "(string \<times> jsval) list \<Rightarrow> (string \<times> jsval) list" where
  "strip_id ps = filter (\<lambda>(f, v). f \<noteq> ''id'') ps"

definition new_record :: "int \<Rightarrow> (string \<times> jsval) list \<Rightarrow> jsval" where
  "new_record n ps = JObj ((''id'', JNum n) # strip_id ps)"

text \<open>An update: each field sent replaces the stored one, new fields are appended.\<close>

definition merge_fields :: "(string \<times> jsval) list \<Rightarrow> (string \<times> jsval) list \<Rightarrow> (string \<times> jsval) list" where
  "merge_fields qs ps =
     map (\<lambda>(f, v). (f, case map_of (strip_id ps) f of None \<Rightarrow> v | Some v' \<Rightarrow> v')) qs
     @ filter (\<lambda>(f, v). f \<notin> fst ` set qs) (strip_id ps)"

fun merge_record :: "jsval \<Rightarrow> (string \<times> jsval) list \<Rightarrow> jsval" where
  "merge_record (JObj qs) ps = JObj (merge_fields qs ps)"
| "merge_record r ps = r"

fun parent_ok :: "service \<Rightarrow> coll \<Rightarrow> bool" where
  "parent_ok s (KUpdates p) = (map_of (items s KIncidents) p \<noteq> None)"
| "parent_ok s (KPoints p) = (map_of (items s KMetrics) p \<noteq> None)"
| "parent_ok s k = True"

definition list_body :: "service \<Rightarrow> coll \<Rightarrow> jsval" where
  "list_body s k =
     JObj [(''data'', JArr (map snd (items s k))),
           (''meta'', JObj [(''pagination'', JObj [(''total'', JNum (int (length (items s k))))])])]"

section \<open>Handling one request\<close>

definition handle_coll :: "http_method \<Rightarrow> jsval \<Rightarrow> coll \<Rightarrow> service \<Rightarrow> answer \<times> service" where
  "handle_coll m d k s =
     (case m of
        GET \<Rightarrow> (ok (list_body s k), s)
      | POST \<Rightarrow>
          (case d of
             JObj ps \<Rightarrow>
               (ok (JObj [(''data'', new_record (next_id s) ps)]),
                s\<lparr>items := (items s)(k := items s k @ [(next_id s, new_record (next_id s) ps)]),
                  next_id := next_id s + 1\<rparr>)
           | _ \<Rightarrow> (unprocessable, s))
      | _ \<Rightarrow> (not_allowed, s))"

definition handle_item :: "http_method \<Rightarrow> jsval \<Rightarrow> coll \<Rightarrow> int \<Rightarrow> jsval \<Rightarrow> service \<Rightarrow> answer \<times> service" where
  "handle_item m d k i r s =
     (case m of
        GET \<Rightarrow> (ok (JObj [(''data'', r)]), s)
      | PUT \<Rightarrow>
          (case d of
             JObj ps \<Rightarrow>
               (ok (JObj [(''data'', merge_record r ps)]),
                s\<lparr>items := (items s)(k := map (\<lambda>(j, x). if j = i then (j, merge_record x ps) else (j, x)) (items s k))\<rparr>)
           | _ \<Rightarrow> (unprocessable, s))
      | DELETE \<Rightarrow> (no_content, s\<lparr>items := (items s)(k := filter (\<lambda>(j, x). j \<noteq> i) (items s k))\<rparr>)
      | POST \<Rightarrow> (not_allowed, s))"

text \<open>Serving a request with verb \<open>m\<close> and body \<open>d\<close> on an endpoint of the table.\<close>

fun serve :: "endpoint \<Rightarrow> http_method \<Rightarrow> jsval \<Rightarrow> service \<Rightarrow> answer \<times> service" where
  "serve EPing m d s = (if m = GET then (ok (JObj [(''data'', JStr ''Pong!'')]), s) else (not_allowed, s))"
| "serve EVersion m d s =
     (if m = GET
      then (ok (JObj [(''data'', JStr (version s)), (''meta'', JObj [(''on_latest'', JBool True)])]), s)
      else (not_allowed, s))"
| "serve (EColl k) m d s = (if parent_ok s k then handle_coll m d k s else (not_found, s))"
| "serve (EItem k i) m d s =
     (if \<not> parent_ok s k then (not_found, s)
      else case map_of (items s k) i of
             None \<Rightarrow> (not_found, s)
           | Some r \<Rightarrow> handle_item m d k i r s)"

definition cachet_server :: "request \<Rightarrow> service \<Rightarrow> answer \<times> service" where
  "cachet_server rq s =
     (case parse_path (req_url rq) of
        None \<Rightarrow> (not_found, s)
      | Some ep \<Rightarrow> serve ep (req_method rq) (req_data rq) s)"

abbreviation cachet :: "service transport" where
  "cachet \<equiv> axios cachet_server"

section \<open>Invariant\<close>

text \<open>Every stored id is below the next id to assign, and ids are unique in a collection.\<close>

definition service_inv :: "service \<Rightarrow> bool" where
  "service_inv s \<longleftrightarrow> (\<forall>k. distinct (map fst (items s k)) \<and> (\<forall>i \<in> fst ` set (items s k). i < next_id s))"

inductive reachable_service :: "service \<Rightarrow> bool" where
  start: "reachable_service empty_service"
| step: "reachable_service s \<Longrightarrow> reachable_service (snd (cachet_server rq s))"

section \<open>Lemmas\<close>

text \<open>A request the client builds for an operation of the table is served at that
  operation's endpoint (the router reads the path back, \<open>route_roundtrip\<close>); a request
  whose path is not that of its operation's endpoint (a string id) is routed as any path.\<close>

lemma cachet_server_spec_request:
  "cachet_server (spec_request c op) s =
     (case endpoint_of op of
        None \<Rightarrow>
          (case parse_path (spec_path op) of
             None \<Rightarrow> (not_found, s)
           | Some ep \<Rightarrow> serve ep (spec_method op) (spec_data op) s)
      | Some ep \<Rightarrow> serve ep (spec_method op) (spec_data op) s)"
  using route_roundtrip [of op]
  by (simp add: cachet_server_def spec_request_def del: spec_path.simps split: option.splits)

lemma service_inv_empty: "service_inv empty_service"
  by (simp add: service_inv_def empty_service_def)

lemma service_inv_step: "service_inv s \<Longrightarrow> service_inv (snd (cachet_server rq s))"
proof -
  assume inv: "service_inv s"
  have post: "service_inv (s\<lparr>items := (items s)(k := items s k @ [(next_id s, x)]), next_id := next_id s + 1\<rparr>)"
    for k x
    using inv by (fastforce simp: service_inv_def)
  have put: "service_inv (s\<lparr>items := (items s)(k := map (\<lambda>(j, x). if j = i then (j, g x) else (j, x)) (items s k))\<rparr>)"
    for k i g
  proof -
    have "fst \<circ> (\<lambda>(j, x). if j = i then (j, g x) else (j, x)) = fst"
      by (auto simp: fun_eq_iff)
    then show ?thesis using inv by (auto simp: service_inv_def image_comp split: prod.splits; force)
  qed
  have del: "service_inv (s\<lparr>items := (items s)(k := filter (\<lambda>(j, x). j \<noteq> i) (items s k))\<rparr>)" for k i
    using inv by (auto simp: service_inv_def distinct_map_filter; force)
  have "service_inv (snd (serve ep m d s))" for ep m d
    using inv post put del
    by (cases ep) (auto simp: handle_coll_def handle_item_def split: option.splits http_method.splits jsval.splits)
  then show ?thesis using inv by (simp add: cachet_server_def split: option.splits)
qed

lemma reachable_service_inv: "reachable_service s \<Longrightarrow> service_inv s"
  by (induction rule: reachable_service.induct) (auto intro: service_inv_empty service_inv_step)

lemma run_invoke_cachet:
  "cachet_server (spec_request c (spec_of m)) (net w) = (a, s') \<Longrightarrow>
   run_state (invoke cachet c m) w =
     (case axios_settle a of
        Inr resp \<Rightarrow> (spec_result (spec_of m) resp, w\<lparr>net := s'\<rparr>)
      | Inl e \<Rightarrow>
          (case error_text e of
             Inl ex \<Rightarrow> (Inl ex, w\<lparr>net := s'\<rparr>)
           | Inr extra \<Rightarrow>
               (Inl (unable_to (method_name (spec_method (spec_of m))) (spec_path (spec_of m)) extra),
                w\<lparr>net := s', console := console w @ [e]\<rparr>)))"
  by (simp add: invoke_spec_call run_spec_call axios_def split: sum.splits)

lemma run_invoke_cachet_split:
  "run_state (invoke cachet c m) w =
     (case cachet_server (spec_request c (spec_of m)) (net w) of
        (a, s') \<Rightarrow>
          (case axios_settle a of
             Inr resp \<Rightarrow> (spec_result (spec_of m) resp, w\<lparr>net := s'\<rparr>)
           | Inl e \<Rightarrow>
               (case error_text e of
                  Inl ex \<Rightarrow> (Inl ex, w\<lparr>net := s'\<rparr>)
                | Inr extra \<Rightarrow>
                    (Inl (unable_to (method_name (spec_method (spec_of m))) (spec_path (spec_of m)) extra),
                     w\<lparr>net := s', console := console w @ [e]\<rparr>))))"
  using run_invoke_cachet [of c m w] by (cases "cachet_server (spec_request c (spec_of m)) (net w)") simp

lemma run_invoke_ok:
  "cachet_server (spec_request c (spec_of m)) (net w) = (ok b, s') \<Longrightarrow>
   run_state (invoke cachet c m) w =
     (spec_result (spec_of m) (response_obj \<lparr>status = 200, status_text = ''OK'', body = b\<rparr>), w\<lparr>net := s'\<rparr>)"
  by (simp add: run_invoke_cachet ok_def axios_settle_def)

lemma run_invoke_no_content:
  "cachet_server (spec_request c (spec_of m)) (net w) = (no_content, s') \<Longrightarrow>
   run_state (invoke cachet c m) w =
     (spec_result (spec_of m) (response_obj \<lparr>status = 204, status_text = ''No Content'', body = JStr []\<rparr>),
      w\<lparr>net := s'\<rparr>)"
  by (simp add: run_invoke_cachet no_content_def axios_settle_def)

lemma run_invoke_not_found:
  "cachet_server (spec_request c (spec_of m)) (net w) = (not_found, s') \<Longrightarrow>
   run_state (invoke cachet c m) w =
     (Inl (unable_to (method_name (spec_method (spec_of m))) (spec_path (spec_of m)) not_found_text),
      w\<lparr>net := s', console := console w @ [not_found_error]\<rparr>)"
  by (simp add: run_invoke_cachet not_found_def axios_settle_def not_found_error_def not_found_text_def
      error_text_def response_text_def response_obj_def nat_to_dec.simps js_simps)

lemma parent_ok_other:
  "coll_of f = Some k \<Longrightarrow> parent_ok (s\<lparr>items := (items s)(k := xs), next_id := n\<rparr>) k = parent_ok s k"
  "coll_of f = Some k \<Longrightarrow> parent_ok (s\<lparr>items := (items s)(k := xs)\<rparr>) k = parent_ok s k"
  by (cases k; simp)+

lemma service_inv_lt: "service_inv s \<Longrightarrow> (i, r) \<in> set (items s k) \<Longrightarrow> i < next_id s"
  by (force simp: service_inv_def)

lemma service_inv_fresh: "service_inv s \<Longrightarrow> map_of (items s k) (next_id s) = None"
  by (force simp: map_of_eq_None_iff dest: service_inv_lt)

lemma map_upd_fresh:
  "map_of xs n = None \<Longrightarrow> map (\<lambda>(j, x). if j = n then (j, g x) else (j, x)) xs = xs"
  by (induction xs) (auto split: if_splits)

lemma filter_fresh: "map_of xs n = None \<Longrightarrow> filter (\<lambda>(j, x). j \<noteq> n) xs = xs"
  by (induction xs) auto

lemma map_of_fresh:
  "service_inv s \<Longrightarrow> map_of (items s k @ [(next_id s, r)]) (next_id s) = Some r"
proof -
  assume "service_inv s"
  then have "next_id s \<notin> fst ` set (items s k)" by (force dest: service_inv_lt)
  then have "map_of (items s k) (next_id s) = None" by (simp add: map_of_eq_None_iff)
  then show ?thesis by (simp add: map_add_def)
qed

lemma server_create:
  assumes "coll_of f = Some k" and "parent_ok s k"
  shows "cachet_server (spec_request c (Resource f (Create (JObj ps)))) s =
           (ok (JObj [(''data'', new_record (next_id s) ps)]),
            s\<lparr>items := (items s)(k := items s k @ [(next_id s, new_record (next_id s) ps)]),
              next_id := next_id s + 1\<rparr>)"
  using assms by (simp add: cachet_server_spec_request handle_coll_def)

lemma server_item:
  assumes "coll_of f = Some k" and "parent_ok s k" and "map_of (items s k) i = Some r"
  shows "cachet_server (spec_request c (Resource f (Get (JNum i)))) s = (ok (JObj [(''data'', r)]), s)"
    and "cachet_server (spec_request c (Resource f (Delete (JNum i)))) s =
           (no_content, s\<lparr>items := (items s)(k := filter (\<lambda>(j, x). j \<noteq> i) (items s k))\<rparr>)"
    and "cachet_server (spec_request c (Resource f (Update (JNum i) (JObj ps)))) s =
           (ok (JObj [(''data'', merge_record r ps)]),
            s\<lparr>items := (items s)(k := map (\<lambda>(j, x). if j = i then (j, merge_record x ps) else (j, x)) (items s k))\<rparr>)"
  using assms by (simp_all add: cachet_server_spec_request handle_item_def)

lemma server_item_missing:
  assumes "coll_of f = Some k" and "\<not> parent_ok s k \<or> map_of (items s k) i = None"
  shows "cachet_server (spec_request c (Resource f (Get (JNum i)))) s = (not_found, s)"
    and "cachet_server (spec_request c (Resource f (Delete (JNum i)))) s = (not_found, s)"
    and "cachet_server (spec_request c (Resource f (Update (JNum i) b))) s = (not_found, s)"
  using assms by (auto simp: cachet_server_spec_request)

lemma server_coll_parent_missing:
  assumes "coll_of f = Some k" and "\<not> parent_ok s k"
  shows "cachet_server (spec_request c (Resource f (Create b))) s = (not_found, s)"
    and "cachet_server (spec_request c (Resource f (List raw))) s = (not_found, s)"
  using assms by (simp_all add: cachet_server_spec_request)

lemma map_of_filter_key: "map_of (filter (\<lambda>(j, x). j \<noteq> i) xs) i = None"
  by (induction xs) auto

lemma map_of_map_update:
  "map_of xs i = Some r \<Longrightarrow>
   map_of (map (\<lambda>(j, x). if j = i then (j, g x) else (j, x)) xs) i = Some (g r)"
  by (induction xs) (auto split: if_splits)

lemma map_of_merge_fields: "map_of (merge_fields qs ps) = map_of qs ++ map_of (strip_id ps)"
proof (rule ext)
  fix f
  have "map_of (map (\<lambda>(f, v). (f, case map_of (strip_id ps) f of None \<Rightarrow> v | Some v' \<Rightarrow> v')) qs) f
        = map_option (\<lambda>v. case map_of (strip_id ps) f of None \<Rightarrow> v | Some v' \<Rightarrow> v') (map_of qs f)"
    by (induction qs) (auto split: option.splits)
  moreover have "map_of (filter (\<lambda>(f, v). f \<notin> S) xs) f = (if f \<in> S then None else map_of xs f)"
    for S and xs :: "(string \<times> jsval) list"
    by (induction xs) auto
  moreover have "(f \<in> fst ` set qs) = (map_of qs f \<noteq> None)" by (simp add: map_of_eq_None_iff)
  ultimately show "map_of (merge_fields qs ps) f = (map_of qs ++ map_of (strip_id ps)) f"
    by (simp add: merge_fields_def map_add_def split: option.splits)
qed

lemma run_invoke_net:
  "net (snd (run_state (invoke cachet c m) w)) = snd (cachet_server (spec_request c (spec_of m)) (net w))"
  by (cases "cachet_server (spec_request c (spec_of m)) (net w)")
     (simp add: run_invoke_cachet split: sum.splits)

lemma server_ping: "cachet_server (spec_request c SPing) s = (ok (JObj [(''data'', JStr ''Pong!'')]), s)"
  and server_version:
    "cachet_server (spec_request c (SVersion raw)) s =
       (ok (JObj [(''data'', JStr (version s)), (''meta'', JObj [(''on_latest'', JBool True)])]), s)"
  by (simp_all add: cachet_server_spec_request)

section \<open>End-to-end properties\<close>

text \<open>
  C17: against the reference service, creating a record in a collection whose parent exists
  resolves with the stored record (the fields sent, without any \<open>id\<close> of their own, after
  the fresh id the service assigns), and a get of that id in the new state resolves with
  the same record.
\<close>

theorem create_then_get:
  assumes create: "spec_of m = Resource f (Create (JObj ps))"
    and get: "spec_of g = Resource f (Get (JNum (next_id (net w))))"
    and coll: "coll_of f = Some k" and parent: "parent_ok (net w) k" and inv: "service_inv (net w)"
  shows "\<exists>w1. run_state (invoke cachet c m) w = (Inr (new_record (next_id (net w)) ps), w1)
              \<and> fst (run_state (invoke cachet c g) w1) = Inr (new_record (next_id (net w)) ps)"
proof -
  let ?s = "net w" and ?n = "next_id (net w)"
  let ?s1 = "?s\<lparr>items := (items ?s)(k := items ?s k @ [(?n, new_record ?n ps)]), next_id := ?n + 1\<rparr>"
  have run1: "run_state (invoke cachet c m) w = (Inr (new_record ?n ps), w\<lparr>net := ?s1\<rparr>)"
    using run_invoke_ok [of c m w] server_create [OF coll parent, of c ps] create
    by (simp add: response_obj_def unwrap_data_def)
  have "parent_ok ?s1 k" using parent parent_ok_other(1) [OF coll] by simp
  moreover have "map_of (items ?s1 k) ?n = Some (new_record ?n ps)"
    using map_of_fresh [OF inv] by simp
  ultimately have "cachet_server (spec_request c (spec_of g)) ?s1 = (ok (JObj [(''data'', new_record ?n ps)]), ?s1)"
    using server_item(1) [OF coll] get by simp
  then have "fst (run_state (invoke cachet c g) (w\<lparr>net := ?s1\<rparr>)) = Inr (new_record ?n ps)"
    using run_invoke_ok [of c g "w\<lparr>net := ?s1\<rparr>"] get by (simp add: response_obj_def unwrap_data_def)
  with run1 show ?thesis by blast
qed

theorem create_then_get_witness:
  "spec_of (OpAddComponent (JObj [(''name'', JStr ''added component'')])) = Resource Components (Create (JObj [(''name'', JStr ''added component'')]))
   \<and> spec_of (OpGetComponent (JNum 1)) = Resource Components (Get (JNum (next_id (net \<lparr>net = empty_service, console = []\<rparr>))))
   \<and> coll_of Components = Some KComponents \<and> parent_ok (net \<lparr>net = empty_service, console = []\<rparr>) KComponents
   \<and> service_inv (net \<lparr>net = empty_service, console = []\<rparr>)
   \<and> (\<exists>w1. run_state (invoke cachet test_api (OpAddComponent (JObj [(''name'', JStr ''added component'')]))) \<lparr>net = empty_service, console = []\<rparr>
            = (Inr (JObj [(''id'', JNum 1), (''name'', JStr ''added component'')]), w1)
          \<and> fst (run_state (invoke cachet test_api (OpGetComponent (JNum 1))) w1)
            = Inr (JObj [(''id'', JNum 1), (''name'', JStr ''added component'')]))"
  using create_then_get [of "OpAddComponent (JObj [(''name'', JStr ''added component'')])" Components
      "[(''name'', JStr ''added component'')]" "OpGetComponent (JNum 1)" "\<lparr>net = empty_service, console = []\<rparr>" KComponents test_api]
  by (simp add: empty_service_def service_inv_def new_record_def strip_id_def)

text \<open>
  C18: updating an existing record resolves with the merged record, a get in the new state
  resolves with the same record, and its fields are the stored ones overridden by the
  fields sent (an \<open>id\<close> sent is ignored).
\<close>

theorem update_then_get:
  assumes upd: "spec_of u = Resource f (Update (JNum i) (JObj ps))"
    and get: "spec_of g = Resource f (Get (JNum i))"
    and coll: "coll_of f = Some k" and parent: "parent_ok (net w) k"
    and found: "map_of (items (net w) k) i = Some (JObj qs)"
  shows "\<exists>w1 qs'. run_state (invoke cachet c u) w = (Inr (JObj qs'), w1)
              \<and> fst (run_state (invoke cachet c g) w1) = Inr (JObj qs')
              \<and> map_of qs' = map_of qs ++ map_of (strip_id ps)"
proof -
  let ?s = "net w"
  let ?s1 = "?s\<lparr>items := (items ?s)(k := map (\<lambda>(j, x). if j = i then (j, merge_record x ps) else (j, x)) (items ?s k))\<rparr>"
  have run1: "run_state (invoke cachet c u) w = (Inr (merge_record (JObj qs) ps), w\<lparr>net := ?s1\<rparr>)"
    using run_invoke_ok [of c u w] server_item(3) [OF coll parent found, of c ps] upd
    by (simp add: response_obj_def unwrap_data_def)
  have "parent_ok ?s1 k" using parent parent_ok_other(2) [OF coll] by simp
  moreover have "map_of (items ?s1 k) i = Some (merge_record (JObj qs) ps)"
    using map_of_map_update [OF found] by simp
  ultimately have "cachet_server (spec_request c (spec_of g)) ?s1 = (ok (JObj [(''data'', merge_record (JObj qs) ps)]), ?s1)"
    using server_item(1) [OF coll] get by simp
  then have "fst (run_state (invoke cachet c g) (w\<lparr>net := ?s1\<rparr>)) = Inr (merge_record (JObj qs) ps)"
    using run_invoke_ok [of c g "w\<lparr>net := ?s1\<rparr>"] get by (simp add: response_obj_def unwrap_data_def)
  with run1 show ?thesis by (simp add: map_of_merge_fields)
qed

theorem update_then_get_witness:
  "spec_of (OpUpdateComponent (JNum 1) (JObj [(''status'', JNum 2)])) = Resource Components (Update (JNum 1) (JObj [(''status'', JNum 2)]))
   \<and> spec_of (OpGetComponent (JNum 1)) = Resource Components (Get (JNum 1))
   \<and> coll_of Components = Some KComponents
   \<and> parent_ok \<lparr>items = (\<lambda>k. [])(KComponents := [(1, JObj [(''id'', JNum 1), (''status'', JNum 1)])]), next_id = 2, version = ''2.4.0-dev''\<rparr> KComponents
   \<and> map_of (items \<lparr>items = (\<lambda>k. [])(KComponents := [(1, JObj [(''id'', JNum 1), (''status'', JNum 1)])]), next_id = 2, version = ''2.4.0-dev''\<rparr> KComponents) 1
       = Some (JObj [(''id'', JNum 1), (''status'', JNum 1)])
   \<and> (\<exists>w1 qs'. run_state (invoke cachet test_api (OpUpdateComponent (JNum 1) (JObj [(''status'', JNum 2)])))
              \<lparr>net = \<lparr>items = (\<lambda>k. [])(KComponents := [(1, JObj [(''id'', JNum 1), (''status'', JNum 1)])]), next_id = 2, version = ''2.4.0-dev''\<rparr>, console = []\<rparr>
            = (Inr (JObj qs'), w1)
          \<and> fst (run_state (invoke cachet test_api (OpGetComponent (JNum 1))) w1) = Inr (JObj qs')
          \<and> map_of qs' = map_of [(''id'', JNum 1), (''status'', JNum 1)] ++ map_of (strip_id [(''status'', JNum 2)]))"
  using update_then_get [of "OpUpdateComponent (JNum 1) (JObj [(''status'', JNum 2)])" Components 1
      "[(''status'', JNum 2)]" "OpGetComponent (JNum 1)" KComponents
      "\<lparr>net = \<lparr>items = (\<lambda>k. [])(KComponents := [(1, JObj [(''id'', JNum 1), (''status'', JNum 1)])]), next_id = 2, version = ''2.4.0-dev''\<rparr>, console = []\<rparr>"
      "[(''id'', JNum 1), (''status'', JNum 1)]" test_api]
  by simp

text \<open>
  C19: deleting an existing record resolves with \<open>true\<close>, and a get of the same id
  afterwards rejects with \<open>Error("Unable to GET <path>: 404 Not Found | {...}")\<close>.
\<close>

theorem delete_then_get:
  assumes del: "spec_of d = Resource f (Delete (JNum i))"
    and get: "spec_of g = Resource f (Get (JNum i))"
    and coll: "coll_of f = Some k" and parent: "parent_ok (net w) k"
    and found: "map_of (items (net w) k) i = Some r"
  shows "\<exists>w1. run_state (invoke cachet c d) w = (Inr (JBool True), w1)
              \<and> fst (run_state (invoke cachet c g) w1) = Inl (unable_to ''GET'' (spec_path (spec_of g)) not_found_text)"
proof -
  let ?s = "net w"
  let ?s1 = "?s\<lparr>items := (items ?s)(k := filter (\<lambda>(j, x). j \<noteq> i) (items ?s k))\<rparr>"
  have run1: "run_state (invoke cachet c d) w = (Inr (JBool True), w\<lparr>net := ?s1\<rparr>)"
    using run_invoke_no_content [of c d w] server_item(2) [OF coll parent found, of c] del by simp
  have "map_of (items ?s1 k) i = None" by (simp add: map_of_filter_key)
  then have "cachet_server (spec_request c (spec_of g)) ?s1 = (not_found, ?s1)"
    using server_item_missing(1) [OF coll] get by simp
  then have "fst (run_state (invoke cachet c g) (w\<lparr>net := ?s1\<rparr>)) = Inl (unable_to ''GET'' (spec_path (spec_of g)) not_found_text)"
    using run_invoke_not_found [of c g "w\<lparr>net := ?s1\<rparr>"] get by simp
  with run1 show ?thesis by blast
qed

theorem delete_then_get_witness:
  "spec_of (OpDeleteComponent (JNum 1)) = Resource Components (Delete (JNum 1))
   \<and> spec_of (OpGetComponent (JNum 1)) = Resource Components (Get (JNum 1))
   \<and> coll_of Components = Some KComponents
   \<and> parent_ok \<lparr>items = (\<lambda>k. [])(KComponents := [(1, JObj [(''id'', JNum 1)])]), next_id = 2, version = ''2.4.0-dev''\<rparr> KComponents
   \<and> map_of (items \<lparr>items = (\<lambda>k. [])(KComponents := [(1, JObj [(''id'', JNum 1)])]), next_id = 2, version = ''2.4.0-dev''\<rparr> KComponents) 1 = Some (JObj [(''id'', JNum 1)])
   \<and> (\<exists>w1. run_state (invoke cachet test_api (OpDeleteComponent (JNum 1)))
              \<lparr>net = \<lparr>items = (\<lambda>k. [])(KComponents := [(1, JObj [(''id'', JNum 1)])]), next_id = 2, version = ''2.4.0-dev''\<rparr>, console = []\<rparr>
            = (Inr (JBool True), w1)
          \<and> fst (run_state (invoke cachet test_api (OpGetComponent (JNum 1))) w1)
            = Inl (unable_to ''GET'' ''/v1/components/1'' not_found_text))"
  using delete_then_get [of "OpDeleteComponent (JNum 1)" Components 1 "OpGetComponent (JNum 1)" KComponents
      "\<lparr>net = \<lparr>items = (\<lambda>k. [])(KComponents := [(1, JObj [(''id'', JNum 1)])]), next_id = 2, version = ''2.4.0-dev''\<rparr>, console = []\<rparr>"
      "JObj [(''id'', JNum 1)]" test_api]
  by (simp add: js_simps nat_to_dec.simps)

text \<open>
  C20: adding to a nested collection (an incident's updates, a metric's points) whose parent
  does not exist rejects with the normalised 404 error, logs the \<open>AxiosError\<close> once and
  leaves the service unchanged.
\<close>

theorem create_under_missing_parent:
  assumes "spec_of m = Resource f (Create b)" and "coll_of f = Some k" and "\<not> parent_ok (net w) k"
  shows "run_state (invoke cachet c m) w =
           (Inl (unable_to ''POST'' (spec_path (spec_of m)) not_found_text),
            w\<lparr>console := console w @ [not_found_error]\<rparr>)"
  using assms run_invoke_not_found [of c m w "net w"] server_coll_parent_missing(1) [of f k "net w" c b]
  by simp

theorem create_under_missing_parent_witness:
  "spec_of (OpAddIncidentUpdate (JNum 5) (JObj [(''message'', JStr ''fixed'')])) = Resource (IncidentUpdates (JNum 5)) (Create (JObj [(''message'', JStr ''fixed'')]))
   \<and> coll_of (IncidentUpdates (JNum 5)) = Some (KUpdates 5)
   \<and> \<not> parent_ok (net \<lparr>net = empty_service, console = []\<rparr>) (KUpdates 5)
   \<and> run_state (invoke cachet test_api (OpAddIncidentUpdate (JNum 5) (JObj [(''message'', JStr ''fixed'')]))) \<lparr>net = empty_service, console = []\<rparr> =
           (Inl (unable_to ''POST'' ''/v1/incidents/5/updates'' not_found_text),
            \<lparr>net = empty_service, console = [not_found_error]\<rparr>)"
  using create_under_missing_parent [of "OpAddIncidentUpdate (JNum 5) (JObj [(''message'', JStr ''fixed'')])" "IncidentUpdates (JNum 5)"
      "JObj [(''message'', JStr ''fixed'')]" "KUpdates 5" "\<lparr>net = empty_service, console = []\<rparr>" test_api]
  by (simp add: empty_service_def js_simps nat_to_dec.simps)

text \<open>
  C21: the general endpoints read the service and change nothing: \<open>ping()\<close> resolves
  with \<open>"Pong!"\<close>, and \<open>getVersion(with_meta)\<close> with the service's version, or with
  the whole envelope (version and \<open>meta.on_latest\<close>) when \<open>with_meta\<close> is truthy.
\<close>

theorem general_endpoints_read_state:
  "run_state (invoke cachet c OpPing) w = (Inr (JStr ''Pong!''), w)
   \<and> run_state (invoke cachet c (OpGetVersion with_meta)) w =
       (if truthy with_meta
        then Inr (JObj [(''data'', JStr (version (net w))), (''meta'', JObj [(''on_latest'', JBool True)])])
        else Inr (JStr (version (net w))), w)"
  using run_invoke_ok [of c OpPing w] server_ping [of c "net w"]
    run_invoke_ok [of c "OpGetVersion with_meta" w] server_version [of c with_meta "net w"]
  by (simp add: response_obj_def unwrap_data_def)

end
