(* ===== verification/Types.thy ===== *)
theory Types
  imports Service
begin

text \<open>
  The entity types the source documents with JSDoc \<open>@typedef\<close> blocks (\<open>Component\<close>,
  \<open>ComponentGroup\<close>, \<open>Incident\<close>, \<open>IncidentUpdate\<close>, \<open>Metric\<close>, \<open>MetricPoint\<close>,
  \<open>Subscriber\<close>): a small type language for the documented property types, a typedef
  as its list of properties (name, type, optional), and conformance of a JavaScript
  object to a typedef. The client passes payloads through unchanged; the typedefs are
  the contract its methods document for them. The theory proves that calls whose bodies
  conform keep every record of the reference service well typed, and that the records
  the client then returns conform to their typedef.
\<close>

section \<open>Types and typedefs\<close>

datatype jstype = TString | TInteger | TNumber | TBoolean | TTimestamp | TArray jstype

datatype prop_spec = Prop (prop_name: string) (prop_type: jstype) (prop_optional: bool)

type_synonym entity_type = "prop_spec list"

text \<open>\<open>{String}\<close>, \<open>{Integer}\<close>, \<open>{Number}\<close>, \<open>{Boolean}\<close>, \<open>{Timestamp}\<close> (a Unix
  time, a number) and \<open>{Array.<T>}\<close>. Numbers of the model are integers, so
  \<open>Integer\<close> and \<open>Number\<close> accept the same values.\<close>

fun has_type :: "jstype \<Rightarrow> jsval \<Rightarrow> bool" where
  "has_type TString v = (case v of JStr s \<Rightarrow> True | _ \<Rightarrow> False)"
| "has_type TInteger v = (case v of JNum n \<Rightarrow> True | _ \<Rightarrow> False)"
| "has_type TNumber v = (case v of JNum n \<Rightarrow> True | _ \<Rightarrow> False)"
| "has_type TBoolean v = (case v of JBool b \<Rightarrow> True | _ \<Rightarrow> False)"
| "has_type TTimestamp v = (case v of JNum n \<Rightarrow> True | _ \<Rightarrow> False)"
| "has_type (TArray t) v = (case v of JArr vs \<Rightarrow> list_all (has_type t) vs | _ \<Rightarrow> False)"

definition component_type :: entity_type where
  "component_type =
     [Prop ''name'' TString False, Prop ''description'' TString False, Prop ''status'' TInteger False,
      Prop ''id'' TString True, Prop ''link'' TString True, Prop ''order'' TInteger True,
      Prop ''group_id'' TInteger True, Prop ''enabled'' TBoolean True]"

definition component_group_type :: entity_type where
  "component_group_type =
     [Prop ''name'' TString False, Prop ''order'' TInteger True, Prop ''collapsed'' TInteger True]"

definition incident_type :: entity_type where
  "incident_type =
     [Prop ''name'' TString False, Prop ''message'' TString False, Prop ''status'' TInteger False,
      Prop ''visible'' TInteger False, Prop ''component_id'' TString True,
      Prop ''component_status'' TString True, Prop ''notify'' TBoolean True,
      Prop ''created_at'' TInteger True, Prop ''template'' TString True,
      Prop ''vars'' (TArray TString) True]"

definition incident_update_type :: entity_type where
  "incident_update_type = [Prop ''message'' TString False, Prop ''status'' TInteger False]"

definition metric_type :: entity_type where
  "metric_type =
     [Prop ''name'' TString False, Prop ''description'' TString False, Prop ''suffix'' TInteger False,
      Prop ''default_value'' TInteger False, Prop ''display_chart'' TBoolean True]"

definition metric_point_type :: entity_type where
  "metric_point_type = [Prop ''value'' TNumber False, Prop ''timestamp'' TTimestamp True]"

definition subscriber_type :: entity_type where
  "subscriber_type =
     [Prop ''email'' TString False, Prop ''verify'' TBoolean True, Prop ''components'' (TArray TInteger) True]"

text \<open>The typedef of the records of each collection of the service.\<close>

fun coll_type :: "coll \<Rightarrow> entity_type" where
  "coll_type KComponents = component_type"
| "coll_type KGroups = component_group_type"
| "coll_type KIncidents = incident_type"
| "coll_type (KUpdates p) = incident_update_type"
| "coll_type KMetrics = metric_type"
| "coll_type (KPoints p) = metric_point_type"
| "coll_type KSubscribers = subscriber_type"

section \<open>Conformance\<close>

text \<open>A property of an object conforms when it is present with its documented type, or
  absent and optional. A partial record (the body of an update) may omit any property.\<close>

fun field_ok :: "prop_spec \<Rightarrow> jsval option \<Rightarrow> bool" where
  "field_ok p None = prop_optional p"
| "field_ok p (Some v) = has_type (prop_type p) v"

definition conforms_fields :: "entity_type \<Rightarrow> (string \<times> jsval) list \<Rightarrow> bool" where
  "conforms_fields td ps = list_all (\<lambda>p. field_ok p (map_of ps (prop_name p))) td"

text \<open>The properties of a typedef an object violates.\<close>

definition type_errors :: "entity_type \<Rightarrow> (string \<times> jsval) list \<Rightarrow> prop_spec list" where
  "type_errors td ps = filter (\<lambda>p. \<not> field_ok p (map_of ps (prop_name p))) td"

definition conforms_partial :: "entity_type \<Rightarrow> (string \<times> jsval) list \<Rightarrow> bool" where
  "conforms_partial td ps =
     list_all (\<lambda>p. case map_of ps (prop_name p) of None \<Rightarrow> True | Some v \<Rightarrow> has_type (prop_type p) v) td"

text \<open>A stored record: an object with the integer id the service assigned, whose other
  properties conform to the typedef.\<close>

definition conforms_record :: "entity_type \<Rightarrow> jsval \<Rightarrow> bool" where
  "conforms_record td r =
     (case r of
        JObj ps \<Rightarrow>
          (case map_of ps ''id'' of Some (JNum i) \<Rightarrow> True | _ \<Rightarrow> False)
          \<and> conforms_fields (filter (\<lambda>p. prop_name p \<noteq> ''id'') td) ps
      | _ \<Rightarrow> False)"

definition typed_service :: "service \<Rightarrow> bool" where
  "typed_service s \<longleftrightarrow> (\<forall>k. list_all (\<lambda>(i, r). conforms_record (coll_type k) r) (items s k))"

text \<open>A typed request body: a create sends a whole record of the collection's typedef, an
  update a partial one; requests without a body are typed.\<close>

fun body_typed :: "endpoint \<Rightarrow> http_method \<Rightarrow> jsval \<Rightarrow> bool" where
  "body_typed (EColl k) POST (JObj ps) = conforms_fields (coll_type k) ps"
| "body_typed (EItem k i) PUT (JObj ps) = conforms_partial (coll_type k) ps"
| "body_typed ep m d = True"

text \<open>A typed call: its ids are numbers (so that its path is its endpoint's) and its
  body is typed for that endpoint.\<close>

definition call_typed :: "api_op \<Rightarrow> bool" where
  "call_typed m =
     (case endpoint_of (spec_of m) of
        None \<Rightarrow> False
      | Some ep \<Rightarrow> body_typed ep (spec_method (spec_of m)) (spec_data (spec_of m)))"

text \<open>The actions whose result is one record: get, create and update.\<close>

fun record_action :: "action \<Rightarrow> bool" where
  "record_action (Get i) = True"
| "record_action (Create b) = True"
| "record_action (Update i b) = True"
| "record_action a = False"

section \<open>Lemmas\<close>

lemma map_of_strip_id: "f \<noteq> ''id'' \<Longrightarrow> map_of (strip_id ps) f = map_of ps f"
  by (induction ps) (auto simp: strip_id_def)

lemma map_of_strip_id_id [simp]: "map_of (strip_id ps) ''id'' = None"
  by (induction ps) (auto simp: strip_id_def)

lemma conforms_fields_cong:
  "(\<And>p. p \<in> set td \<Longrightarrow> map_of qs (prop_name p) = map_of ps (prop_name p)) \<Longrightarrow>
   conforms_fields td qs = conforms_fields td ps"
  by (simp add: conforms_fields_def list_all_iff)

lemma conforms_record_new:
  "conforms_fields td ps \<Longrightarrow> conforms_record td (new_record n ps)"
proof -
  assume ps: "conforms_fields td ps"
  have "conforms_fields (filter (\<lambda>p. prop_name p \<noteq> ''id'') td) ((''id'', JNum n) # strip_id ps)
        = conforms_fields (filter (\<lambda>p. prop_name p \<noteq> ''id'') td) ps"
    by (rule conforms_fields_cong) (auto simp: map_of_strip_id)
  moreover have "conforms_fields (filter (\<lambda>p. prop_name p \<noteq> ''id'') td) ps"
    using ps by (simp add: conforms_fields_def list_all_iff)
  ultimately show ?thesis by (simp add: conforms_record_def new_record_def)
qed

lemma conforms_record_merge:
  assumes r: "conforms_record td r" and ps: "conforms_partial td ps"
  shows "conforms_record td (merge_record r ps)"
proof -
  obtain qs where qs: "r = JObj qs" using r by (cases r) (auto simp: conforms_record_def)
  have m: "map_of (merge_fields qs ps) f = (case map_of (strip_id ps) f of None \<Rightarrow> map_of qs f | Some v \<Rightarrow> Some v)" for f
    by (simp add: map_of_merge_fields map_add_def)
  have "field_ok p (map_of (merge_fields qs ps) (prop_name p))"
    if "p \<in> set td" "prop_name p \<noteq> ''id''" for p
  proof (cases "map_of ps (prop_name p)")
    case None
    with that r qs m show ?thesis
      by (auto simp: map_of_strip_id conforms_record_def conforms_fields_def list_all_iff)
  next
    case (Some v)
    with that ps m show ?thesis
      by (auto simp: map_of_strip_id conforms_partial_def list_all_iff split: option.splits)
  qed
  moreover have "map_of (merge_fields qs ps) ''id'' = map_of qs ''id''" by (simp add: m)
  ultimately show ?thesis using r qs
    by (auto simp: conforms_record_def conforms_fields_def list_all_iff)
qed

lemma typed_service_update:
  "typed_service s \<Longrightarrow> list_all (\<lambda>(i, r). conforms_record (coll_type k) r) xs \<Longrightarrow>
   typed_service (s\<lparr>items := (items s)(k := xs)\<rparr>)"
  "typed_service s \<Longrightarrow> list_all (\<lambda>(i, r). conforms_record (coll_type k) r) xs \<Longrightarrow>
   typed_service (s\<lparr>items := (items s)(k := xs), next_id := n\<rparr>)"
  by (simp_all add: typed_service_def)

lemma typed_service_item:
  "typed_service s \<Longrightarrow> (i, r) \<in> set (items s k) \<Longrightarrow> conforms_record (coll_type k) r"
  by (fastforce simp: typed_service_def list_all_iff)

lemma has_type_iff:
  "has_type TString v = (\<exists>x. v = JStr x)"
  "has_type TInteger v = (\<exists>n. v = JNum n)"
  "has_type TNumber v = (\<exists>n. v = JNum n)"
  "has_type TTimestamp v = (\<exists>n. v = JNum n)"
  "has_type TBoolean v = (\<exists>b. v = JBool b)"
  by (simp_all split: jsval.splits)

lemma conforms_record_obj:
  "conforms_record td r \<Longrightarrow>
   \<exists>ps j. r = JObj ps \<and> map_of ps ''id'' = Some (JNum j) \<and>
     conforms_fields (filter (\<lambda>p. prop_name p \<noteq> ''id'') td) ps"
proof -
  assume c: "conforms_record td r"
  then obtain ps where r: "r = JObj ps" by (cases r) (auto simp: conforms_record_def)
  with c obtain v where v: "map_of ps ''id'' = Some v" by (cases "map_of ps ''id''") (auto simp: conforms_record_def)
  with c r obtain j where "v = JNum j" by (cases v) (auto simp: conforms_record_def)
  with c r v show ?thesis by (auto simp: conforms_record_def)
qed

lemma conforms_fields_required:
  "conforms_fields td ps \<Longrightarrow> Prop n t False \<in> set td \<Longrightarrow> \<exists>v. map_of ps n = Some v \<and> has_type t v"
  by (cases "map_of ps n") (auto simp: conforms_fields_def list_all_iff dest!: bspec)

lemma typed_service_head:
  "typed_service s \<Longrightarrow> items s k = (i, r) # rest \<Longrightarrow> conforms_record (coll_type k) r"
  using typed_service_item [of s i r k] by simp

lemma typed_serve:
  assumes inv: "typed_service s" and bt: "body_typed ep m d"
  shows "typed_service (snd (serve ep m d s))"
proof (cases ep)
  case (EColl k)
  have "list_all (\<lambda>(i, r). conforms_record (coll_type k) r) (items s k)"
    using inv by (simp add: typed_service_def)
  then show ?thesis using EColl inv bt
    by (cases m; cases d) (auto simp: handle_coll_def conforms_record_new intro: typed_service_update)
next
  case (EItem k i)
  have all: "list_all (\<lambda>(i, r). conforms_record (coll_type k) r) (items s k)"
    using inv by (simp add: typed_service_def)
  have put: "list_all (\<lambda>(i, r). conforms_record (coll_type k) r)
               (map (\<lambda>(j, x). if j = i then (j, merge_record x ps) else (j, x)) (items s k))"
    if "conforms_partial (coll_type k) ps" for ps
    using all that by (fastforce simp: list_all_iff conforms_record_merge split: if_splits)
  have del: "list_all (\<lambda>(i, r). conforms_record (coll_type k) r) (filter P (items s k))" for P
    using all by (simp add: list_all_iff)
  show ?thesis using EItem inv bt put del
    by (cases m; cases d) (auto simp: handle_item_def intro: typed_service_update split: option.splits)
qed (use inv in simp_all)

lemma serve_record_answer:
  assumes inv: "typed_service s" and bt: "body_typed ep m d"
    and ep: "(ep = EColl k \<and> m = POST) \<or> (ep = EItem k i \<and> (m = GET \<or> m = PUT))"
    and sv: "serve ep m d s = (Answer resp, s')" and st: "200 \<le> status resp" "status resp < 300"
  shows "\<exists>x. body resp = JObj [(''data'', x)] \<and> conforms_record (coll_type k) x"
  using ep
proof
  assume "ep = EColl k \<and> m = POST"
  with sv st bt show ?thesis
    by (cases d) (auto simp: handle_coll_def conforms_record_new ok_def not_found_def unprocessable_def
                   split: if_splits)
next
  assume e: "ep = EItem k i \<and> (m = GET \<or> m = PUT)"
  show ?thesis
  proof (cases "parent_ok s k \<and> map_of (items s k) i \<noteq> None")
    case True
    then obtain r where r: "map_of (items s k) i = Some r" by auto
    then have "conforms_record (coll_type k) r" using inv by (auto dest: map_of_SomeD typed_service_item)
    with True e r sv st bt show ?thesis
      by (cases d) (auto simp: handle_item_def conforms_record_merge ok_def unprocessable_def)
  next
    case False
    with e sv st show ?thesis by (auto simp: not_found_def split: if_splits option.splits)
  qed
qed

lemma call_typed_serve:
  assumes "call_typed m"
  obtains ep where "endpoint_of (spec_of m) = Some ep"
    and "body_typed ep (spec_method (spec_of m)) (spec_data (spec_of m))"
    and "cachet_server (spec_request c (spec_of m)) s = serve ep (spec_method (spec_of m)) (spec_data (spec_of m)) s"
proof (cases "endpoint_of (spec_of m)")
  case None
  with assms show ?thesis by (simp add: call_typed_def)
next
  case (Some ep)
  have "cachet_server (spec_request c (spec_of m)) s = serve ep (spec_method (spec_of m)) (spec_data (spec_of m)) s"
    by (simp add: cachet_server_spec_request Some)
  with Some assms that show ?thesis by (simp add: call_typed_def)
qed

text \<open>A typed call that resolves against the reference service got a 2xx answer from
  the handler of its endpoint, and its result is the contract's result on that answer.\<close>

lemma typed_call_answer:
  assumes inv: "typed_service (net w)" and ct: "call_typed m"
    and res: "fst (run_state (invoke cachet c m) w) = Inr x"
  obtains ep resp s' where "endpoint_of (spec_of m) = Some ep"
    and "body_typed ep (spec_method (spec_of m)) (spec_data (spec_of m))"
    and "serve ep (spec_method (spec_of m)) (spec_data (spec_of m)) (net w) = (Answer resp, s')"
    and "200 \<le> status resp" "status resp < 300"
    and "spec_result (spec_of m) (response_obj resp) = Inr x"
proof -
  obtain ep where ep: "endpoint_of (spec_of m) = Some ep"
    and bt: "body_typed ep (spec_method (spec_of m)) (spec_data (spec_of m))"
    and sv: "cachet_server (spec_request c (spec_of m)) (net w) = serve ep (spec_method (spec_of m)) (spec_data (spec_of m)) (net w)"
    using ct by (rule call_typed_serve)
  obtain ans s' where ans: "serve ep (spec_method (spec_of m)) (spec_data (spec_of m)) (net w) = (ans, s')"
    by fastforce
  from res have "\<exists>resp. ans = Answer resp \<and> 200 \<le> status resp \<and> status resp < 300
                 \<and> spec_result (spec_of m) (response_obj resp) = Inr x"
    using run_invoke_cachet [of c m w ans s'] sv ans
    by (auto simp: axios_settle_def split: answer.splits if_splits sum.splits)
  with ep bt ans that show ?thesis by blast
qed

section \<open>Typed calls\<close>

text \<open>
  C23: a call whose ids are numbers and whose body conforms to the documented typedef
  (the whole typedef for a create, a partial record for an update) keeps every record of
  the service well typed: an object with an integer id whose other properties conform to
  its collection's typedef.
\<close>

theorem typed_calls_keep_service_typed:
  assumes "typed_service (net w)" and "call_typed m"
  shows "typed_service (net (snd (run_state (invoke cachet c m) w)))"
proof -
  obtain ep where "body_typed ep (spec_method (spec_of m)) (spec_data (spec_of m))"
    and "cachet_server (spec_request c (spec_of m)) (net w) = serve ep (spec_method (spec_of m)) (spec_data (spec_of m)) (net w)"
    using assms(2) by (rule call_typed_serve)
  then show ?thesis using assms(1) by (simp add: run_invoke_net typed_serve)
qed

theorem typed_calls_keep_service_typed_witness:
  "typed_service (net \<lparr>net = empty_service, console = []\<rparr>)
   \<and> call_typed (OpAddComponent (JObj [(''name'', JStr ''API''), (''description'', JStr ''Public API''), (''status'', JNum 1)]))
   \<and> typed_service (net (snd (run_state (invoke cachet test_api
        (OpAddComponent (JObj [(''name'', JStr ''API''), (''description'', JStr ''Public API''), (''status'', JNum 1)])))
        \<lparr>net = empty_service, console = []\<rparr>)))"
  using typed_calls_keep_service_typed [of "\<lparr>net = empty_service, console = []\<rparr>"
      "OpAddComponent (JObj [(''name'', JStr ''API''), (''description'', JStr ''Public API''), (''status'', JNum 1)])" test_api]
  by (simp add: typed_service_def empty_service_def call_typed_def conforms_fields_def component_type_def)

text \<open>
  C24: a typed get, create or update that resolves returns a record conforming to the
  typedef of its collection, when the service's records are well typed.
\<close>

theorem typed_call_results:
  assumes inv: "typed_service (net w)" and ct: "call_typed m"
    and op: "spec_of m = Resource f a" and coll: "coll_of f = Some k" and ra: "record_action a"
    and res: "fst (run_state (invoke cachet c m) w) = Inr x"
  shows "conforms_record (coll_type k) x"
proof -
  obtain ep resp s' where ep: "endpoint_of (spec_of m) = Some ep"
    and bt: "body_typed ep (spec_method (spec_of m)) (spec_data (spec_of m))"
    and ans: "serve ep (spec_method (spec_of m)) (spec_data (spec_of m)) (net w) = (Answer resp, s')"
    and st: "200 \<le> status resp" "status resp < 300"
    and sr: "spec_result (spec_of m) (response_obj resp) = Inr x"
    using inv ct res by (rule typed_call_answer)
  have at: "(ep = EColl k \<and> spec_method (spec_of m) = POST) \<or>
            (\<exists>i. ep = EItem k i \<and> (spec_method (spec_of m) = GET \<or> spec_method (spec_of m) = PUT))"
    using ep op coll ra by (cases a) (auto split: option.splits)
  then obtain y where "body resp = JObj [(''data'', y)]" "conforms_record (coll_type k) y"
    using serve_record_answer [OF inv bt] ans st by blast
  moreover have "spec_result (spec_of m) (response_obj resp) = unwrap_data (response_obj resp)"
    using op ra by (cases a) simp_all
  ultimately show ?thesis using sr by (simp add: unwrap_data_def response_obj_def)
qed

theorem typed_call_results_witness:
  "typed_service (net \<lparr>net = empty_service, console = []\<rparr>)
   \<and> call_typed (OpAddComponent (JObj [(''name'', JStr ''API''), (''description'', JStr ''Public API''), (''status'', JNum 1)]))
   \<and> spec_of (OpAddComponent (JObj [(''name'', JStr ''API''), (''description'', JStr ''Public API''), (''status'', JNum 1)]))
       = Resource Components (Create (JObj [(''name'', JStr ''API''), (''description'', JStr ''Public API''), (''status'', JNum 1)]))
   \<and> coll_of Components = Some KComponents
   \<and> record_action (Create (JObj [(''name'', JStr ''API''), (''description'', JStr ''Public API''), (''status'', JNum 1)]))
   \<and> fst (run_state (invoke cachet test_api
        (OpAddComponent (JObj [(''name'', JStr ''API''), (''description'', JStr ''Public API''), (''status'', JNum 1)])))
        \<lparr>net = empty_service, console = []\<rparr>)
       = Inr (JObj [(''id'', JNum 1), (''name'', JStr ''API''), (''description'', JStr ''Public API''), (''status'', JNum 1)])
   \<and> conforms_record (coll_type KComponents)
       (JObj [(''id'', JNum 1), (''name'', JStr ''API''), (''description'', JStr ''Public API''), (''status'', JNum 1)])"
proof -
  have run: "fst (run_state (invoke cachet test_api
        (OpAddComponent (JObj [(''name'', JStr ''API''), (''description'', JStr ''Public API''), (''status'', JNum 1)])))
        \<lparr>net = empty_service, console = []\<rparr>)
       = Inr (JObj [(''id'', JNum 1), (''name'', JStr ''API''), (''description'', JStr ''Public API''), (''status'', JNum 1)])"
    using run_invoke_ok [of test_api "OpAddComponent (JObj [(''name'', JStr ''API''), (''description'', JStr ''Public API''), (''status'', JNum 1)])"
        "\<lparr>net = empty_service, console = []\<rparr>"]
      server_create [of Components KComponents empty_service test_api "[(''name'', JStr ''API''), (''description'', JStr ''Public API''), (''status'', JNum 1)]"]
    by (simp add: empty_service_def response_obj_def unwrap_data_def new_record_def strip_id_def)
  show ?thesis
    using typed_call_results [of "\<lparr>net = empty_service, console = []\<rparr>"
      "OpAddComponent (JObj [(''name'', JStr ''API''), (''description'', JStr ''Public API''), (''status'', JNum 1)])"
      Components "Create (JObj [(''name'', JStr ''API''), (''description'', JStr ''Public API''), (''status'', JNum 1)])"
      KComponents test_api "JObj [(''id'', JNum 1), (''name'', JStr ''API''), (''description'', JStr ''Public API''), (''status'', JNum 1)]"] run
    by (simp add: typed_service_def empty_service_def call_typed_def conforms_fields_def component_type_def)
qed

end
