(* ===== verification/Suite.thy ===== *)
theory Suite
  imports Jest Types
begin

text \<open>
  The test suite of \<^verbatim>\<open>src/src/CachetAPI.js\<close> (lines 1122-1494), block by block, as
  Jest statements over the client instance \<open>test_api\<close> of line 1124, and the runs of
  those blocks against the reference service of \<open>Service\<close>. The block
  \<open>Incident Updates\<close> (lines 1329-1393) is commented out in the source and is not part
  of the suite; \<open>Suite_Updates\<close> models it apart. The metric point test sends \<open>value: 0.75\<close> and \<open>timestamp:
  Date.now()\<close>: a fraction is outside the integer numbers of the model and the clock is
  not modelled, so the metrics block takes both values as parameters.
\<close>

section \<open>The blocks of the suite\<close>

definition general_tests :: describe_block where
  "general_tests = \<lparr>block_name = ''General'', before_all = [],
     tests = [
       (''Ping'',
        [Await ''res'' (\<lambda>e. OpPing),
         Expect (Var ''res'' []) (ToBe (JStr ''Pong!''))]),
       (''Version'',
        [Await ''version'' (\<lambda>e. OpGetVersion (JBool True)),
         Expect (Var ''version'' [''meta'']) ToBeDefined,
         Expect (Var ''version'' [''meta'', ''on_latest'']) ToBeDefined,
         Await ''version'' (\<lambda>e. OpGetVersion JUndef),
         Expect (TypeOf (Var ''version'' [])) (ToBe (JStr ''string'')),
         Expect (Var ''version'' [''meta'']) ToBeUndefined])],
     after_all = []\<rparr>"

definition components_tests :: describe_block where
  "components_tests = \<lparr>block_name = ''Components'', before_all = [],
     tests = [
       (''Get Components'',
        [Await ''components'' (\<lambda>e. OpGetComponents JUndef),
         Expect (Var ''components'' [''length'']) (ToBeGreaterThan 1),
         Expect (Var ''components'' [''0'', ''id'']) ToBeDefined,
         Expect (Var ''components'' [''0'', ''name'']) ToBeDefined,
         Expect (Var ''components'' [''0'', ''status'']) ToBeDefined]),
       (''Add a Component'',
        [Await ''component'' (\<lambda>e. OpAddComponent (JObj [(''name'', JStr ''added component''),
            (''description'', JStr ''test description''), (''status'', JNum 1)])),
         Expect (Var ''component'' []) ToBeDefined,
         Expect (Var ''component'' [''id'']) ToBeDefined,
         Expect (Var ''component'' [''name'']) (ToBe (JStr ''added component'')),
         Expect (Var ''component'' [''status'']) ToBeDefined,
         Assign ''added_component_id'' (Var ''component'' [''id''])]),
       (''Get a Component'',
        [Await ''component'' (\<lambda>e. OpGetComponent (e ''added_component_id'')),
         Expect (Var ''component'' []) ToBeDefined,
         Expect (Var ''component'' [''id'']) ToBeDefined,
         Expect (Var ''component'' [''name'']) (ToBe (JStr ''added component'')),
         Expect (Var ''component'' [''status'']) ToBeDefined]),
       (''Update a Component'',
        [Await ''component'' (\<lambda>e. OpUpdateComponent (e ''added_component_id'')
            (JObj [(''name'', JStr ''updated component''), (''status'', JNum 4)])),
         Expect (Var ''component'' []) ToBeDefined,
         Expect (Var ''component'' [''id'']) ToBeDefined,
         Expect (Var ''component'' [''name'']) (ToBe (JStr ''updated component'')),
         Expect (Var ''component'' [''status'']) (ToBe (JNum 4))]),
       (''Delete a Component'',
        [Await ''deleted'' (\<lambda>e. OpDeleteComponent (e ''added_component_id'')),
         Expect (Var ''deleted'' []) (ToBe (JBool True))])],
     after_all = []\<rparr>"

definition component_groups_tests :: describe_block where
  "component_groups_tests = \<lparr>block_name = ''Component Groups'', before_all = [],
     tests = [
       (''Get Component Groups'',
        [Await ''groups'' (\<lambda>e. OpGetComponentGroups JUndef),
         Expect (Var ''groups'' [''length'']) (ToBeGreaterThan 1),
         Expect (Var ''groups'' [''0'', ''id'']) ToBeDefined,
         Expect (Var ''groups'' [''0'', ''name'']) ToBeDefined]),
       (''Add a Component Group'',
        [Await ''group'' (\<lambda>e. OpAddComponentGroup (JObj [(''name'', JStr ''added group''),
            (''collapsed'', JNum 0)])),
         Expect (Var ''group'' []) ToBeDefined,
         Expect (Var ''group'' [''id'']) ToBeDefined,
         Expect (Var ''group'' [''name'']) (ToBe (JStr ''added group'')),
         Expect (Var ''group'' [''collapsed'']) (ToBe (JNum 0)),
         Assign ''added_group_id'' (Var ''group'' [''id''])]),
       (''Get a Component Group'',
        [Await ''group'' (\<lambda>e. OpGetComponentGroup (e ''added_group_id'')),
         Expect (Var ''group'' []) ToBeDefined,
         Expect (Var ''group'' [''id'']) ToBeDefined,
         Expect (Var ''group'' [''name'']) (ToBe (JStr ''added group'')),
         Expect (Var ''group'' [''collapsed'']) (ToBe (JNum 0))]),
       (''Update a Component Group'',
        [Await ''group'' (\<lambda>e. OpUpdateComponentGroup (e ''added_group_id'')
            (JObj [(''name'', JStr ''updated group''), (''collapsed'', JNum 1)])),
         Expect (Var ''group'' []) ToBeDefined,
         Expect (Var ''group'' [''id'']) ToBeDefined,
         Expect (Var ''group'' [''name'']) (ToBe (JStr ''updated group'')),
         Expect (Var ''group'' [''collapsed'']) (ToBe (JNum 1))]),
       (''Delete a Component Group'',
        [Await ''deleted'' (\<lambda>e. OpDeleteComponentGroup (e ''added_group_id'')),
         Expect (Var ''deleted'' []) (ToBe (JBool True))])],
     after_all = []\<rparr>"

definition incident_message :: string where
  "incident_message = ''testing from npm package '' @ [CHR 0x60] @ ''cachetapi'' @ [CHR 0x60]"

definition incidents_tests :: describe_block where
  "incidents_tests = \<lparr>block_name = ''Incidents'',
     before_all =
       [Await ''component'' (\<lambda>e. OpAddComponent (JObj [(''name'', JStr ''Test Incidents''),
            (''description'', JStr ''test description''), (''status'', JNum 1)])),
        Assign ''component_for_incidents_id'' (Var ''component'' [''id''])],
     tests = [
       (''Add an Incident'',
        [Await ''incident'' (\<lambda>e. OpAddIncident (JObj [(''name'', JStr ''added incident''),
            (''message'', JStr incident_message), (''status'', JNum 1), (''visible'', JNum 1),
            (''component_id'', e ''component_for_incidents_id''), (''component_status'', JNum 2)])),
         Expect (Var ''incident'' []) ToBeDefined,
         Expect (Var ''incident'' [''id'']) ToBeDefined,
         Expect (Var ''incident'' [''name'']) (ToBe (JStr ''added incident'')),
         Assign ''added_incident_id'' (Var ''incident'' [''id''])]),
       (''Get Incidents'',
        [Await ''incidents'' (\<lambda>e. OpGetIncidents JUndef),
         Expect (Var ''incidents'' [''length'']) (ToBeGreaterThan 0),
         Expect (Var ''incidents'' [''0'', ''id'']) ToBeDefined,
         Expect (Var ''incidents'' [''0'', ''name'']) ToBeDefined]),
       (''Get an Incident'',
        [Await ''incident'' (\<lambda>e. OpGetIncident (e ''added_incident_id'')),
         Expect (Var ''incident'' []) ToBeDefined,
         Expect (Var ''incident'' [''id'']) ToBeDefined,
         Expect (Var ''incident'' [''name'']) (ToBe (JStr ''added incident'')),
         Expect (Var ''incident'' [''status'']) (ToBe (JNum 1))]),
       (''Update an Incident'',
        [Await ''incident'' (\<lambda>e. OpUpdateIncident (e ''added_incident_id'')
            (JObj [(''name'', JStr ''updated incident''), (''status'', JNum 2),
                   (''component_id'', e ''component_for_incidents_id''), (''component_status'', JNum 3)])),
         Expect (Var ''incident'' []) ToBeDefined,
         Expect (Var ''incident'' [''id'']) ToBeDefined,
         Expect (Var ''incident'' [''name'']) (ToBe (JStr ''updated incident'')),
         Expect (Var ''incident'' [''status'']) (ToBe (JNum 2))]),
       (''Delete an Incident'',
        [Await ''deleted'' (\<lambda>e. OpDeleteIncident (e ''added_incident_id'')),
         Expect (Var ''deleted'' []) (ToBe (JBool True))])],
     after_all = [Await [] (\<lambda>e. OpDeleteComponent (e ''component_for_incidents_id''))]\<rparr>"

definition metrics_tests :: "jsval \<Rightarrow> jsval \<Rightarrow> describe_block" where
  "metrics_tests point_value now = \<lparr>block_name = ''Metrics'', before_all = [],
     tests = [
       (''Add a Metric'',
        [Await ''metric'' (\<lambda>e. OpAddMetric (JObj [(''name'', JStr ''add metric''),
            (''suffix'', JStr ''something''), (''description'', JStr ''testing something''),
            (''default_value'', JNum 1)])),
         Expect (Var ''metric'' []) ToBeDefined,
         Expect (Var ''metric'' [''id'']) ToBeDefined,
         Expect (Var ''metric'' [''name'']) (ToBe (JStr ''add metric'')),
         Assign ''added_metric_id'' (Var ''metric'' [''id''])]),
       (''Get a Metric'',
        [Await ''metric'' (\<lambda>e. OpGetMetric (e ''added_metric_id'')),
         Expect (Var ''metric'' []) ToBeDefined,
         Expect (Var ''metric'' [''id'']) ToBeDefined,
         Expect (Var ''metric'' [''name'']) (ToBe (JStr ''add metric''))]),
       (''Get Metrics'',
        [Await ''metric'' (\<lambda>e. OpGetMetrics JUndef),
         Expect (Var ''metric'' [''length'']) (ToBeGreaterThan 0),
         Expect (Var ''metric'' [''0'', ''id'']) ToBeDefined]),
       (''Add a Metric Point'',
        [Await ''point'' (\<lambda>e. OpAddMetricPoint (e ''added_metric_id'')
            (JObj [(''value'', point_value), (''timestamp'', now)])),
         Expect (Var ''point'' [''id'']) ToBeDefined,
         Expect (Var ''point'' [''value'']) ToBeDefined,
         Assign ''added_metric_point_id'' (Var ''point'' [''id''])]),
       (''Get Metric Points'',
        [Await ''points'' (\<lambda>e. OpGetMetricPoints (e ''added_metric_id'')),
         Expect (Var ''points'' [''length'']) (ToBeGreaterThan 0),
         Expect (Var ''points'' [''0'', ''id'']) ToBeDefined]),
       (''Delete a Metric Point'',
        [Await ''deleted'' (\<lambda>e. OpDeleteMetricPoint (e ''added_metric_id'') (e ''added_metric_point_id'')),
         Expect (Var ''deleted'' []) (ToBe (JBool True))]),
       (''Delete a Metric'',
        [Await ''deleted'' (\<lambda>e. OpDeleteMetric (e ''added_metric_id'')),
         Expect (Var ''deleted'' []) (ToBe (JBool True))])],
     after_all = []\<rparr>"

definition subscribers_tests :: describe_block where
  "subscribers_tests = \<lparr>block_name = ''Subscribers'', before_all = [],
     tests = [
       (''Add a Subscriber'',
        [Await ''subscriber'' (\<lambda>e. OpAddSubscriber (JObj [(''email'', JStr ''email@example.com'')])),
         Expect (Var ''subscriber'' []) ToBeDefined,
         Expect (Var ''subscriber'' [''id'']) ToBeDefined,
         Expect (Var ''subscriber'' [''email'']) (ToBe (JStr ''email@example.com'')),
         Assign ''subscriber_id'' (Var ''subscriber'' [''id''])]),
       (''Get Subscribers'',
        [Await ''subscribers'' (\<lambda>e. OpGetSubscribers),
         Expect (Var ''subscribers'' [''length'']) (ToBeGreaterThan 0),
         Expect (Var ''subscribers'' [''0'', ''email'']) ToBeDefined]),
       (''Delete a Subscriber'',
        [Await ''deleted'' (\<lambda>e. OpDeleteSubscriber (e ''subscriber_id'')),
         Expect (Var ''deleted'' []) (ToBe (JBool True))])],
     after_all = []\<rparr>"

definition test_suite :: "jsval \<Rightarrow> jsval \<Rightarrow> describe_block list" where
  "test_suite point_value now =
     [general_tests, components_tests, component_groups_tests, incidents_tests,
      metrics_tests point_value now, subscribers_tests]"

text \<open>The state of the demo instance the suite is written against: the service invariant,
  well-typed records, and at least two components and two component groups (the
  \<open>toBeGreaterThan(1)\<close> of lines 1152 and 1205).\<close>

definition demo_ready :: "service \<Rightarrow> bool" where
  "demo_ready s \<longleftrightarrow> service_inv s \<and> typed_service s
     \<and> 2 \<le> length (items s KComponents) \<and> 2 \<le> length (items s KGroups)"

section \<open>Running the blocks against the reference service\<close>

lemmas run_simps = run_invoke_cachet_split cachet_server_spec_request ok_def no_content_def axios_settle_def
  response_obj_def unwrap_data_def result_of_def Let_def list_body_def new_record_def
  strip_id_def merge_fields_def handle_coll_def handle_item_def map_upd_fresh filter_fresh map_add_def

lemma fun_upd_restore:
  "f a = x \<Longrightarrow> f(a := x) = f"
  "f a = x \<Longrightarrow> f b = y \<Longrightarrow> f(a := x, b := y) = f"
  by auto

lemma service_inv_above: "service_inv s \<Longrightarrow> next_id s \<le> m \<Longrightarrow> map_of (items s k) m = None"
  by (force simp: map_of_eq_None_iff dest: service_inv_lt)

lemma head_required:
  assumes "typed_service s" and "items s k = (i, r) # rest"
    and "Prop n t False \<in> set (coll_type k)" and "n \<noteq> ''id''"
  shows "\<exists>ps v j. r = JObj ps \<and> map_of ps ''id'' = Some (JNum j) \<and> map_of ps n = Some v \<and> has_type t v"
proof -
  obtain ps j where "r = JObj ps" "map_of ps ''id'' = Some (JNum j)"
    and fs: "conforms_fields (filter (\<lambda>p. prop_name p \<noteq> ''id'') (coll_type k)) ps"
    using conforms_record_obj [OF typed_service_head [OF assms(1,2)]] by auto
  moreover obtain v where "map_of ps n = Some v" "has_type t v"
    using conforms_fields_required [OF fs, of n t] assms(3,4) by auto
  ultimately show ?thesis by blast
qed

lemma incidents_block:
  assumes inv: "service_inv (net w)" and typed: "typed_service (net w)"
  shows "run_describe cachet c incidents_tests w =
           ([(''Add an Incident'', Pass), (''Get Incidents'', Pass), (''Get an Incident'', Pass),
             (''Update an Incident'', Pass), (''Delete an Incident'', Pass)],
            w\<lparr>net := (net w)\<lparr>next_id := next_id (net w) + 2\<rparr>\<rparr>)"
proof -
  have fc: "map_of (items (net w) KComponents) (next_id (net w)) = None"
    using service_inv_above [OF inv] by simp
  show ?thesis
  proof (cases "items (net w) KIncidents")
    case Nil
    have restore: "(items (net w))(KComponents := items (net w) KComponents, KIncidents := []) = items (net w)"
      using Nil by auto
    show ?thesis using Nil fc restore
      by (simp add: run_describe_def incidents_tests_def run_simps del: invoke.simps)
  next
    case (Cons ir rest)
    then obtain i r where xs: "items (net w) KIncidents = (i, r) # rest" by (cases ir) auto
    obtain ps x j where r: "r = JObj ps" "map_of ps ''id'' = Some (JNum j)" "map_of ps ''name'' = Some (JStr x)"
      using head_required [OF typed xs, of "''name''" TString]
      by (auto simp: incident_type_def has_type_iff simp del: has_type.simps)
    have fresh: "i \<noteq> next_id (net w) + 1" "map_of rest (next_id (net w) + 1) = None"
      using service_inv_above [OF inv, of "next_id (net w) + 1" KIncidents] xs by (auto split: if_splits)
    have restore: "(items (net w))(KComponents := items (net w) KComponents, KIncidents := (i, JObj ps) # rest) = items (net w)"
      using xs r by auto
    show ?thesis using xs r fresh fc restore
      by (simp add: run_describe_def incidents_tests_def run_simps del: invoke.simps)
  qed
qed

lemma head_id:
  assumes "typed_service s" and "items s k = (i, r) # rest"
  shows "\<exists>ps j. r = JObj ps \<and> map_of ps ''id'' = Some (JNum j)"
  using conforms_record_obj [OF typed_service_head [OF assms]] by auto

lemma groups_block:
  assumes inv: "service_inv (net w)" and typed: "typed_service (net w)"
    and len: "2 \<le> length (items (net w) KGroups)"
  shows "run_describe cachet c component_groups_tests w =
           ([(''Get Component Groups'', Pass), (''Add a Component Group'', Pass), (''Get a Component Group'', Pass),
             (''Update a Component Group'', Pass), (''Delete a Component Group'', Pass)],
            w\<lparr>net := (net w)\<lparr>next_id := next_id (net w) + 1\<rparr>\<rparr>)"
proof -
  obtain i r rest where xs: "items (net w) KGroups = (i, r) # rest"
    using len by (cases "items (net w) KGroups") auto
  with len have rest: "rest \<noteq> []" by auto
  obtain ps x j where r: "r = JObj ps" "map_of ps ''id'' = Some (JNum j)" "map_of ps ''name'' = Some (JStr x)"
    using head_required [OF typed xs, of "''name''" TString]
    by (auto simp: component_group_type_def has_type_iff simp del: has_type.simps)
  have fresh: "i \<noteq> next_id (net w)" "map_of rest (next_id (net w)) = None"
    using service_inv_fresh [OF inv, of KGroups] xs by (auto split: if_splits)
  show ?thesis using xs rest r fresh
    by (simp add: run_describe_def component_groups_tests_def run_simps fun_upd_restore del: invoke.simps)
qed

lemma subscribers_block:
  assumes inv: "service_inv (net w)" and typed: "typed_service (net w)"
  shows "run_describe cachet c subscribers_tests w =
           ([(''Add a Subscriber'', Pass), (''Get Subscribers'', Pass), (''Delete a Subscriber'', Pass)],
            w\<lparr>net := (net w)\<lparr>next_id := next_id (net w) + 1\<rparr>\<rparr>)"
proof (cases "items (net w) KSubscribers")
  case Nil
  show ?thesis using Nil
    by (simp add: run_describe_def subscribers_tests_def run_simps fun_upd_restore del: invoke.simps)
next
  case (Cons ir rest)
  then obtain i r where xs: "items (net w) KSubscribers = (i, r) # rest" by (cases ir) auto
  obtain ps x j where r: "r = JObj ps" "map_of ps ''id'' = Some (JNum j)" "map_of ps ''email'' = Some (JStr x)"
    using head_required [OF typed xs, of "''email''" TString]
    by (auto simp: subscriber_type_def has_type_iff simp del: has_type.simps)
  have fresh: "i \<noteq> next_id (net w)" "map_of rest (next_id (net w)) = None"
    using service_inv_fresh [OF inv, of KSubscribers] xs by (auto split: if_splits)
  show ?thesis using xs r fresh
    by (simp add: run_describe_def subscribers_tests_def run_simps fun_upd_restore del: invoke.simps)
qed

lemma metrics_block:
  assumes inv: "service_inv (net w)" and typed: "typed_service (net w)" and pv: "point_value \<noteq> JUndef"
  shows "run_describe cachet c (metrics_tests point_value now) w =
           ([(''Add a Metric'', Pass), (''Get a Metric'', Pass), (''Get Metrics'', Pass),
             (''Add a Metric Point'', Pass), (''Get Metric Points'', Pass), (''Delete a Metric Point'', Pass),
             (''Delete a Metric'', Pass)],
            w\<lparr>net := (net w)\<lparr>next_id := next_id (net w) + 2\<rparr>\<rparr>)"
proof -
  let ?n = "next_id (net w)"
  have fm: "map_of (items (net w) KMetrics) ?n = None"
    and fp: "map_of (items (net w) (KPoints ?n)) (?n + 1) = None"
    using service_inv_above [OF inv] by simp_all
  consider "items (net w) KMetrics = []"
    | i ps j rest where "items (net w) KMetrics = (i, JObj ps) # rest" "map_of ps ''id'' = Some (JNum j)"
      "i \<noteq> ?n" "map_of rest ?n = None"
    using fm head_id [OF typed] by (cases "items (net w) KMetrics") (auto split: if_splits, blast)
  note m = this
  consider "items (net w) (KPoints ?n) = []"
    | i' ps' j' rest' where "items (net w) (KPoints ?n) = (i', JObj ps') # rest'" "map_of ps' ''id'' = Some (JNum j')"
      "i' \<noteq> ?n + 1" "map_of rest' (?n + 1) = None"
    using fp head_id [OF typed] by (cases "items (net w) (KPoints ?n)") (auto split: if_splits, blast)
  note p = this
  show ?thesis
  proof (cases rule: m; cases rule: p)
  qed (use pv in \<open>simp_all add: run_describe_def metrics_tests_def run_simps fun_upd_restore del: invoke.simps\<close>)
qed

lemma general_block: "run_describe cachet c general_tests w = ([(''Ping'', Pass), (''Version'', Pass)], w)"
  by (simp add: run_describe_def general_tests_def run_simps fun_upd_restore del: invoke.simps)

lemma components_block:
  assumes inv: "service_inv (net w)" and typed: "typed_service (net w)"
    and len: "2 \<le> length (items (net w) KComponents)"
  shows "run_describe cachet c components_tests w =
           ([(''Get Components'', Pass), (''Add a Component'', Pass), (''Get a Component'', Pass),
             (''Update a Component'', Pass), (''Delete a Component'', Pass)],
            w\<lparr>net := (net w)\<lparr>next_id := next_id (net w) + 1\<rparr>\<rparr>)"
proof -
  obtain i r rest where xs: "items (net w) KComponents = (i, r) # rest"
    using len by (cases "items (net w) KComponents") auto
  with len have rest: "rest \<noteq> []" by auto
  obtain ps j nm where r: "r = JObj ps" "map_of ps ''id'' = Some (JNum j)" "map_of ps ''name'' = Some (JStr nm)"
    using head_required [OF typed xs, of "''name''" TString]
    by (auto simp: component_type_def has_type_iff simp del: has_type.simps)
  obtain st where st: "map_of ps ''status'' = Some (JNum st)"
    using head_required [OF typed xs, of "''status''" TInteger] r
    by (auto simp: component_type_def has_type_iff simp del: has_type.simps)
  have fresh: "i \<noteq> next_id (net w)" "map_of rest (next_id (net w)) = None"
    using service_inv_fresh [OF inv, of KComponents] xs by (auto split: if_splits)
  show ?thesis using xs rest r st fresh
    by (simp add: run_describe_def components_tests_def run_simps fun_upd_restore del: invoke.simps)
qed

lemma service_inv_next_id: "service_inv s \<Longrightarrow> next_id s \<le> m \<Longrightarrow> service_inv (s\<lparr>next_id := m\<rparr>)"
  by (force simp: service_inv_def)

lemma typed_service_next_id [simp]: "typed_service (s\<lparr>next_id := m\<rparr>) = typed_service s"
  by (simp add: typed_service_def)

lemma components_block_few:
  assumes inv: "service_inv (net w)" and few: "length (items (net w) KComponents) < 2"
  shows "run_describe cachet c components_tests w =
           ([(''Get Components'', Fail (expect_fail (ToBeGreaterThan 1))), (''Add a Component'', Pass),
             (''Get a Component'', Pass), (''Update a Component'', Pass), (''Delete a Component'', Pass)],
            w\<lparr>net := (net w)\<lparr>next_id := next_id (net w) + 1\<rparr>\<rparr>)"
proof -
  have fresh: "map_of (items (net w) KComponents) (next_id (net w)) = None"
    using service_inv_fresh [OF inv] .
  consider "items (net w) KComponents = []" | i r where "items (net w) KComponents = [(i, r)]" "i \<noteq> next_id (net w)"
    using few fresh by (cases "items (net w) KComponents") (auto split: if_splits)
  then show ?thesis
  proof cases
    case 1
    then show ?thesis
      by (simp add: run_describe_def components_tests_def run_simps fun_upd_restore del: invoke.simps)
  next
    case 2
    then show ?thesis
      by (simp add: run_describe_def components_tests_def run_simps fun_upd_restore del: invoke.simps)
  qed
qed

lemma groups_block_few:
  assumes inv: "service_inv (net w)" and few: "length (items (net w) KGroups) < 2"
  shows "run_describe cachet c component_groups_tests w =
           ([(''Get Component Groups'', Fail (expect_fail (ToBeGreaterThan 1))), (''Add a Component Group'', Pass),
             (''Get a Component Group'', Pass), (''Update a Component Group'', Pass), (''Delete a Component Group'', Pass)],
            w\<lparr>net := (net w)\<lparr>next_id := next_id (net w) + 1\<rparr>\<rparr>)"
proof -
  have fresh: "map_of (items (net w) KGroups) (next_id (net w)) = None"
    using service_inv_fresh [OF inv] .
  consider "items (net w) KGroups = []" | i r where "items (net w) KGroups = [(i, r)]" "i \<noteq> next_id (net w)"
    using few fresh by (cases "items (net w) KGroups") (auto split: if_splits)
  then show ?thesis
  proof cases
    case 1
    then show ?thesis
      by (simp add: run_describe_def component_groups_tests_def run_simps fun_upd_restore del: invoke.simps)
  next
    case 2
    then show ?thesis
      by (simp add: run_describe_def component_groups_tests_def run_simps fun_upd_restore del: invoke.simps)
  qed
qed

section \<open>Properties of the suite\<close>

text \<open>
  C25: against the reference service in any state of the demo kind (the service invariant,
  well-typed records, at least two components and two component groups), every test of
  every block of the suite passes, and the suite leaves the service's collections as it
  found them: only the seven ids it assigned are consumed. The point value must be
  defined (the test expects \<open>point.value\<close> to be).
\<close>

theorem suite_passes:
  assumes ready: "demo_ready (net w)" and pv: "point_value \<noteq> JUndef"
  shows "run_suite cachet c (test_suite point_value now) w =
           (map (\<lambda>d. (block_name d, map (\<lambda>(n, steps). (n, Pass)) (tests d))) (test_suite point_value now),
            w\<lparr>net := (net w)\<lparr>next_id := next_id (net w) + 7\<rparr>\<rparr>)"
proof -
  have inv: "service_inv (net w)" and typed: "typed_service (net w)"
    and lc: "2 \<le> length (items (net w) KComponents)" and lg: "2 \<le> length (items (net w) KGroups)"
    using ready by (simp_all add: demo_ready_def)
  have "run_suite cachet c (test_suite point_value now) w =
          ([(block_name general_tests, [(''Ping'', Pass), (''Version'', Pass)]),
            (block_name components_tests, [(''Get Components'', Pass), (''Add a Component'', Pass),
               (''Get a Component'', Pass), (''Update a Component'', Pass), (''Delete a Component'', Pass)]),
            (block_name component_groups_tests, [(''Get Component Groups'', Pass), (''Add a Component Group'', Pass),
               (''Get a Component Group'', Pass), (''Update a Component Group'', Pass), (''Delete a Component Group'', Pass)]),
            (block_name incidents_tests, [(''Add an Incident'', Pass), (''Get Incidents'', Pass), (''Get an Incident'', Pass),
               (''Update an Incident'', Pass), (''Delete an Incident'', Pass)]),
            (block_name (metrics_tests point_value now), [(''Add a Metric'', Pass), (''Get a Metric'', Pass),
               (''Get Metrics'', Pass), (''Add a Metric Point'', Pass), (''Get Metric Points'', Pass),
               (''Delete a Metric Point'', Pass), (''Delete a Metric'', Pass)]),
            (block_name subscribers_tests, [(''Add a Subscriber'', Pass), (''Get Subscribers'', Pass),
               (''Delete a Subscriber'', Pass)])],
           w\<lparr>net := (net w)\<lparr>next_id := next_id (net w) + 7\<rparr>\<rparr>)"
    using inv typed lc lg pv
    by (simp add: test_suite_def general_block components_block groups_block incidents_block metrics_block
        subscribers_block service_inv_next_id)
  then show ?thesis
    by (simp add: test_suite_def general_tests_def components_tests_def component_groups_tests_def
        incidents_tests_def metrics_tests_def subscribers_tests_def)
qed

theorem suite_passes_witness:
  "demo_ready \<lparr>items = (\<lambda>k. [])(KComponents := [(1, JObj [(''id'', JNum 1), (''name'', JStr ''API''),
                    (''description'', JStr ''Public API''), (''status'', JNum 1)]),
                  (2, JObj [(''id'', JNum 2), (''name'', JStr ''Docs''), (''description'', JStr ''Documentation''),
                    (''status'', JNum 1)])],
                KGroups := [(3, JObj [(''id'', JNum 3), (''name'', JStr ''Web'')]),
                  (4, JObj [(''id'', JNum 4), (''name'', JStr ''Backend'')])]),
              next_id = 5, version = ''2.4.0''\<rparr>
   \<and> JNum 1 \<noteq> JUndef
   \<and> run_suite cachet test_api (test_suite (JNum 1) (JNum 1700000000))
       \<lparr>net = \<lparr>items = (\<lambda>k. [])(KComponents := [(1, JObj [(''id'', JNum 1), (''name'', JStr ''API''),
                    (''description'', JStr ''Public API''), (''status'', JNum 1)]),
                  (2, JObj [(''id'', JNum 2), (''name'', JStr ''Docs''), (''description'', JStr ''Documentation''),
                    (''status'', JNum 1)])],
                KGroups := [(3, JObj [(''id'', JNum 3), (''name'', JStr ''Web'')]),
                  (4, JObj [(''id'', JNum 4), (''name'', JStr ''Backend'')])]),
              next_id = 5, version = ''2.4.0''\<rparr>, console = []\<rparr>
     = (map (\<lambda>d. (block_name d, map (\<lambda>(n, steps). (n, Pass)) (tests d))) (test_suite (JNum 1) (JNum 1700000000)),
        \<lparr>net = \<lparr>items = (\<lambda>k. [])(KComponents := [(1, JObj [(''id'', JNum 1), (''name'', JStr ''API''),
                    (''description'', JStr ''Public API''), (''status'', JNum 1)]),
                  (2, JObj [(''id'', JNum 2), (''name'', JStr ''Docs''), (''description'', JStr ''Documentation''),
                    (''status'', JNum 1)])],
                KGroups := [(3, JObj [(''id'', JNum 3), (''name'', JStr ''Web'')]),
                  (4, JObj [(''id'', JNum 4), (''name'', JStr ''Backend'')])]),
              next_id = 12, version = ''2.4.0''\<rparr>, console = []\<rparr>)"
proof -
  have r: "demo_ready \<lparr>items = (\<lambda>k. [])(KComponents := [(1, JObj [(''id'', JNum 1), (''name'', JStr ''API''),
                    (''description'', JStr ''Public API''), (''status'', JNum 1)]),
                  (2, JObj [(''id'', JNum 2), (''name'', JStr ''Docs''), (''description'', JStr ''Documentation''),
                    (''status'', JNum 1)])],
                KGroups := [(3, JObj [(''id'', JNum 3), (''name'', JStr ''Web'')]),
                  (4, JObj [(''id'', JNum 4), (''name'', JStr ''Backend'')])]),
              next_id = 5, version = ''2.4.0''\<rparr>"
    by (auto simp: demo_ready_def service_inv_def typed_service_def conforms_record_def conforms_fields_def
        component_type_def component_group_type_def)
  show ?thesis
    using r suite_passes [of "\<lparr>net = \<lparr>items = (\<lambda>k. [])(KComponents := [(1, JObj [(''id'', JNum 1), (''name'', JStr ''API''),
                    (''description'', JStr ''Public API''), (''status'', JNum 1)]),
                  (2, JObj [(''id'', JNum 2), (''name'', JStr ''Docs''), (''description'', JStr ''Documentation''),
                    (''status'', JNum 1)])],
                KGroups := [(3, JObj [(''id'', JNum 3), (''name'', JStr ''Web'')]),
                  (4, JObj [(''id'', JNum 4), (''name'', JStr ''Backend'')])]),
              next_id = 5, version = ''2.4.0''\<rparr>, console = []\<rparr>" "JNum 1" test_api "JNum 1700000000"]
    by (simp del: run_suite.simps)
qed

text \<open>
  C26: against a fresh service, without data, exactly two tests of the suite fail: the
  list tests "Get Components" and "Get Component Groups", whose \<open>toBeGreaterThan(1)\<close>
  expects data the suite does not create. The suite depends on the demo instance's data.
\<close>

theorem suite_on_fresh_service:
  assumes pv: "point_value \<noteq> JUndef"
  shows "map (\<lambda>(b, rs). (b, filter (\<lambda>(n, r). r \<noteq> Pass) rs))
           (fst (run_suite cachet c (test_suite point_value now) \<lparr>net = empty_service, console = cs\<rparr>)) =
         [(''General'', []),
          (''Components'', [(''Get Components'', Fail (expect_fail (ToBeGreaterThan 1)))]),
          (''Component Groups'', [(''Get Component Groups'', Fail (expect_fail (ToBeGreaterThan 1)))]),
          (''Incidents'', []), (''Metrics'', []), (''Subscribers'', [])]"
proof -
  have "run_suite cachet c (test_suite point_value now) \<lparr>net = empty_service, console = cs\<rparr> =
          ([(block_name general_tests, [(''Ping'', Pass), (''Version'', Pass)]),
            (block_name components_tests, [(''Get Components'', Fail (expect_fail (ToBeGreaterThan 1))),
               (''Add a Component'', Pass), (''Get a Component'', Pass), (''Update a Component'', Pass),
               (''Delete a Component'', Pass)]),
            (block_name component_groups_tests, [(''Get Component Groups'', Fail (expect_fail (ToBeGreaterThan 1))),
               (''Add a Component Group'', Pass), (''Get a Component Group'', Pass),
               (''Update a Component Group'', Pass), (''Delete a Component Group'', Pass)]),
            (block_name incidents_tests, [(''Add an Incident'', Pass), (''Get Incidents'', Pass), (''Get an Incident'', Pass),
               (''Update an Incident'', Pass), (''Delete an Incident'', Pass)]),
            (block_name (metrics_tests point_value now), [(''Add a Metric'', Pass), (''Get a Metric'', Pass),
               (''Get Metrics'', Pass), (''Add a Metric Point'', Pass), (''Get Metric Points'', Pass),
               (''Delete a Metric Point'', Pass), (''Delete a Metric'', Pass)]),
            (block_name subscribers_tests, [(''Add a Subscriber'', Pass), (''Get Subscribers'', Pass),
               (''Delete a Subscriber'', Pass)])],
           \<lparr>net = empty_service\<lparr>next_id := next_id empty_service + 7\<rparr>, console = cs\<rparr>)"
    using pv
    by (simp add: test_suite_def general_block components_block_few groups_block_few incidents_block metrics_block
        subscribers_block empty_service_def service_inv_def typed_service_def)
  then show ?thesis
    by (simp add: general_tests_def components_tests_def component_groups_tests_def
        incidents_tests_def metrics_tests_def subscribers_tests_def)
qed

theorem suite_on_fresh_service_witness:
  "JNum 1 \<noteq> JUndef
   \<and> map (\<lambda>(b, rs). (b, filter (\<lambda>(n, r). r \<noteq> Pass) rs))
       (fst (run_suite cachet test_api (test_suite (JNum 1) (JNum 1700000000)) \<lparr>net = empty_service, console = []\<rparr>)) =
     [(''General'', []),
      (''Components'', [(''Get Components'', Fail (expect_fail (ToBeGreaterThan 1)))]),
      (''Component Groups'', [(''Get Component Groups'', Fail (expect_fail (ToBeGreaterThan 1)))]),
      (''Incidents'', []), (''Metrics'', []), (''Subscribers'', [])]"
  using suite_on_fresh_service [of "JNum 1" test_api "JNum 1700000000" "[]"] by (simp del: run_suite.simps)

text \<open>
  C27: the tests of a block depend on their order: run alone (as \<open>jest -t\<close> does),
  "Get a Component" reads \<open>added_component_id\<close> before any test assigned it, requests
  \<open>/v1/components/undefined\<close> and fails with the normalised 404 error, which is logged.
\<close>

theorem get_component_alone:
  "run_describe cachet c (components_tests\<lparr>tests := [tests components_tests ! 2]\<rparr>) w =
     ([(''Get a Component'', Fail (unable_to ''GET'' ''/v1/components/undefined'' not_found_text))],
      w\<lparr>console := console w @ [not_found_error]\<rparr>)"
proof -
  have "cachet_server (spec_request c (spec_of (OpGetComponent JUndef))) (net w) = (not_found, net w)"
    by (simp add: cachet_server_spec_request parse_path_def split_all_Cons item_def dec_to_int_def
        dec_to_nat_def digit_val_def)
  then show ?thesis
    using run_invoke_not_found [of c "OpGetComponent JUndef" w "net w"]
    by (simp add: run_describe_def components_tests_def result_of_def del: invoke.simps)
qed

text \<open>
  The bodies the suite sends conform to the JSDoc typedefs of their entities except
  three: the incident's \<open>component_id\<close> and \<open>component_status\<close> are numbers where the
  \<open>Incident\<close> typedef says \<open>String\<close>, the metric's \<open>suffix\<close> is a string where the
  \<open>Metric\<close> typedef says \<open>Integer\<close>, and the partial update of a component lacks the
  \<open>description\<close> the \<open>Component\<close> typedef of \<open>updateComponent\<close>'s parameter requires.
\<close>

theorem suite_bodies_vs_typedefs:
  "type_errors component_type [(''name'', JStr ''added component''), (''description'', JStr ''test description''),
     (''status'', JNum 1)] = []
   \<and> type_errors component_group_type [(''name'', JStr ''added group''), (''collapsed'', JNum 0)] = []
   \<and> type_errors subscriber_type [(''email'', JStr ''email@example.com'')] = []
   \<and> type_errors metric_point_type [(''value'', JNum v), (''timestamp'', JNum t)] = []
   \<and> type_errors incident_type [(''name'', JStr ''added incident''), (''message'', JStr incident_message),
       (''status'', JNum 1), (''visible'', JNum 1), (''component_id'', JNum cid), (''component_status'', JNum 2)]
     = [Prop ''component_id'' TString True, Prop ''component_status'' TString True]
   \<and> type_errors metric_type [(''name'', JStr ''add metric''), (''suffix'', JStr ''something''),
       (''description'', JStr ''testing something''), (''default_value'', JNum 1)]
     = [Prop ''suffix'' TInteger False]
   \<and> type_errors component_type [(''name'', JStr ''updated component''), (''status'', JNum 4)]
     = [Prop ''description'' TString False]"
  by (simp add: type_errors_def component_type_def component_group_type_def subscriber_type_def
      metric_point_type_def incident_type_def metric_type_def)

end
