(* ===== verification/Suite_Updates.thy ===== *)
theory Suite_Updates
  imports Suite
begin

text \<open>
  The block \<open>Incident Updates\<close> of the test file (lines 1328-1393), which the source
  keeps commented out with the remark (lines 1325-1327) that incident updates are broken
  on the Cachet demo API and work on a regular Cachet API. The block is modelled
  statement by statement like the enabled ones of \<open>Suite\<close>, and run against the
  reference service, which stands for a regular Cachet API.
\<close>

section \<open>The disabled block\<close>

definition incident_updates_tests :: describe_block where
  "incident_updates_tests = \<lparr>block_name = ''Incident Updates'',
     before_all =
       [Await ''incident'' (\<lambda>e. OpAddIncident (JObj [(''name'', JStr ''Incident for Incident update tests''),
            (''message'', JStr incident_message), (''status'', JNum 1), (''visible'', JNum 1)])),
        Assign ''incident_id'' (Var ''incident'' [''id''])],
     tests = [
       (''Add an Incident Update'',
        [Await ''update'' (\<lambda>e. OpAddIncidentUpdate (e ''incident_id'')
            (JObj [(''message'', JStr ''add update''), (''status'', JNum 2)])),
         Expect (Var ''update'' []) ToBeDefined,
         Expect (Var ''update'' [''id'']) ToBeDefined,
         Expect (Var ''update'' [''message'']) (ToBe (JStr ''add update'')),
         Assign ''added_incident_update_id'' (Var ''update'' [''id''])]),
       (''Get an Incident Update'',
        [Await ''update'' (\<lambda>e. OpGetIncidentUpdate (e ''incident_id'') (e ''added_incident_update_id'')),
         Expect (Var ''update'' []) ToBeDefined,
         Expect (Var ''update'' [''id'']) ToBeDefined,
         Expect (Var ''update'' [''message'']) (ToBe (JStr ''add update'')),
         Expect (Var ''update'' [''status'']) (ToBe (JNum 2))]),
       (''Get Incident Updates'',
        [Await ''updates'' (\<lambda>e. OpGetIncidentUpdates (e ''incident_id'') JUndef),
         Expect (Var ''updates'' [''length'']) (ToBeGreaterThan 0),
         Expect (Var ''updates'' [''0'', ''id'']) ToBeDefined,
         Expect (Var ''updates'' [''0'', ''message'']) ToBeDefined]),
       (''Update an Incident Update'',
        [Await ''update'' (\<lambda>e. OpUpdateIncidentUpdate (e ''incident_id'') (e ''added_incident_update_id'')
            (JObj [(''message'', JStr ''updated update''), (''status'', JNum 3)])),
         Expect (Var ''update'' []) ToBeDefined,
         Expect (Var ''update'' [''id'']) ToBeDefined,
         Expect (Var ''update'' [''message'']) (ToBe (JStr ''updated update'')),
         Expect (Var ''update'' [''status'']) (ToBe (JNum 3))]),
       (''Delete an Incident Update'',
        [Await ''deleted'' (\<lambda>e. OpDeleteIncidentUpdate (e ''incident_id'') (e ''added_incident_update_id'')),
         Expect (Var ''deleted'' []) (ToBe (JBool True))])],
     after_all = [Await [] (\<lambda>e. OpDeleteIncident (e ''incident_id''))]\<rparr>"

section \<open>Running it against the reference service\<close>

text \<open>
  C22: run against the reference service in any state that keeps the service invariant
  and whose records are typed, every test of the disabled \<open>Incident Updates\<close> block
  passes, and its hooks restore the collections: only the id counter moves on (by the
  incident and the update it created). The remark of lines 1325-1327 holds of a regular
  Cachet API as the reference service models it.
\<close>

theorem disabled_updates_block_passes:
  assumes inv: "service_inv (net w)" and typed: "typed_service (net w)"
  shows "run_describe cachet c incident_updates_tests w =
           ([(''Add an Incident Update'', Pass), (''Get an Incident Update'', Pass), (''Get Incident Updates'', Pass),
             (''Update an Incident Update'', Pass), (''Delete an Incident Update'', Pass)],
            w\<lparr>net := (net w)\<lparr>next_id := next_id (net w) + 2\<rparr>\<rparr>)"
proof -
  let ?n = "next_id (net w)"
  have fi: "map_of (items (net w) KIncidents) ?n = None"
    and fu: "map_of (items (net w) (KUpdates ?n)) (?n + 1) = None"
    using service_inv_above [OF inv] by simp_all
  show ?thesis
  proof (cases "items (net w) (KUpdates ?n)")
    case Nil
    have restore: "(items (net w))(KIncidents := items (net w) KIncidents, KUpdates ?n := []) = items (net w)"
      using Nil by auto
    show ?thesis using Nil fi restore
      by (simp add: run_describe_def incident_updates_tests_def run_simps del: invoke.simps)
  next
    case (Cons ir rest)
    then obtain i r where xs: "items (net w) (KUpdates ?n) = (i, r) # rest" by (cases ir) auto
    obtain ps x j where r: "r = JObj ps" "map_of ps ''id'' = Some (JNum j)" "map_of ps ''message'' = Some (JStr x)"
      using head_required [OF typed xs, of "''message''" TString]
      by (auto simp: incident_update_type_def has_type_iff simp del: has_type.simps)
    have fresh: "i \<noteq> ?n + 1" "map_of rest (?n + 1) = None"
      using fu xs by (auto split: if_splits)
    have restore: "(items (net w))(KIncidents := items (net w) KIncidents, KUpdates ?n := (i, JObj ps) # rest) = items (net w)"
      using xs r by auto
    show ?thesis using xs r fresh fi restore
      by (simp add: run_describe_def incident_updates_tests_def run_simps del: invoke.simps)
  qed
qed

theorem disabled_updates_block_passes_witness:
  "service_inv (net \<lparr>net = empty_service, console = []\<rparr>)
   \<and> typed_service (net \<lparr>net = empty_service, console = []\<rparr>)
   \<and> run_describe cachet test_api incident_updates_tests \<lparr>net = empty_service, console = []\<rparr> =
       ([(''Add an Incident Update'', Pass), (''Get an Incident Update'', Pass), (''Get Incident Updates'', Pass),
         (''Update an Incident Update'', Pass), (''Delete an Incident Update'', Pass)],
        \<lparr>net = \<lparr>items = (\<lambda>k. []), next_id = 3, version = ''2.4.0-dev''\<rparr>, console = []\<rparr>)"
  using disabled_updates_block_passes [of "\<lparr>net = empty_service, console = []\<rparr>" test_api] service_inv_empty
  by (simp add: typed_service_def empty_service_def)

end
