(* ===== verification/Concurrency.thy ===== *)
theory Concurrency
  imports Requests "HOL-Library.Multiset"
begin

text \<open>
  Concurrent calls on one client instance (spec.md sections 5 and 8). Every method of
  the source runs synchronously up to its single \<open>await this.api.<verb>(url)\<close>, and
  resumes when that request settles: the resumption unwraps the response or normalises
  and logs the rejection. Between the two halves other calls may run. A configuration is
  the list of the calls in flight, each ready (not yet processed by the service), sent
  (processed, its settlement waiting) or finished, together with the world; a step either
  lets the service process one ready call's request or resumes one sent call. The
  service may process requests and the client may resume calls in any order.
\<close>

section \<open>The two halves of a call\<close>

text \<open>The part of a method after its \<open>await\<close> (lines 49-54 in \<open>ping\<close>, alike in every
  method): the method itself resumed with the settlement \<open>r\<close> of its request, that is,
  run on a transport that settles the request with \<open>r\<close> and leaves the service alone,
  over an empty log: its result and the errors \<open>createError\<close> logs.\<close>

definition resume :: "cachet_api \<Rightarrow> api_op \<Rightarrow> thrown + jsval \<Rightarrow> (thrown + jsval) \<times> thrown list" where
  "resume c m r =
     (let rw = run_state (invoke (\<lambda>rq n. (r, n)) c m) \<lparr>net = (), console = []\<rparr>
      in (fst rw, console (snd rw)))"

datatype pending = Ready api_op | Sent api_op "thrown + jsval" | Finished "thrown + jsval"

fun is_ready :: "pending \<Rightarrow> bool" where
  "is_ready (Ready m) = True"
| "is_ready p = False"

fun is_finished :: "pending \<Rightarrow> bool" where
  "is_finished (Finished r) = True"
| "is_finished p = False"

inductive conc_step :: "'w transport \<Rightarrow> cachet_api \<Rightarrow> pending list \<times> 'w world \<Rightarrow> pending list \<times> 'w world \<Rightarrow> bool"
  for tr c where
  send: "i < length ps \<Longrightarrow> ps ! i = Ready m \<Longrightarrow>
         conc_step tr c (ps, w)
           (ps[i := Sent m (fst (tr (spec_request c (spec_of m)) (net w)))],
            w\<lparr>net := snd (tr (spec_request c (spec_of m)) (net w))\<rparr>)"
| resume: "i < length ps \<Longrightarrow> ps ! i = Sent m r \<Longrightarrow>
         conc_step tr c (ps, w)
           (ps[i := Finished (fst (resume c m r))], w\<lparr>console := console w @ snd (resume c m r)\<rparr>)"

section \<open>Sequential runs\<close>

text \<open>Awaiting calls one after the other: their results and the world after them.\<close>

fun run_seq :: "'w transport \<Rightarrow> cachet_api \<Rightarrow> api_op list \<Rightarrow> 'w world \<Rightarrow> (thrown + jsval) list \<times> 'w world" where
  "run_seq tr c [] w = ([], w)"
| "run_seq tr c (m # ms) w =
     (let rw = run_state (invoke tr c m) w; rest = run_seq tr c ms (snd rw)
      in (fst rw # fst rest, snd rest))"

text \<open>The settlements of a sequence of requests processed in order by the service.\<close>

fun settle_seq :: "'w transport \<Rightarrow> cachet_api \<Rightarrow> api_op list \<Rightarrow> 'w \<Rightarrow> (thrown + jsval) list \<times> 'w" where
  "settle_seq tr c [] n = ([], n)"
| "settle_seq tr c (m # ms) n =
     (let rn = tr (spec_request c (spec_of m)) n; rest = settle_seq tr c ms (snd rn)
      in (fst rn # fst rest, snd rest))"

section \<open>Lemmas\<close>

text \<open>The continuation unwraps the response, or normalises the rejection and logs it.\<close>

lemma resume_contract:
  "resume c m r =
     (case r of
        Inr resp \<Rightarrow> (spec_result (spec_of m) resp, [])
      | Inl e \<Rightarrow>
          (case error_text e of
             Inl ex \<Rightarrow> (Inl ex, [])
           | Inr extra \<Rightarrow> (Inl (unable_to (method_name (spec_method (spec_of m))) (spec_path (spec_of m)) extra), [e])))"
  by (simp add: resume_def invoke_spec_call run_spec_call split: sum.splits)

lemma run_invoke_resume:
  "run_state (invoke tr c m) w =
     (fst (resume c m (fst (tr (spec_request c (spec_of m)) (net w)))),
      w\<lparr>net := snd (tr (spec_request c (spec_of m)) (net w)),
        console := console w @ snd (resume c m (fst (tr (spec_request c (spec_of m)) (net w))))\<rparr>)"
  by (simp add: invoke_spec_call run_spec_call resume_contract split: sum.splits)

lemma run_seq_settle:
  "run_seq tr c ms w =
     (map (\<lambda>(m, r). fst (resume c m r)) (zip ms (fst (settle_seq tr c ms (net w)))),
      w\<lparr>net := snd (settle_seq tr c ms (net w)),
        console := console w @ concat (map (\<lambda>(m, r). snd (resume c m r)) (zip ms (fst (settle_seq tr c ms (net w)))))\<rparr>)"
  by (induction ms arbitrary: w) (simp_all add: run_invoke_resume Let_def)

lemma length_settle_seq [simp]: "length (fst (settle_seq tr c ms n)) = length ms"
  by (induction ms arbitrary: n) (simp_all add: Let_def)

lemma settle_seq_snoc:
  "settle_seq tr c (ms @ [m]) n =
     (fst (settle_seq tr c ms n) @ [fst (tr (spec_request c (spec_of m)) (snd (settle_seq tr c ms n)))],
      snd (tr (spec_request c (spec_of m)) (snd (settle_seq tr c ms n))))"
  by (induction ms arbitrary: n) (simp_all add: Let_def)

lemma settle_seq_append_prefix:
  "j < length ms \<Longrightarrow> fst (settle_seq tr c (ms @ ms') n) ! j = fst (settle_seq tr c ms n) ! j"
  by (induction ms arbitrary: n j) (auto simp: Let_def nth_Cons split: nat.splits)

lemma filter_update_outside:
  "i \<notin> A \<Longrightarrow> {j \<in> A. P (xs[i := x] ! j)} = {j \<in> A. P (xs ! j)}"
  by (rule Collect_cong) (metis nth_list_update_neq)

lemma filter_update_at:
  "i < length xs \<Longrightarrow> i \<in> A \<Longrightarrow> P x \<Longrightarrow>
   {j \<in> A. P (xs[i := x] ! j)} = insert i {j \<in> A - {i}. P (xs ! j)}"
  by (auto simp: nth_list_update)

lemma ready_update:
  assumes "\<not> is_ready x" and "\<not> is_ready (ps ! i)"
  shows "is_ready (ps[i := x] ! j) = is_ready (ps ! j)"
  using assms by (cases "i < length ps") (auto simp: nth_list_update list_update_beyond)

lemma ready_update_same:
  assumes "\<not> is_ready x" and "is_ready (ps[i := x] ! j)"
  shows "ps[i := x] ! j = ps ! j"
  using assms by (cases "i < length ps") (auto simp: nth_list_update list_update_beyond)

lemma resume_log_length: "length (snd (resume c m r)) \<le> 1"
  by (simp add: resume_contract split: sum.splits)

lemma length_filter_update:
  "i < length xs \<Longrightarrow>
   length (filter P (xs[i := x])) + (if P (xs ! i) then 1 else 0) = length (filter P xs) + (if P x then 1 else 0)"
proof (induction xs arbitrary: i)
  case (Cons y ys)
  then show ?case by (cases i) simp_all
qed simp

lemma finished_count_step:
  assumes "conc_step tr c (ps, w) (ps', w')"
  shows "length (console w') + length (filter is_finished ps) \<le> length (console w) + length (filter is_finished ps')"
  using assms
proof cases
  case (send i m)
  then show ?thesis using length_filter_update [of i ps is_finished] by simp
next
  case (resume i m r)
  then show ?thesis using length_filter_update [of i ps is_finished] resume_log_length [of c m r] by simp
qed

lemma mset_concat_map_distinct:
  "distinct \<sigma> \<Longrightarrow> mset (concat (map f \<sigma>)) = (\<Sum>i \<in> set \<sigma>. mset (f i))"
  by (induction \<sigma>) simp_all

lemma finished_not_ready: "is_finished p \<Longrightarrow> \<not> is_ready p"
  by (cases p) simp_all

lemma resume_Inr [simp]: "resume c m (Inr v) = (spec_result (spec_of m) v, [])"
  by (simp add: resume_contract)

text \<open>Awaiting calls one after the other is the schedule that sends each call and resumes
  it before sending the next.\<close>

lemma run_seq_schedule:
  "(conc_step tr c)\<^sup>*\<^sup>* (map Finished rs @ map Ready ms, w)
     (map Finished (rs @ fst (run_seq tr c ms w)), snd (run_seq tr c ms w))"
proof (induction ms arbitrary: rs w)
  case (Cons m ms)
  define q where "q = tr (spec_request c (spec_of m)) (net w)"
  define r where "r = fst (resume c m (fst q))"
  define w1 where "w1 = w\<lparr>net := snd q\<rparr>"
  define w2 where "w2 = w1\<lparr>console := console w1 @ snd (resume c m (fst q))\<rparr>"
  have "conc_step tr c (map Finished rs @ map Ready (m # ms), w)
          ((map Finished rs @ map Ready (m # ms))[length rs := Sent m (fst q)], w1)"
    unfolding q_def w1_def by (rule conc_step.send) (simp_all add: nth_append)
  then have s1: "conc_step tr c (map Finished rs @ map Ready (m # ms), w) (map Finished rs @ Sent m (fst q) # map Ready ms, w1)"
    by (simp add: list_update_append)
  have "conc_step tr c (map Finished rs @ Sent m (fst q) # map Ready ms, w1)
          ((map Finished rs @ Sent m (fst q) # map Ready ms)[length rs := Finished r], w2)"
    unfolding r_def w2_def by (rule conc_step.resume) (simp_all add: nth_append)
  then have s2: "conc_step tr c (map Finished rs @ Sent m (fst q) # map Ready ms, w1) (map Finished (rs @ [r]) @ map Ready ms, w2)"
    by (simp add: list_update_append)
  have inv: "run_state (invoke tr c m) w = (r, w2)"
    by (simp add: run_invoke_resume q_def r_def w1_def w2_def)
  have "(conc_step tr c)\<^sup>*\<^sup>* (map Finished rs @ map Ready (m # ms), w)
          (map Finished ((rs @ [r]) @ fst (run_seq tr c ms w2)), snd (run_seq tr c ms w2))"
    using converse_rtranclp_into_rtranclp [OF s1 converse_rtranclp_into_rtranclp [OF s2 Cons.IH]] .
  with inv show ?case by (simp add: Let_def)
qed simp

text \<open>Two calls in flight, the service processing the second first and the client
  resuming the first first.\<close>

lemma demo_interleaving:
  "(conc_step (recorder (Inr JNull)) test_api)\<^sup>*\<^sup>* (map Ready [OpPing, OpGetComponent (JNum 1)], \<lparr>net = [], console = []\<rparr>)
     ([Finished (spec_result (spec_of OpPing) JNull), Finished (spec_result (spec_of (OpGetComponent (JNum 1))) JNull)],
      \<lparr>net = [spec_request test_api (spec_of (OpGetComponent (JNum 1))), spec_request test_api (spec_of OpPing)], console = []\<rparr>)"
proof -
  let ?tr = "recorder (Inr JNull)"
  let ?A = OpPing
  let ?B = "OpGetComponent (JNum 1)"
  let ?qA = "spec_request test_api (spec_of ?A)"
  let ?qB = "spec_request test_api (spec_of ?B)"
  have 1: "conc_step ?tr test_api ([Ready ?A, Ready ?B], \<lparr>net = [], console = []\<rparr>) ([Ready ?A, Sent ?B (Inr JNull)], \<lparr>net = [?qB], console = []\<rparr>)"
    using conc_step.send [where tr = ?tr and c = test_api and i = 1 and ps = "[Ready ?A, Ready ?B]" and m = ?B
        and w = "\<lparr>net = [], console = []\<rparr>"] by (simp add: recorder_def)
  have 2: "conc_step ?tr test_api ([Ready ?A, Sent ?B (Inr JNull)], \<lparr>net = [?qB], console = []\<rparr>)
             ([Sent ?A (Inr JNull), Sent ?B (Inr JNull)], \<lparr>net = [?qB, ?qA], console = []\<rparr>)"
    using conc_step.send [where tr = ?tr and c = test_api and i = 0 and ps = "[Ready ?A, Sent ?B (Inr JNull)]" and m = ?A
        and w = "\<lparr>net = [?qB], console = []\<rparr>"] by (simp add: recorder_def)
  have 3: "conc_step ?tr test_api ([Sent ?A (Inr JNull), Sent ?B (Inr JNull)], \<lparr>net = [?qB, ?qA], console = []\<rparr>)
             ([Finished (spec_result (spec_of ?A) JNull), Sent ?B (Inr JNull)], \<lparr>net = [?qB, ?qA], console = []\<rparr>)"
    using conc_step.resume [where tr = ?tr and c = test_api and i = 0 and ps = "[Sent ?A (Inr JNull), Sent ?B (Inr JNull)]"
        and m = ?A and r = "Inr JNull" and w = "\<lparr>net = [?qB, ?qA], console = []\<rparr>"] by simp
  have 4: "conc_step ?tr test_api ([Finished (spec_result (spec_of ?A) JNull), Sent ?B (Inr JNull)], \<lparr>net = [?qB, ?qA], console = []\<rparr>)
             ([Finished (spec_result (spec_of ?A) JNull), Finished (spec_result (spec_of ?B) JNull)], \<lparr>net = [?qB, ?qA], console = []\<rparr>)"
    using conc_step.resume [where tr = ?tr and c = test_api and i = 1 and ps = "[Finished (spec_result (spec_of ?A) JNull), Sent ?B (Inr JNull)]"
        and m = ?B and r = "Inr JNull" and w = "\<lparr>net = [?qB, ?qA], console = []\<rparr>"] by simp
  show ?thesis using 1 2 3 4 by simp
qed

text \<open>The invariant of concurrent runs from a list of ready calls: the calls the service
  has processed, in the order \<open>\<sigma>\<close> it processed them, got the settlements \<open>st\<close> of a
  sequential processing in that order, which also gives the service's state; a finished
  call holds the result of resuming its settlement, and the console holds the initial
  log and the logs of the finished calls.\<close>

lemma conc_invariant:
  assumes "(conc_step tr c)\<^sup>*\<^sup>* (map Ready ms, w0) (ps, w)"
  shows "\<exists>\<sigma> st. distinct \<sigma> \<and> set \<sigma> = {i. i < length ms \<and> \<not> is_ready (ps ! i)} \<and> length ps = length ms
     \<and> (\<forall>i < length ms. is_ready (ps ! i) \<longrightarrow> ps ! i = Ready (ms ! i))
     \<and> settle_seq tr c (map ((!) ms) \<sigma>) (net w0) = (map st \<sigma>, net w)
     \<and> (\<forall>i \<in> set \<sigma>. ps ! i = Sent (ms ! i) (st i) \<or> ps ! i = Finished (fst (resume c (ms ! i) (st i))))
     \<and> mset (console w) = mset (console w0)
         + (\<Sum>i \<in> {i \<in> set \<sigma>. is_finished (ps ! i)}. mset (snd (resume c (ms ! i) (st i))))"
  using assms
proof (induction rule: rtranclp_induct2)
  case refl
  show ?case by (rule exI [of _ "[]"]) auto
next
  case (step ps w ps' w')
  then obtain \<sigma> st where d: "distinct \<sigma>" and sig: "set \<sigma> = {i. i < length ms \<and> \<not> is_ready (ps ! i)}"
    and len: "length ps = length ms" and rdy: "\<forall>i < length ms. is_ready (ps ! i) \<longrightarrow> ps ! i = Ready (ms ! i)"
    and set: "settle_seq tr c (map ((!) ms) \<sigma>) (net w0) = (map st \<sigma>, net w)"
    and pend: "\<forall>i \<in> set \<sigma>. ps ! i = Sent (ms ! i) (st i) \<or> ps ! i = Finished (fst (resume c (ms ! i) (st i)))"
    and con: "mset (console w) = mset (console w0)
         + (\<Sum>i \<in> {i \<in> set \<sigma>. is_finished (ps ! i)}. mset (snd (resume c (ms ! i) (st i))))"
    by blast
  from step.hyps(2) show ?case
  proof cases
    case (send i m)
    have m: "m = ms ! i" using send rdy len by auto
    have new: "i \<notin> set \<sigma>" using send sig by auto
    define r where "r = fst (tr (spec_request c (spec_of m)) (net w))"
    define st' where "st' = st(i := r)"
    have st_eq: "st' j = st j" if "j \<in> set \<sigma>" for j using that new by (auto simp: st'_def)
    have ps': "ps' = ps[i := Sent m r]" using send by (simp add: r_def)
    have c1: "distinct (\<sigma> @ [i])" using d new by simp
    have c2: "set (\<sigma> @ [i]) = {j. j < length ms \<and> \<not> is_ready (ps' ! j)}"
      using sig send len by (auto simp: ps' nth_list_update)
    have c3: "length ps' = length ms" using len by (simp add: ps')
    have i_lt: "i < length ps" using send by simp
    have c4: "\<forall>j < length ms. is_ready (ps' ! j) \<longrightarrow> ps' ! j = Ready (ms ! j)"
    proof (intro allI impI)
      fix j assume j: "j < length ms" and ready: "is_ready (ps' ! j)"
      have "ps' ! i = Sent m r" using i_lt by (simp add: ps')
      with ready have "j \<noteq> i" by auto
      then have eq: "ps' ! j = ps ! j" by (simp add: ps')
      with ready have "is_ready (ps ! j)" by simp
      with rdy j have "ps ! j = Ready (ms ! j)" by blast
      with eq show "ps' ! j = Ready (ms ! j)" by simp
    qed
    have "map st' \<sigma> = map st \<sigma>" using st_eq by simp
    then have c5: "settle_seq tr c (map ((!) ms) (\<sigma> @ [i])) (net w0) = (map st' (\<sigma> @ [i]), net w')"
      using set send m by (simp add: settle_seq_snoc st'_def r_def)
    have c6: "\<forall>j \<in> set (\<sigma> @ [i]). ps' ! j = Sent (ms ! j) (st' j) \<or> ps' ! j = Finished (fst (resume c (ms ! j) (st' j)))"
      using pend new m send(3) sig len by (auto simp: ps' nth_list_update st'_def)
    have "{j \<in> set (\<sigma> @ [i]). is_finished (ps' ! j)} = {j \<in> set \<sigma>. is_finished (ps' ! j)}"
      using send(3) by (auto simp: ps')
    then have fin: "{j \<in> set (\<sigma> @ [i]). is_finished (ps' ! j)} = {j \<in> set \<sigma>. is_finished (ps ! j)}"
      using new filter_update_outside [of i "set \<sigma>" is_finished ps] by (simp add: ps')
    have "(\<Sum>j \<in> {j \<in> set \<sigma>. is_finished (ps ! j)}. mset (snd (resume c (ms ! j) (st' j))))
          = (\<Sum>j \<in> {j \<in> set \<sigma>. is_finished (ps ! j)}. mset (snd (resume c (ms ! j) (st j))))"
      using st_eq by (intro sum.cong) auto
    then have c7: "mset (console w') = mset (console w0)
         + (\<Sum>j \<in> {j \<in> set (\<sigma> @ [i]). is_finished (ps' ! j)}. mset (snd (resume c (ms ! j) (st' j))))"
      using con send fin by simp
    show ?thesis
      apply (rule exI [of _ "\<sigma> @ [i]"], rule exI [of _ st'])
      using c1 c2 c3 c4 c5 c6 c7 by (intro conjI)
  next
    case (resume i m r)
    have ps': "ps' = ps[i := Finished (fst (resume c m r))]" using resume by simp
    have i: "i \<in> set \<sigma>" using resume(3,4) sig len by auto
    have "ps ! i = Sent (ms ! i) (st i)" using pend i resume(4) by auto
    then have m: "m = ms ! i" and r: "r = st i" using resume(4) by simp_all
    have "{j \<in> set \<sigma>. is_finished (ps' ! j)} = insert i {j \<in> set \<sigma> - {i}. is_finished (ps ! j)}"
      using filter_update_at [of i ps "set \<sigma>" is_finished] resume(3) i by (simp add: ps')
    also have "{j \<in> set \<sigma> - {i}. is_finished (ps ! j)} = {j \<in> set \<sigma>. is_finished (ps ! j)}"
      using resume(4) by auto
    finally have fin: "{j \<in> set \<sigma>. is_finished (ps' ! j)} = insert i {j \<in> set \<sigma>. is_finished (ps ! j)}" .
    have notfin: "i \<notin> {j \<in> set \<sigma>. is_finished (ps ! j)}" using resume(4) by simp
    have w': "console w' = console w @ snd (resume c m r)" using resume by simp
    let ?f = "\<lambda>j. mset (snd (resume c (ms ! j) (st j)))"
    let ?S = "{j \<in> set \<sigma>. is_finished (ps ! j)}"
    have "mset (console w') = mset (console w) + ?f i" using w' m r by simp
    also have "\<dots> = mset (console w0) + (sum ?f ?S + ?f i)" using con by (simp add: add.assoc)
    also have "sum ?f ?S + ?f i = sum ?f {j \<in> set \<sigma>. is_finished (ps' ! j)}"
      unfolding fin using notfin by (simp add: add.commute)
    finally have c7: "mset (console w') = mset (console w0) + sum ?f {j \<in> set \<sigma>. is_finished (ps' ! j)}" .
    have nr: "\<not> is_ready (Finished (fst (resume c m r)))" "\<not> is_ready (ps ! i)"
      using resume(4) by simp_all
    have "{j. j < length ms \<and> \<not> is_ready (ps' ! j)} = {j. j < length ms \<and> \<not> is_ready (ps ! j)}"
      unfolding ps' ready_update [OF nr] ..
    then have c2: "set \<sigma> = {j. j < length ms \<and> \<not> is_ready (ps' ! j)}"
      using sig by simp
    have c3: "length ps' = length ms" using len by (simp add: ps')
    have c4: "\<forall>j < length ms. is_ready (ps' ! j) \<longrightarrow> ps' ! j = Ready (ms ! j)"
    proof (intro allI impI)
      fix j assume j: "j < length ms" and ready: "is_ready (ps' ! j)"
      then have "is_ready (ps ! j)" and eq: "ps' ! j = ps ! j"
        using ready_update [OF nr] ready_update_same [OF nr(1)] by (simp_all add: ps')
      with rdy j have "ps ! j = Ready (ms ! j)" by blast
      with eq show "ps' ! j = Ready (ms ! j)" by simp
    qed
    have c5: "settle_seq tr c (map ((!) ms) \<sigma>) (net w0) = (map st \<sigma>, net w')"
      using set resume by simp
    have c6: "\<forall>j \<in> set \<sigma>. ps' ! j = Sent (ms ! j) (st j) \<or> ps' ! j = Finished (fst (resume c (ms ! j) (st j)))"
      using pend resume(3) m r by (auto simp: ps' nth_list_update)
    show ?thesis
      apply (rule exI [of _ \<sigma>], rule exI [of _ st])
      using d c2 c3 c4 c5 c6 c7 by (intro conjI)
  qed
qed

section \<open>Properties of concurrent calls\<close>

text \<open>C28 (spec.md section 8, concurrent independent operations do not interfere): when
  every call of a concurrent run has finished, there is an order of the calls (the order
  in which the service processed their requests) such that awaiting the calls one after
  the other in that order gives every call the same result, leaves the service in the
  same state, and logs the same errors; only the order of the log lines may differ.\<close>

theorem conc_serializable:
  assumes run: "(conc_step tr c)\<^sup>*\<^sup>* (map Ready ms, w0) (ps, w)" and fin: "list_all is_finished ps"
  shows "\<exists>\<sigma> rs w'. ps = map Finished rs \<and> distinct \<sigma> \<and> set \<sigma> = {..<length ms}
           \<and> run_seq tr c (map ((!) ms) \<sigma>) w0 = (map ((!) rs) \<sigma>, w')
           \<and> net w' = net w \<and> mset (console w') = mset (console w)"
proof -
  obtain \<sigma> st where d: "distinct \<sigma>" and sig: "set \<sigma> = {i. i < length ms \<and> \<not> is_ready (ps ! i)}"
    and len: "length ps = length ms"
    and set: "settle_seq tr c (map ((!) ms) \<sigma>) (net w0) = (map st \<sigma>, net w)"
    and pend: "\<forall>i \<in> set \<sigma>. ps ! i = Sent (ms ! i) (st i) \<or> ps ! i = Finished (fst (resume c (ms ! i) (st i)))"
    and con: "mset (console w) = mset (console w0)
         + (\<Sum>i \<in> {i \<in> set \<sigma>. is_finished (ps ! i)}. mset (snd (resume c (ms ! i) (st i))))"
    using conc_invariant [OF run] by blast
  have fin_i: "is_finished (ps ! i)" if "i < length ms" for i
    using fin that len by (simp add: list_all_length)
  have all: "set \<sigma> = {..<length ms}"
    using sig fin_i finished_not_ready by auto
  define rs where "rs = map (\<lambda>i. fst (resume c (ms ! i) (st i))) [0..<length ms]"
  have at: "ps ! i = Finished (rs ! i)" if "i < length ms" for i
  proof -
    have "i \<in> set \<sigma>" using all that by simp
    then have "ps ! i = Sent (ms ! i) (st i) \<or> ps ! i = Finished (fst (resume c (ms ! i) (st i)))"
      using pend by blast
    then show ?thesis using fin_i [OF that] that by (auto simp: rs_def)
  qed
  have ps: "ps = map Finished rs"
    using len at by (intro nth_equalityI) (simp_all add: rs_def)
  have fins: "{i \<in> set \<sigma>. is_finished (ps ! i)} = set \<sigma>"
    using all fin_i by auto
  have res: "map (\<lambda>(m, r). fst (resume c m r)) (zip (map ((!) ms) \<sigma>) (map st \<sigma>)) = map ((!) rs) \<sigma>"
    using all by (auto simp: zip_map_map zip_same_conv_map rs_def)
  define w' where "w' = snd (run_seq tr c (map ((!) ms) \<sigma>) w0)"
  have rseq: "run_seq tr c (map ((!) ms) \<sigma>) w0 = (map ((!) rs) \<sigma>, w')"
    using res by (simp add: w'_def run_seq_settle set)
  have "net w' = net w" by (simp add: w'_def run_seq_settle set)
  moreover have "mset (console w') = mset (console w)"
    using d con fins
    by (simp add: w'_def run_seq_settle set zip_map_map zip_same_conv_map mset_concat_map_distinct comp_def)
  ultimately show ?thesis using ps d all rseq by blast
qed

theorem conc_serializable_witness:
  "\<exists>\<sigma> rs w'. [Finished (spec_result (spec_of OpPing) JNull), Finished (spec_result (spec_of (OpGetComponent (JNum 1))) JNull)]
        = map Finished rs \<and> distinct \<sigma> \<and> set \<sigma> = {..<length [OpPing, OpGetComponent (JNum 1)]}
     \<and> run_seq (recorder (Inr JNull)) test_api (map ((!) [OpPing, OpGetComponent (JNum 1)]) \<sigma>) \<lparr>net = [], console = []\<rparr> = (map ((!) rs) \<sigma>, w')
     \<and> net w' = [spec_request test_api (spec_of (OpGetComponent (JNum 1))), spec_request test_api (spec_of OpPing)]
     \<and> mset (console w') = mset []"
  using conc_serializable [OF demo_interleaving] by simp

text \<open>C29 (bounds): each call logs at most one error, when it is resumed (its catch
  calls \<open>createError\<close> once, which logs once): along any run, the console grows by at
  most the number of calls that finished.\<close>

theorem conc_console_bound:
  assumes "(conc_step tr c)\<^sup>*\<^sup>* (ps, w) (ps', w')"
  shows "length (console w') + length (filter is_finished ps) \<le> length (console w) + length (filter is_finished ps')"
  using assms
proof (induction rule: rtranclp_induct2)
  case (step ps1 w1 ps2 w2)
  then show ?case using finished_count_step [OF step.hyps(2)] by linarith
qed simp

theorem conc_console_bound_witness:
  "length (console \<lparr>net = [spec_request test_api (spec_of (OpGetComponent (JNum 1))), spec_request test_api (spec_of OpPing)], console = ([] :: thrown list)\<rparr>)
     + length (filter is_finished (map Ready [OpPing, OpGetComponent (JNum 1)]))
   \<le> length (console \<lparr>net = ([] :: request list), console = ([] :: thrown list)\<rparr>)
     + length (filter is_finished [Finished (spec_result (spec_of OpPing) JNull), Finished (spec_result (spec_of (OpGetComponent (JNum 1))) JNull)])"
  using conc_console_bound [OF demo_interleaving] by simp

text \<open>C30 (refinement): awaiting the calls one after the other is one of the schedules of
  the concurrent model: the sequential run is reachable, with every call finished with its
  sequential result.\<close>

theorem sequential_is_schedule:
  "(conc_step tr c)\<^sup>*\<^sup>* (map Ready ms, w) (map Finished (fst (run_seq tr c ms w)), snd (run_seq tr c ms w))"
  using run_seq_schedule [of tr c "[]" ms w] by simp

end
