(* ===== verification/Docs.thy ===== *)
theory Docs
  imports Types
begin

text \<open>
  The JSDoc contract of every method of class \<open>CachetAPI\<close> (src/src/CachetAPI.js): its
  \<open>@param\<close> tags (name, type, optional) and its \<open>@return\<close> tag, and the call of its
  \<open>Async/Await\<close> \<open>@example\<close> with the result the example's comment announces. The
  documented types are the ones the source writes (\<open>{Integer}\<close>, \<open>{boolean}\<close>,
  \<open>{String|Object}\<close>, \<open>{Promise<Array.<Component>>}\<close>, a typedef name), read over the
  typedefs of \<open>Types\<close>. The theory proves that a call conforming to the documentation is a
  typed call, that such a call resolves with a value of its documented return type
  against the reference service, and which of the examples conform and what they return.
\<close>

section \<open>Documented types\<close>

datatype doc_type =
    DString | DBoolean | DInteger | DObject | DEntity string
  | DArray doc_type | DUnion doc_type doc_type | DPromise doc_type

record method_doc =
  doc_params :: "(string \<times> doc_type \<times> bool) list"
  doc_returns :: doc_type

text \<open>The result announced by the comment of an example: a value, one record of a
  typedef (\<open>{@link Component}\<close>) or an array of them.\<close>

datatype example_result = ExValue jsval | ExEntity string | ExEntities string

record doc_example =
  ex_call :: api_op
  ex_result :: example_result

text \<open>The names the \<open>@typedef\<close> blocks give to the entity types.\<close>

definition entity_typedefs :: "(string \<times> entity_type) list" where
  "entity_typedefs =
     [(''Component'', component_type), (''ComponentGroup'', component_group_type),
      (''Incident'', incident_type), (''IncidentUpdate'', incident_update_type),
      (''Metric'', metric_type), (''MetricPoint'', metric_point_type),
      (''Subscriber'', subscriber_type)]"

text \<open>Conformance of a value to a documented type. An entity in argument position is an
  object whose properties conform to the typedef; in result position it is a stored
  record (\<open>conforms_record\<close>: the integer id the service assigned, the other properties
  conforming). A promise type is met by the value the promise resolves with.\<close>

fun doc_conforms :: "bool \<Rightarrow> doc_type \<Rightarrow> jsval \<Rightarrow> bool" where
  "doc_conforms r DString v = (case v of JStr s \<Rightarrow> True | _ \<Rightarrow> False)"
| "doc_conforms r DBoolean v = (case v of JBool b \<Rightarrow> True | _ \<Rightarrow> False)"
| "doc_conforms r DInteger v = (case v of JNum n \<Rightarrow> True | _ \<Rightarrow> False)"
| "doc_conforms r DObject v = (case v of JObj ps \<Rightarrow> True | _ \<Rightarrow> False)"
| "doc_conforms r (DEntity n) v =
     (case map_of entity_typedefs n of
        None \<Rightarrow> False
      | Some td \<Rightarrow> if r then conforms_record td v else (case v of JObj ps \<Rightarrow> conforms_fields td ps | _ \<Rightarrow> False))"
| "doc_conforms r (DArray t) v = (case v of JArr vs \<Rightarrow> list_all (doc_conforms r t) vs | _ \<Rightarrow> False)"
| "doc_conforms r (DUnion a b) v = (doc_conforms r a v \<or> doc_conforms r b v)"
| "doc_conforms r (DPromise t) v = (r \<and> doc_conforms r t v)"

text \<open>Arguments against \<open>@param\<close> tags, by position: a missing or \<open>undefined\<close>
  argument is allowed for an optional parameter (\<open>[with_meta=false]\<close>).\<close>

fun params_ok :: "(string \<times> doc_type \<times> bool) list \<Rightarrow> jsval list \<Rightarrow> bool" where
  "params_ok [] args = True"
| "params_ok ((n, t, opt) # ps) args =
     ((case args of [] \<Rightarrow> opt | a # as \<Rightarrow> (opt \<and> a = JUndef) \<or> doc_conforms False t a)
      \<and> params_ok ps (tl args))"

text \<open>The operations asked for the raw envelope (a truthy \<open>with_meta\<close>).\<close>

fun raw_requested :: "spec_op \<Rightarrow> bool" where
  "raw_requested (SVersion raw) = truthy raw"
| "raw_requested (Resource f (List raw)) = truthy raw"
| "raw_requested op = False"

fun example_holds :: "example_result \<Rightarrow> jsval \<Rightarrow> bool" where
  "example_holds (ExValue v) x = (x = v)"
| "example_holds (ExEntity n) x = doc_conforms True (DEntity n) x"
| "example_holds (ExEntities n) x = doc_conforms True (DArray (DEntity n)) x"

section \<open>The documentation of the methods\<close>

subsection \<open>General\<close>

definition ping_doc :: method_doc where
  "ping_doc = \<lparr>doc_params = [], doc_returns = DPromise DString\<rparr>"

definition getVersion_doc :: method_doc where
  "getVersion_doc = \<lparr>doc_params = [(''with_meta'', DBoolean, True)], doc_returns = DUnion DString DObject\<rparr>"

subsection \<open>Components\<close>

definition getComponents_doc :: method_doc where
  "getComponents_doc = \<lparr>doc_params = [(''with_meta'', DBoolean, True)], doc_returns = DPromise (DArray (DEntity ''Component''))\<rparr>"

definition getComponent_doc :: method_doc where
  "getComponent_doc = \<lparr>doc_params = [(''component_id'', DInteger, False)], doc_returns = DPromise (DEntity ''Component'')\<rparr>"

definition addComponent_doc :: method_doc where
  "addComponent_doc = \<lparr>doc_params = [(''component'', DEntity ''Component'', False)], doc_returns = DPromise (DEntity ''Component'')\<rparr>"

definition updateComponent_doc :: method_doc where
  "updateComponent_doc = \<lparr>doc_params = [(''component_id'', DInteger, False), (''component'', DEntity ''Component'', False)], doc_returns = DPromise (DEntity ''Component'')\<rparr>"

definition deleteComponent_doc :: method_doc where
  "deleteComponent_doc = \<lparr>doc_params = [(''component_id'', DInteger, False)], doc_returns = DPromise DBoolean\<rparr>"

subsection \<open>Component Groups\<close>

definition getComponentGroups_doc :: method_doc where
  "getComponentGroups_doc = \<lparr>doc_params = [(''with_meta'', DBoolean, True)], doc_returns = DPromise (DArray (DEntity ''ComponentGroup''))\<rparr>"

definition getComponentGroup_doc :: method_doc where
  "getComponentGroup_doc = \<lparr>doc_params = [(''group_id'', DInteger, False)], doc_returns = DPromise (DEntity ''ComponentGroup'')\<rparr>"

definition addComponentGroup_doc :: method_doc where
  "addComponentGroup_doc = \<lparr>doc_params = [(''group'', DEntity ''ComponentGroup'', False)], doc_returns = DPromise (DEntity ''ComponentGroup'')\<rparr>"

definition updateComponentGroup_doc :: method_doc where
  "updateComponentGroup_doc = \<lparr>doc_params = [(''group_id'', DInteger, False), (''group'', DEntity ''ComponentGroup'', False)], doc_returns = DPromise (DEntity ''ComponentGroup'')\<rparr>"

definition deleteComponentGroup_doc :: method_doc where
  "deleteComponentGroup_doc = \<lparr>doc_params = [(''group_id'', DInteger, False)], doc_returns = DPromise DBoolean\<rparr>"

subsection \<open>Incidents\<close>

definition getIncidents_doc :: method_doc where
  "getIncidents_doc = \<lparr>doc_params = [(''with_meta'', DBoolean, True)], doc_returns = DPromise (DArray (DEntity ''Incident''))\<rparr>"

definition getIncident_doc :: method_doc where
  "getIncident_doc = \<lparr>doc_params = [(''incident_id'', DInteger, False)], doc_returns = DPromise (DEntity ''Incident'')\<rparr>"

definition addIncident_doc :: method_doc where
  "addIncident_doc = \<lparr>doc_params = [(''incident'', DEntity ''Incident'', False)], doc_returns = DPromise (DEntity ''Incident'')\<rparr>"

definition updateIncident_doc :: method_doc where
  "updateIncident_doc = \<lparr>doc_params = [(''incident_id'', DInteger, False), (''incident'', DEntity ''Incident'', False)], doc_returns = DPromise (DEntity ''Incident'')\<rparr>"

definition deleteIncident_doc :: method_doc where
  "deleteIncident_doc = \<lparr>doc_params = [(''incident_id'', DInteger, False)], doc_returns = DPromise DBoolean\<rparr>"

subsection \<open>Incident Updates\<close>

definition getIncidentUpdates_doc :: method_doc where
  "getIncidentUpdates_doc = \<lparr>doc_params = [(''incident_id'', DInteger, False), (''with_meta'', DBoolean, True)], doc_returns = DPromise (DArray (DEntity ''IncidentUpdate''))\<rparr>"

definition getIncidentUpdate_doc :: method_doc where
  "getIncidentUpdate_doc = \<lparr>doc_params = [(''incident_id'', DInteger, False), (''update_id'', DInteger, False)], doc_returns = DPromise (DEntity ''IncidentUpdate'')\<rparr>"

definition addIncidentUpdate_doc :: method_doc where
  "addIncidentUpdate_doc = \<lparr>doc_params = [(''incident_id'', DInteger, False), (''update'', DEntity ''IncidentUpdate'', False)], doc_returns = DPromise (DEntity ''IncidentUpdate'')\<rparr>"

definition updateIncidentUpdate_doc :: method_doc where
  "updateIncidentUpdate_doc = \<lparr>doc_params = [(''incident_id'', DInteger, False), (''update_id'', DInteger, False), (''update'', DEntity ''IncidentUpdate'', False)], doc_returns = DPromise (DEntity ''IncidentUpdate'')\<rparr>"

definition deleteIncidentUpdate_doc :: method_doc where
  "deleteIncidentUpdate_doc = \<lparr>doc_params = [(''incident_id'', DInteger, False), (''update_id'', DInteger, False)], doc_returns = DPromise DBoolean\<rparr>"

subsection \<open>Metrics\<close>

definition getMetrics_doc :: method_doc where
  "getMetrics_doc = \<lparr>doc_params = [(''with_meta'', DBoolean, True)], doc_returns = DPromise (DArray (DEntity ''Metric''))\<rparr>"

definition getMetric_doc :: method_doc where
  "getMetric_doc = \<lparr>doc_params = [(''metric_id'', DInteger, False)], doc_returns = DPromise (DEntity ''Metric'')\<rparr>"

definition addMetric_doc :: method_doc where
  "addMetric_doc = \<lparr>doc_params = [(''metric'', DEntity ''Metric'', False)], doc_returns = DPromise (DEntity ''Metric'')\<rparr>"

definition deleteMetric_doc :: method_doc where
  "deleteMetric_doc = \<lparr>doc_params = [(''metric_id'', DInteger, False)], doc_returns = DPromise DBoolean\<rparr>"

subsection \<open>Metric Points\<close>

definition getMetricPoints_doc :: method_doc where
  "getMetricPoints_doc = \<lparr>doc_params = [(''metric_id'', DInteger, False), (''with_meta'', DBoolean, True)], doc_returns = DPromise (DArray (DEntity ''MetricPoint''))\<rparr>"

definition addMetricPoint_doc :: method_doc where
  "addMetricPoint_doc = \<lparr>doc_params = [(''metric_id'', DInteger, False), (''point'', DEntity ''MetricPoint'', False)], doc_returns = DPromise (DEntity ''MetricPoint'')\<rparr>"

definition deleteMetricPoint_doc :: method_doc where
  "deleteMetricPoint_doc = \<lparr>doc_params = [(''metric_id'', DInteger, False), (''point_id'', DInteger, False)], doc_returns = DPromise DBoolean\<rparr>"

subsection \<open>Subscribers\<close>

definition getSubscribers_doc :: method_doc where
  "getSubscribers_doc = \<lparr>doc_params = [(''with_meta'', DBoolean, True)], doc_returns = DPromise (DArray (DEntity ''Subscriber''))\<rparr>"

definition addSubscriber_doc :: method_doc where
  "addSubscriber_doc = \<lparr>doc_params = [(''subscriber'', DEntity ''Subscriber'', False)], doc_returns = DPromise (DEntity ''Subscriber'')\<rparr>"

definition deleteSubscriber_doc :: method_doc where
  "deleteSubscriber_doc = \<lparr>doc_params = [(''subscriber_id'', DInteger, False)], doc_returns = DPromise DBoolean\<rparr>"

subsection \<open>Method table of the documentation\<close>

fun method_doc_of :: "api_op \<Rightarrow> method_doc" where
  "method_doc_of OpPing = ping_doc"
| "method_doc_of (OpGetVersion with_meta) = getVersion_doc"
| "method_doc_of (OpGetComponents with_meta) = getComponents_doc"
| "method_doc_of (OpGetComponent component_id) = getComponent_doc"
| "method_doc_of (OpAddComponent component) = addComponent_doc"
| "method_doc_of (OpUpdateComponent component_id component) = updateComponent_doc"
| "method_doc_of (OpDeleteComponent component_id) = deleteComponent_doc"
| "method_doc_of (OpGetComponentGroups with_meta) = getComponentGroups_doc"
| "method_doc_of (OpGetComponentGroup group_id) = getComponentGroup_doc"
| "method_doc_of (OpAddComponentGroup group') = addComponentGroup_doc"
| "method_doc_of (OpUpdateComponentGroup group_id group') = updateComponentGroup_doc"
| "method_doc_of (OpDeleteComponentGroup group_id) = deleteComponentGroup_doc"
| "method_doc_of (OpGetIncidents with_meta) = getIncidents_doc"
| "method_doc_of (OpGetIncident incident_id) = getIncident_doc"
| "method_doc_of (OpAddIncident incident) = addIncident_doc"
| "method_doc_of (OpUpdateIncident incident_id incident) = updateIncident_doc"
| "method_doc_of (OpDeleteIncident incident_id) = deleteIncident_doc"
| "method_doc_of (OpGetIncidentUpdates incident_id with_meta) = getIncidentUpdates_doc"
| "method_doc_of (OpGetIncidentUpdate incident_id update_id) = getIncidentUpdate_doc"
| "method_doc_of (OpAddIncidentUpdate incident_id update) = addIncidentUpdate_doc"
| "method_doc_of (OpUpdateIncidentUpdate incident_id update_id update) = updateIncidentUpdate_doc"
| "method_doc_of (OpDeleteIncidentUpdate incident_id update_id) = deleteIncidentUpdate_doc"
| "method_doc_of (OpGetMetrics with_meta) = getMetrics_doc"
| "method_doc_of (OpGetMetric metric_id) = getMetric_doc"
| "method_doc_of (OpAddMetric metric) = addMetric_doc"
| "method_doc_of (OpDeleteMetric metric_id) = deleteMetric_doc"
| "method_doc_of (OpGetMetricPoints metric_id) = getMetricPoints_doc"
| "method_doc_of (OpAddMetricPoint metric_id point) = addMetricPoint_doc"
| "method_doc_of (OpDeleteMetricPoint metric_id point_id) = deleteMetricPoint_doc"
| "method_doc_of OpGetSubscribers = getSubscribers_doc"
| "method_doc_of (OpAddSubscriber subscriber) = addSubscriber_doc"
| "method_doc_of (OpDeleteSubscriber subscriber_id) = deleteSubscriber_doc"

fun op_args :: "api_op \<Rightarrow> jsval list" where
  "op_args OpPing = []"
| "op_args (OpGetVersion with_meta) = [with_meta]"
| "op_args (OpGetComponents with_meta) = [with_meta]"
| "op_args (OpGetComponent component_id) = [component_id]"
| "op_args (OpAddComponent component) = [component]"
| "op_args (OpUpdateComponent component_id component) = [component_id, component]"
| "op_args (OpDeleteComponent component_id) = [component_id]"
| "op_args (OpGetComponentGroups with_meta) = [with_meta]"
| "op_args (OpGetComponentGroup group_id) = [group_id]"
| "op_args (OpAddComponentGroup group') = [group']"
| "op_args (OpUpdateComponentGroup group_id group') = [group_id, group']"
| "op_args (OpDeleteComponentGroup group_id) = [group_id]"
| "op_args (OpGetIncidents with_meta) = [with_meta]"
| "op_args (OpGetIncident incident_id) = [incident_id]"
| "op_args (OpAddIncident incident) = [incident]"
| "op_args (OpUpdateIncident incident_id incident) = [incident_id, incident]"
| "op_args (OpDeleteIncident incident_id) = [incident_id]"
| "op_args (OpGetIncidentUpdates incident_id with_meta) = [incident_id, with_meta]"
| "op_args (OpGetIncidentUpdate incident_id update_id) = [incident_id, update_id]"
| "op_args (OpAddIncidentUpdate incident_id update) = [incident_id, update]"
| "op_args (OpUpdateIncidentUpdate incident_id update_id update) = [incident_id, update_id, update]"
| "op_args (OpDeleteIncidentUpdate incident_id update_id) = [incident_id, update_id]"
| "op_args (OpGetMetrics with_meta) = [with_meta]"
| "op_args (OpGetMetric metric_id) = [metric_id]"
| "op_args (OpAddMetric metric) = [metric]"
| "op_args (OpDeleteMetric metric_id) = [metric_id]"
| "op_args (OpGetMetricPoints metric_id) = [metric_id]"
| "op_args (OpAddMetricPoint metric_id point) = [metric_id, point]"
| "op_args (OpDeleteMetricPoint metric_id point_id) = [metric_id, point_id]"
| "op_args OpGetSubscribers = []"
| "op_args (OpAddSubscriber subscriber) = [subscriber]"
| "op_args (OpDeleteSubscriber subscriber_id) = [subscriber_id]"

subsection \<open>The Async/Await examples\<close>

definition ping_example :: doc_example where
  "ping_example = \<lparr>ex_call = OpPing, ex_result = ExValue (JStr ''Pong!'')\<rparr>"

definition getVersion_example :: doc_example where
  "getVersion_example = \<lparr>ex_call = OpGetVersion JUndef, ex_result = ExValue (JStr ''2.4.0-dev'')\<rparr>"

definition getComponents_example :: doc_example where
  "getComponents_example = \<lparr>ex_call = OpGetComponents JUndef, ex_result = ExEntities ''Component''\<rparr>"

definition getComponent_example :: doc_example where
  "getComponent_example = \<lparr>ex_call = OpGetComponent (JNum 0), ex_result = ExEntity ''Component''\<rparr>"

definition addComponent_example :: doc_example where
  "addComponent_example = \<lparr>ex_call = OpAddComponent (JObj [(''name'', JStr ''My Component''), (''description'', JStr ''My Description''), (''status'', JNum 0)]), ex_result = ExEntity ''Component''\<rparr>"

definition updateComponent_example :: doc_example where
  "updateComponent_example = \<lparr>ex_call = OpUpdateComponent (JNum 0) (JObj [(''name'', JStr ''My Updated Component''), (''status'', JNum 1)]), ex_result = ExEntity ''Component''\<rparr>"

definition deleteComponent_example :: doc_example where
  "deleteComponent_example = \<lparr>ex_call = OpDeleteComponent (JNum 0), ex_result = ExValue (JBool True)\<rparr>"

definition getComponentGroups_example :: doc_example where
  "getComponentGroups_example = \<lparr>ex_call = OpGetComponentGroups JUndef, ex_result = ExEntities ''ComponentGroup''\<rparr>"

definition getComponentGroup_example :: doc_example where
  "getComponentGroup_example = \<lparr>ex_call = OpGetComponentGroup (JNum 0), ex_result = ExEntity ''ComponentGroup''\<rparr>"

definition addComponentGroup_example :: doc_example where
  "addComponentGroup_example = \<lparr>ex_call = OpAddComponentGroup (JObj [(''name'', JStr ''My Component Group'')]), ex_result = ExEntity ''ComponentGroup''\<rparr>"

definition updateComponentGroup_example :: doc_example where
  "updateComponentGroup_example = \<lparr>ex_call = OpUpdateComponentGroup (JNum 0) (JObj [(''name'', JStr ''My Updated Component Group'')]), ex_result = ExEntity ''ComponentGroup''\<rparr>"

definition deleteComponentGroup_example :: doc_example where
  "deleteComponentGroup_example = \<lparr>ex_call = OpDeleteComponentGroup (JNum 0), ex_result = ExValue (JBool True)\<rparr>"

definition getIncidents_example :: doc_example where
  "getIncidents_example = \<lparr>ex_call = OpGetIncidents JUndef, ex_result = ExEntities ''Incident''\<rparr>"

definition getIncident_example :: doc_example where
  "getIncident_example = \<lparr>ex_call = OpGetIncident (JNum 0), ex_result = ExEntity ''Incident''\<rparr>"

definition addIncident_example :: doc_example where
  "addIncident_example = \<lparr>ex_call = OpAddIncident (JObj [(''name'', JStr ''My Incident''), (''message'', JStr ''My Incident message''), (''status'', JNum 0), (''visible'', JNum 1)]), ex_result = ExEntity ''Incident''\<rparr>"

definition updateIncident_example :: doc_example where
  "updateIncident_example = \<lparr>ex_call = OpUpdateIncident (JNum 0) (JObj [(''name'', JStr ''My Updated Incident''), (''status'', JNum 1)]), ex_result = ExEntity ''Incident''\<rparr>"

definition deleteIncident_example :: doc_example where
  "deleteIncident_example = \<lparr>ex_call = OpDeleteIncident (JNum 0), ex_result = ExValue (JBool True)\<rparr>"

definition getIncidentUpdates_example :: doc_example where
  "getIncidentUpdates_example = \<lparr>ex_call = OpGetIncidentUpdates JUndef JUndef, ex_result = ExEntities ''IncidentUpdate''\<rparr>"

definition getIncidentUpdate_example :: doc_example where
  "getIncidentUpdate_example = \<lparr>ex_call = OpGetIncidentUpdate (JNum 0) (JNum 0), ex_result = ExEntity ''IncidentUpdate''\<rparr>"

definition addIncidentUpdate_example :: doc_example where
  "addIncidentUpdate_example = \<lparr>ex_call = OpAddIncidentUpdate (JNum 0) (JObj [(''message'', JStr ''My Update''), (''status'', JNum 2)]), ex_result = ExEntity ''IncidentUpdate''\<rparr>"

definition updateIncidentUpdate_example :: doc_example where
  "updateIncidentUpdate_example = \<lparr>ex_call = OpUpdateIncidentUpdate (JNum 0) (JNum 0) (JObj [(''message'', JStr ''My Updated Message''), (''status'', JNum 4)]), ex_result = ExEntity ''IncidentUpdate''\<rparr>"

definition deleteIncidentUpdate_example :: doc_example where
  "deleteIncidentUpdate_example = \<lparr>ex_call = OpDeleteIncidentUpdate (JNum 0) (JNum 0), ex_result = ExValue (JBool True)\<rparr>"

definition getMetrics_example :: doc_example where
  "getMetrics_example = \<lparr>ex_call = OpGetMetrics JUndef, ex_result = ExEntities ''Metric''\<rparr>"

definition getMetric_example :: doc_example where
  "getMetric_example = \<lparr>ex_call = OpGetMetric (JNum 0), ex_result = ExEntity ''Metric''\<rparr>"

definition addMetric_example :: doc_example where
  "addMetric_example = \<lparr>ex_call = OpAddMetric (JObj [(''name'', JStr ''My Metric''), (''suffix'', JStr ''F''), (''description'', JStr ''My Metric Description''), (''default_value'', JNum 1)]), ex_result = ExEntity ''Metric''\<rparr>"

definition deleteMetric_example :: doc_example where
  "deleteMetric_example = \<lparr>ex_call = OpDeleteMetric (JNum 0), ex_result = ExValue (JBool True)\<rparr>"

definition getMetricPoints_example :: doc_example where
  "getMetricPoints_example = \<lparr>ex_call = OpGetMetricPoints (JNum 0), ex_result = ExEntities ''MetricPoint''\<rparr>"

definition addMetricPoint_example :: "jsval \<Rightarrow> doc_example" where
  "addMetricPoint_example v = \<lparr>ex_call = OpAddMetricPoint (JObj [(''value'', v)]) JUndef, ex_result = ExEntity ''MetricPoint''\<rparr>"

definition deleteMetricPoint_example :: doc_example where
  "deleteMetricPoint_example = \<lparr>ex_call = OpDeleteMetricPoint (JNum 0) (JNum 0), ex_result = ExValue (JBool True)\<rparr>"

definition getSubscribers_example :: doc_example where
  "getSubscribers_example = \<lparr>ex_call = OpGetSubscribers, ex_result = ExEntities ''Subscriber''\<rparr>"

definition addSubscriber_example :: doc_example where
  "addSubscriber_example = \<lparr>ex_call = OpAddSubscriber (JObj [(''email'', JStr ''email@example.com'')]), ex_result = ExEntity ''Subscriber''\<rparr>"

definition deleteSubscriber_example :: doc_example where
  "deleteSubscriber_example = \<lparr>ex_call = OpDeleteSubscriber (JNum 0), ex_result = ExValue (JBool True)\<rparr>"

subsection \<open>The Promise examples\<close>

definition ping_promise_example :: doc_example where
  "ping_promise_example = \<lparr>ex_call = OpPing, ex_result = ExValue (JStr ''Pong!'')\<rparr>"

definition getVersion_promise_example :: doc_example where
  "getVersion_promise_example = \<lparr>ex_call = OpGetVersion JUndef, ex_result = ExValue (JStr ''2.4.0-dev'')\<rparr>"

definition getComponents_promise_example :: doc_example where
  "getComponents_promise_example = \<lparr>ex_call = OpGetComponents JUndef, ex_result = ExEntities ''Component''\<rparr>"

definition getComponent_promise_example :: doc_example where
  "getComponent_promise_example = \<lparr>ex_call = OpGetComponent (JNum 0), ex_result = ExEntity ''Component''\<rparr>"

definition addComponent_promise_example :: doc_example where
  "addComponent_promise_example = \<lparr>ex_call = OpAddComponent (JObj [(''name'', JStr ''My Component''), (''description'', JStr ''My Description''), (''status'', JNum 0)]), ex_result = ExEntity ''Component''\<rparr>"

definition updateComponent_promise_example :: doc_example where
  "updateComponent_promise_example = \<lparr>ex_call = OpUpdateComponent (JNum 0) (JObj [(''name'', JStr ''My Updated Component''), (''status'', JNum 1)]), ex_result = ExEntity ''Component''\<rparr>"

definition deleteComponent_promise_example :: doc_example where
  "deleteComponent_promise_example = \<lparr>ex_call = OpDeleteComponent (JNum 0), ex_result = ExValue (JBool True)\<rparr>"

definition getComponentGroups_promise_example :: doc_example where
  "getComponentGroups_promise_example = \<lparr>ex_call = OpGetComponentGroups JUndef, ex_result = ExEntities ''ComponentGroup''\<rparr>"

definition getComponentGroup_promise_example :: doc_example where
  "getComponentGroup_promise_example = \<lparr>ex_call = OpGetComponentGroup (JNum 0), ex_result = ExEntity ''ComponentGroup''\<rparr>"

definition addComponentGroup_promise_example :: doc_example where
  "addComponentGroup_promise_example = \<lparr>ex_call = OpAddComponentGroup (JObj [(''name'', JStr ''My Component Group'')]), ex_result = ExEntity ''ComponentGroup''\<rparr>"

definition updateComponentGroup_promise_example :: doc_example where
  "updateComponentGroup_promise_example = \<lparr>ex_call = OpUpdateComponentGroup (JNum 0) (JObj [(''name'', JStr ''My Updated Component Group'')]), ex_result = ExEntity ''ComponentGroup''\<rparr>"

definition deleteComponentGroup_promise_example :: doc_example where
  "deleteComponentGroup_promise_example = \<lparr>ex_call = OpDeleteComponentGroup (JNum 0), ex_result = ExValue (JBool True)\<rparr>"

definition getIncidents_promise_example :: doc_example where
  "getIncidents_promise_example = \<lparr>ex_call = OpGetIncidents JUndef, ex_result = ExEntities ''Incident''\<rparr>"

definition getIncident_promise_example :: doc_example where
  "getIncident_promise_example = \<lparr>ex_call = OpGetIncident (JNum 0), ex_result = ExEntity ''Incident''\<rparr>"

definition addIncident_promise_example :: doc_example where
  "addIncident_promise_example = \<lparr>ex_call = OpAddIncident (JObj [(''name'', JStr ''My Incident''), (''message'', JStr ''My Incident message''), (''status'', JNum 0), (''visible'', JNum 1)]), ex_result = ExEntity ''Incident''\<rparr>"

definition updateIncident_promise_example :: doc_example where
  "updateIncident_promise_example = \<lparr>ex_call = OpUpdateIncident (JNum 0) (JObj [(''name'', JStr ''My Updated Incident''), (''status'', JNum 1)]), ex_result = ExEntity ''Incident''\<rparr>"

definition deleteIncident_promise_example :: doc_example where
  "deleteIncident_promise_example = \<lparr>ex_call = OpDeleteIncident (JNum 0), ex_result = ExValue (JBool True)\<rparr>"

definition getIncidentUpdates_promise_example :: doc_example where
  "getIncidentUpdates_promise_example = \<lparr>ex_call = OpGetIncidentUpdates JUndef JUndef, ex_result = ExEntities ''IncidentUpdate''\<rparr>"

definition getIncidentUpdate_promise_example :: doc_example where
  "getIncidentUpdate_promise_example = \<lparr>ex_call = OpGetIncidentUpdate (JNum 0) (JNum 0), ex_result = ExEntity ''IncidentUpdate''\<rparr>"

definition addIncidentUpdate_promise_example :: doc_example where
  "addIncidentUpdate_promise_example = \<lparr>ex_call = OpAddIncidentUpdate (JNum 0) (JObj [(''message'', JStr ''My Update''), (''status'', JNum 2)]), ex_result = ExEntity ''IncidentUpdate''\<rparr>"

definition updateIncidentUpdate_promise_example :: doc_example where
  "updateIncidentUpdate_promise_example = \<lparr>ex_call = OpUpdateIncidentUpdate (JNum 0) (JNum 0) (JObj [(''message'', JStr ''My Updated Message''), (''status'', JNum 4)]), ex_result = ExEntity ''IncidentUpdate''\<rparr>"

definition deleteIncidentUpdate_promise_example :: doc_example where
  "deleteIncidentUpdate_promise_example = \<lparr>ex_call = OpDeleteIncidentUpdate (JNum 0) (JNum 0), ex_result = ExValue (JBool True)\<rparr>"

definition getMetrics_promise_example :: doc_example where
  "getMetrics_promise_example = \<lparr>ex_call = OpGetMetrics JUndef, ex_result = ExEntities ''Metric''\<rparr>"

definition getMetric_promise_example :: doc_example where
  "getMetric_promise_example = \<lparr>ex_call = OpGetMetric (JNum 0), ex_result = ExEntity ''Metric''\<rparr>"

definition addMetric_promise_example :: doc_example where
  "addMetric_promise_example = \<lparr>ex_call = OpAddMetric (JObj [(''name'', JStr ''My Metric''), (''suffix'', JStr ''F''), (''description'', JStr ''My Metric Description''), (''default_value'', JNum 1)]), ex_result = ExEntity ''Metric''\<rparr>"

definition deleteMetric_promise_example :: doc_example where
  "deleteMetric_promise_example = \<lparr>ex_call = OpDeleteMetric (JNum 0), ex_result = ExValue (JBool True)\<rparr>"

definition getMetricPoints_promise_example :: doc_example where
  "getMetricPoints_promise_example = \<lparr>ex_call = OpGetMetricPoints (JNum 0), ex_result = ExEntities ''MetricPoint''\<rparr>"

definition addMetricPoint_promise_example :: "jsval \<Rightarrow> doc_example" where
  "addMetricPoint_promise_example v = \<lparr>ex_call = OpAddMetricPoint (JObj [(''value'', v)]) JUndef, ex_result = ExEntity ''MetricPoint''\<rparr>"

definition deleteMetricPoint_promise_example :: doc_example where
  "deleteMetricPoint_promise_example = \<lparr>ex_call = OpDeleteMetricPoint (JNum 0) (JNum 0), ex_result = ExValue (JBool True)\<rparr>"

definition getSubscribers_promise_example :: doc_example where
  "getSubscribers_promise_example = \<lparr>ex_call = OpGetSubscribers, ex_result = ExEntities ''Subscriber''\<rparr>"

definition addSubscriber_promise_example :: doc_example where
  "addSubscriber_promise_example = \<lparr>ex_call = OpAddSubscriber (JObj [(''email'', JStr ''email@example.com'')]), ex_result = ExEntity ''Subscriber''\<rparr>"

definition deleteSubscriber_promise_example :: doc_example where
  "deleteSubscriber_promise_example = \<lparr>ex_call = OpDeleteSubscriber (JNum 0), ex_result = ExValue (JBool True)\<rparr>"

definition doc_examples :: "jsval \<Rightarrow> (string \<times> doc_example) list" where
  "doc_examples v =
     [(''ping'', ping_example),
      (''getVersion'', getVersion_example),
      (''getComponents'', getComponents_example),
      (''getComponent'', getComponent_example),
      (''addComponent'', addComponent_example),
      (''updateComponent'', updateComponent_example),
      (''deleteComponent'', deleteComponent_example),
      (''getComponentGroups'', getComponentGroups_example),
      (''getComponentGroup'', getComponentGroup_example),
      (''addComponentGroup'', addComponentGroup_example),
      (''updateComponentGroup'', updateComponentGroup_example),
      (''deleteComponentGroup'', deleteComponentGroup_example),
      (''getIncidents'', getIncidents_example),
      (''getIncident'', getIncident_example),
      (''addIncident'', addIncident_example),
      (''updateIncident'', updateIncident_example),
      (''deleteIncident'', deleteIncident_example),
      (''getIncidentUpdates'', getIncidentUpdates_example),
      (''getIncidentUpdate'', getIncidentUpdate_example),
      (''addIncidentUpdate'', addIncidentUpdate_example),
      (''updateIncidentUpdate'', updateIncidentUpdate_example),
      (''deleteIncidentUpdate'', deleteIncidentUpdate_example),
      (''getMetrics'', getMetrics_example),
      (''getMetric'', getMetric_example),
      (''addMetric'', addMetric_example),
      (''deleteMetric'', deleteMetric_example),
      (''getMetricPoints'', getMetricPoints_example),
      (''addMetricPoint'', addMetricPoint_example v),
      (''deleteMetricPoint'', deleteMetricPoint_example),
      (''getSubscribers'', getSubscribers_example),
      (''addSubscriber'', addSubscriber_example),
      (''deleteSubscriber'', deleteSubscriber_example)]"

definition promise_examples :: "jsval \<Rightarrow> (string \<times> doc_example) list" where
  "promise_examples v =
     [(''ping'', ping_promise_example),
      (''getVersion'', getVersion_promise_example),
      (''getComponents'', getComponents_promise_example),
      (''getComponent'', getComponent_promise_example),
      (''addComponent'', addComponent_promise_example),
      (''updateComponent'', updateComponent_promise_example),
      (''deleteComponent'', deleteComponent_promise_example),
      (''getComponentGroups'', getComponentGroups_promise_example),
      (''getComponentGroup'', getComponentGroup_promise_example),
      (''addComponentGroup'', addComponentGroup_promise_example),
      (''updateComponentGroup'', updateComponentGroup_promise_example),
      (''deleteComponentGroup'', deleteComponentGroup_promise_example),
      (''getIncidents'', getIncidents_promise_example),
      (''getIncident'', getIncident_promise_example),
      (''addIncident'', addIncident_promise_example),
      (''updateIncident'', updateIncident_promise_example),
      (''deleteIncident'', deleteIncident_promise_example),
      (''getIncidentUpdates'', getIncidentUpdates_promise_example),
      (''getIncidentUpdate'', getIncidentUpdate_promise_example),
      (''addIncidentUpdate'', addIncidentUpdate_promise_example),
      (''updateIncidentUpdate'', updateIncidentUpdate_promise_example),
      (''deleteIncidentUpdate'', deleteIncidentUpdate_promise_example),
      (''getMetrics'', getMetrics_promise_example),
      (''getMetric'', getMetric_promise_example),
      (''addMetric'', addMetric_promise_example),
      (''deleteMetric'', deleteMetric_promise_example),
      (''getMetricPoints'', getMetricPoints_promise_example),
      (''addMetricPoint'', addMetricPoint_promise_example v),
      (''deleteMetricPoint'', deleteMetricPoint_promise_example),
      (''getSubscribers'', getSubscribers_promise_example),
      (''addSubscriber'', addSubscriber_promise_example),
      (''deleteSubscriber'', deleteSubscriber_promise_example)]"

section \<open>Documented calls and the endpoint table\<close>

text \<open>A call conforms to its method's documentation when its arguments conform to the
  \<open>@param\<close> tags.\<close>

definition call_documented :: "api_op \<Rightarrow> bool" where
  "call_documented m = params_ok (doc_params (method_doc_of m)) (op_args m)"

text \<open>The typedef of the records of each resource family of spec.md section 6.\<close>

fun family_entity :: "family \<Rightarrow> string" where
  "family_entity Components = ''Component''"
| "family_entity ComponentGroups = ''ComponentGroup''"
| "family_entity Incidents = ''Incident''"
| "family_entity (IncidentUpdates p) = ''IncidentUpdate''"
| "family_entity Metrics = ''Metric''"
| "family_entity (MetricPoints p) = ''MetricPoint''"
| "family_entity Subscribers = ''Subscriber''"

text \<open>The result type of each entry of the endpoint table (spec.md section 4.2): a list
  of records, one record, \<open>true\<close> for a delete, the version string (or its envelope).\<close>

fun expected_return :: "spec_op \<Rightarrow> doc_type" where
  "expected_return SPing = DPromise DString"
| "expected_return (SVersion raw) = DUnion DString DObject"
| "expected_return (Resource f (List raw)) = DPromise (DArray (DEntity (family_entity f)))"
| "expected_return (Resource f (Delete i)) = DPromise DBoolean"
| "expected_return (Resource f a) = DPromise (DEntity (family_entity f))"

text \<open>The values the reference service in state \<open>s\<close> answers a typed operation with,
  once unwrapped.\<close>

fun result_shape :: "service \<Rightarrow> spec_op \<Rightarrow> jsval \<Rightarrow> bool" where
  "result_shape s SPing x = (x = JStr ''Pong!'')"
| "result_shape s (SVersion raw) x = (x = JStr (version s))"
| "result_shape s (Resource f (List raw)) x =
     (case coll_of f of
        None \<Rightarrow> False
      | Some k \<Rightarrow> (case x of JArr xs \<Rightarrow> list_all (conforms_record (coll_type k)) xs | _ \<Rightarrow> False))"
| "result_shape s (Resource f (Delete i)) x = (x = JBool True)"
| "result_shape s (Resource f a) x = (case coll_of f of None \<Rightarrow> False | Some k \<Rightarrow> conforms_record (coll_type k) x)"

section \<open>The constructor's documentation\<close>

text \<open>The JSDoc of the constructor (lines 6-9): the options object, its \<open>url\<close> and its
  optional \<open>apiToken\<close>, both strings; and the options of its example (lines 14-17).\<close>

definition constructor_doc :: method_doc where
  "constructor_doc =
     \<lparr>doc_params = [(''options'', DObject, False), (''options.url'', DString, False),
                    (''options.apiToken'', DString, True)],
      doc_returns = DEntity ''CachetAPI''\<rparr>"

definition constructor_example :: jsval where
  "constructor_example = JObj [(''url'', JStr ''https://demo.cachethq.io/api''), (''apiToken'', JStr ''9yMHsdioQosnyVK4iCVR'')]"

text \<open>Options conforming to the constructor's tags: a tag \<open>options.p\<close> reads property
  \<open>p\<close> of the options.\<close>

definition constructor_documented :: "jsval \<Rightarrow> bool" where
  "constructor_documented opts =
     list_all (\<lambda>(n, t, opt).
        let v = (if n = ''options'' then opts
                 else case strip_prefix ''options.'' n of
                        None \<Rightarrow> JUndef
                      | Some p \<Rightarrow> (case js_get opts p of Inl e \<Rightarrow> JUndef | Inr x \<Rightarrow> x))
        in (opt \<and> v = JUndef) \<or> doc_conforms False t v)
      (doc_params constructor_doc)"

section \<open>Lemmas\<close>

lemma coll_of_family_entity:
  "coll_of f = Some k \<Longrightarrow> map_of entity_typedefs (family_entity f) = Some (coll_type k)"
  by (cases f) (auto simp: entity_typedefs_def split: option.splits)

lemma doc_conforms_entity_result:
  "map_of entity_typedefs n = Some td \<Longrightarrow> doc_conforms True (DEntity n) = conforms_record td"
  by (simp add: fun_eq_iff)

lemma conforms_fields_partial: "conforms_fields td ps \<Longrightarrow> conforms_partial td ps"
  by (auto simp: conforms_fields_def conforms_partial_def list_all_iff split: option.splits)

lemmas doc_defs =
  ping_doc_def getVersion_doc_def getComponents_doc_def getComponent_doc_def addComponent_doc_def
  updateComponent_doc_def deleteComponent_doc_def getComponentGroups_doc_def getComponentGroup_doc_def
  addComponentGroup_doc_def updateComponentGroup_doc_def deleteComponentGroup_doc_def getIncidents_doc_def
  getIncident_doc_def addIncident_doc_def updateIncident_doc_def deleteIncident_doc_def
  getIncidentUpdates_doc_def getIncidentUpdate_doc_def addIncidentUpdate_doc_def updateIncidentUpdate_doc_def
  deleteIncidentUpdate_doc_def getMetrics_doc_def getMetric_doc_def addMetric_doc_def deleteMetric_doc_def
  getMetricPoints_doc_def addMetricPoint_doc_def deleteMetricPoint_doc_def getSubscribers_doc_def
  addSubscriber_doc_def deleteSubscriber_doc_def

lemma parse_path_broken_examples:
  "parse_path ''/v1/incidents/undefined/updates'' = None"
  "parse_path ''/v1/metrics/[object Object]/points'' = None"
  by code_simp+

lemmas example_defs = ping_example_def getVersion_example_def getComponents_example_def getComponent_example_def addComponent_example_def
  updateComponent_example_def deleteComponent_example_def getComponentGroups_example_def getComponentGroup_example_def addComponentGroup_example_def
  updateComponentGroup_example_def deleteComponentGroup_example_def getIncidents_example_def getIncident_example_def addIncident_example_def
  updateIncident_example_def deleteIncident_example_def getIncidentUpdates_example_def getIncidentUpdate_example_def addIncidentUpdate_example_def
  updateIncidentUpdate_example_def deleteIncidentUpdate_example_def getMetrics_example_def getMetric_example_def addMetric_example_def
  deleteMetric_example_def getMetricPoints_example_def addMetricPoint_example_def deleteMetricPoint_example_def getSubscribers_example_def
  addSubscriber_example_def deleteSubscriber_example_def

lemmas promise_example_defs = ping_promise_example_def getVersion_promise_example_def getComponents_promise_example_def getComponent_promise_example_def
  addComponent_promise_example_def updateComponent_promise_example_def deleteComponent_promise_example_def getComponentGroups_promise_example_def
  getComponentGroup_promise_example_def addComponentGroup_promise_example_def updateComponentGroup_promise_example_def deleteComponentGroup_promise_example_def
  getIncidents_promise_example_def getIncident_promise_example_def addIncident_promise_example_def updateIncident_promise_example_def
  deleteIncident_promise_example_def getIncidentUpdates_promise_example_def getIncidentUpdate_promise_example_def addIncidentUpdate_promise_example_def
  updateIncidentUpdate_promise_example_def deleteIncidentUpdate_promise_example_def getMetrics_promise_example_def getMetric_promise_example_def
  addMetric_promise_example_def deleteMetric_promise_example_def getMetricPoints_promise_example_def addMetricPoint_promise_example_def
  deleteMetricPoint_promise_example_def getSubscribers_promise_example_def addSubscriber_promise_example_def deleteSubscriber_promise_example_def

text \<open>A documented call is a typed call: its ids are integers and its bodies conform to
  their typedef (a whole record conforms as a partial one too).\<close>

lemma documented_typed: "call_documented m \<Longrightarrow> call_typed m"
  by (cases m)
     (auto simp: call_documented_def call_typed_def doc_defs entity_typedefs_def conforms_fields_partial
        split: jsval.splits option.splits)

text \<open>The \<open>@return\<close> tags are the result types of the endpoint table.\<close>

lemma doc_returns_spec: "doc_returns (method_doc_of m) = expected_return (spec_of m)"
  by (cases m) (simp_all add: doc_defs)

lemma serve_list_answer:
  assumes inv: "typed_service s" and sv: "serve (EColl k) GET d s = (Answer resp, s')"
    and st: "status resp < 300"
  shows "body resp = list_body s k \<and> list_all (conforms_record (coll_type k)) (map snd (items s k))"
proof -
  have "parent_ok s k" using sv st by (auto simp: not_found_def split: if_splits)
  then have "body resp = list_body s k" using sv by (auto simp: handle_coll_def ok_def)
  moreover have "list_all (\<lambda>(i, r). conforms_record (coll_type k) r) (items s k)"
    using inv by (simp add: typed_service_def)
  ultimately show ?thesis by (auto simp: list_all_iff)
qed

text \<open>What a typed call that resolves returns, when the raw envelope is not asked for.\<close>

lemma typed_result_shape:
  assumes inv: "typed_service (net w)" and ct: "call_typed m" and raw: "\<not> raw_requested (spec_of m)"
    and res: "fst (run_state (invoke cachet c m) w) = Inr x"
  shows "result_shape (net w) (spec_of m) x"
proof -
  obtain ep resp s' where ep: "endpoint_of (spec_of m) = Some ep"
    and bt: "body_typed ep (spec_method (spec_of m)) (spec_data (spec_of m))"
    and ans: "serve ep (spec_method (spec_of m)) (spec_data (spec_of m)) (net w) = (Answer resp, s')"
    and st: "200 \<le> status resp" "status resp < 300"
    and sr: "spec_result (spec_of m) (response_obj resp) = Inr x"
    using inv ct res by (rule typed_call_answer)
  show ?thesis
  proof (cases "spec_of m")
    case SPing
    then show ?thesis using ep ans sr by (auto simp: ok_def response_obj_def unwrap_data_def)
  next
    case (SVersion r)
    then show ?thesis using ep ans sr raw by (auto simp: ok_def response_obj_def unwrap_data_def unwrap_meta_def)
  next
    case (Resource f a)
    show ?thesis
    proof (cases "record_action a")
      case ra: True
      obtain k where coll: "coll_of f = Some k" using ep Resource ra by (cases a) (auto split: option.splits)
      have "(ep = EColl k \<and> spec_method (spec_of m) = POST) \<or>
            (\<exists>i. ep = EItem k i \<and> (spec_method (spec_of m) = GET \<or> spec_method (spec_of m) = PUT))"
        using ep Resource coll ra by (cases a) (auto split: option.splits)
      then obtain y where "body resp = JObj [(''data'', y)]" "conforms_record (coll_type k) y"
        using serve_record_answer [OF inv bt] ans st by blast
      moreover have "spec_result (spec_of m) (response_obj resp) = unwrap_data (response_obj resp)"
        using Resource ra by (cases a) simp_all
      moreover have "result_shape (net w) (spec_of m) x = conforms_record (coll_type k) x"
        using Resource ra coll by (cases a) simp_all
      ultimately show ?thesis using sr by (simp add: unwrap_data_def response_obj_def)
    next
      case False
      then consider r where "a = List r" | i where "a = Delete i" by (cases a) auto
      then show ?thesis
      proof cases
        case (1 r)
        obtain k where coll: "coll_of f = Some k" using ep Resource 1 by (auto split: option.splits)
        then have "serve (EColl k) GET JUndef (net w) = (Answer resp, s')"
          using ep ans Resource 1 by simp
        then have "body resp = list_body (net w) k \<and> list_all (conforms_record (coll_type k)) (map snd (items (net w) k))"
          using serve_list_answer [OF inv] st(2) by blast
        then show ?thesis using sr Resource 1 coll raw
          by (auto simp: list_body_def response_obj_def unwrap_data_def unwrap_meta_def)
      next
        case (2 i)
        then show ?thesis using sr Resource by simp
      qed
    qed
  qed
qed

lemma shape_doc: "result_shape s op x \<Longrightarrow> doc_conforms True (expected_return op) x"
proof (induction s op x rule: result_shape.induct)
  case (3 s f raw x)
  then show ?case
    by (auto simp: coll_of_family_entity list_all_iff split: option.splits jsval.splits)
qed (auto simp: coll_of_family_entity split: option.splits)

text \<open>The examples never ask for the raw envelope.\<close>

lemma examples_not_raw: "(n, e) \<in> set (doc_examples v) \<Longrightarrow> \<not> raw_requested (spec_of (ex_call e))"
  by (auto simp: doc_examples_def example_defs)

text \<open>The constructor's example options are documented and build the instance of the
  test suite; and options that conform to the constructor's tags are rejected exactly
  when their \<open>url\<close> is the empty string, a \<open>{String}\<close> the code's truthiness check
  refuses.\<close>

lemma constructor_example_builds:
  "constructor_documented constructor_example \<and> CachetAPI_constructor constructor_example = Inr test_api"
  by (simp add: constructor_documented_def constructor_doc_def constructor_example_def CachetAPI_constructor_def
      test_api_def test_options_def)

lemma documented_options_rejected:
  assumes "constructor_documented opts"
  shows "isl (CachetAPI_constructor opts) \<longleftrightarrow> js_get opts ''url'' = Inr (JStr [])"
proof -
  obtain ps where ps: "opts = JObj ps"
    using assms by (cases opts) (simp_all add: constructor_documented_def constructor_doc_def)
  then obtain u where u: "map_of ps ''url'' = Some (JStr u)"
    using assms by (auto simp: constructor_documented_def constructor_doc_def split: option.splits jsval.splits)
  show ?thesis using ps u by (simp add: CachetAPI_constructor_def)
qed

section \<open>Properties of the documentation\<close>

text \<open>
  C31: the \<open>@return\<close> tag of every method holds: a call whose arguments conform to the
  method's \<open>@param\<close> tags and that does not ask for the raw envelope resolves, against a
  reference service whose records are typed, with a value of the documented type (a
  string for \<open>ping\<close>, \<open>String|Object\<close> for \<open>getVersion\<close>, arrays of records for the
  lists, a record for get, add and update, a boolean for the deletes).
\<close>

theorem documented_returns:
  assumes "typed_service (net w)" and "call_documented m" and "\<not> raw_requested (spec_of m)"
    and "fst (run_state (invoke cachet c m) w) = Inr x"
  shows "doc_conforms True (doc_returns (method_doc_of m)) x"
  using shape_doc [OF typed_result_shape [OF assms(1) documented_typed [OF assms(2)] assms(3,4)]]
  by (simp add: doc_returns_spec)

theorem documented_returns_witness:
  "typed_service (net \<lparr>net = empty_service, console = []\<rparr>)
   \<and> call_documented (OpAddComponent (JObj [(''name'', JStr ''API''), (''description'', JStr ''Public API''), (''status'', JNum 1)]))
   \<and> \<not> raw_requested (spec_of (OpAddComponent (JObj [(''name'', JStr ''API''), (''description'', JStr ''Public API''), (''status'', JNum 1)])))
   \<and> fst (run_state (invoke cachet test_api
        (OpAddComponent (JObj [(''name'', JStr ''API''), (''description'', JStr ''Public API''), (''status'', JNum 1)])))
        \<lparr>net = empty_service, console = []\<rparr>)
       = Inr (JObj [(''id'', JNum 1), (''name'', JStr ''API''), (''description'', JStr ''Public API''), (''status'', JNum 1)])
   \<and> doc_conforms True (doc_returns (method_doc_of (OpAddComponent (JObj [(''name'', JStr ''API''), (''description'', JStr ''Public API''), (''status'', JNum 1)]))))
       (JObj [(''id'', JNum 1), (''name'', JStr ''API''), (''description'', JStr ''Public API''), (''status'', JNum 1)])"
proof -
  have run: "fst (run_state (invoke cachet test_api
        (OpAddComponent (JObj [(''name'', JStr ''API''), (''description'', JStr ''Public API''), (''status'', JNum 1)])))
        \<lparr>net = empty_service, console = []\<rparr>)
       = Inr (JObj [(''id'', JNum 1), (''name'', JStr ''API''), (''description'', JStr ''Public API''), (''status'', JNum 1)])"
    using run_invoke_ok [of test_api "OpAddComponent (JObj [(''name'', JStr ''API''), (''description'', JStr ''Public API''), (''status'', JNum 1)])"
        "\<lparr>net = empty_service, console = []\<rparr>"]
      server_create [of Components KComponents empty_service test_api "[(''name'', JStr ''API''), (''description'', JStr ''Public API''), (''status'', JNum 1)]"]
    by (simp add: empty_service_def response_obj_def unwrap_data_def new_record_def strip_id_def)
  show ?thesis
    using documented_returns [of "\<lparr>net = empty_service, console = []\<rparr>"
      "OpAddComponent (JObj [(''name'', JStr ''API''), (''description'', JStr ''Public API''), (''status'', JNum 1)])"
      test_api "JObj [(''id'', JNum 1), (''name'', JStr ''API''), (''description'', JStr ''Public API''), (''status'', JNum 1)]"] run
    by (simp add: typed_service_def empty_service_def call_documented_def doc_defs entity_typedefs_def
        conforms_fields_def component_type_def)
qed

text \<open>
  The \<open>Promise\<close> examples make the same calls and announce the same results as
  the \<open>Async/Await\<close> examples; and of these 32 examples exactly five do not conform to
  their method's \<open>@param\<close> tags: \<open>updateComponent\<close> and \<open>updateIncident\<close> pass
  partial records where a whole typedef is documented, \<open>getIncidentUpdates()\<close> omits
  the required \<open>incident_id\<close>, \<open>addMetric\<close> sends a string \<open>suffix\<close> documented
  \<open>{Integer}\<close>, and \<open>addMetricPoint\<close> passes the point where \<open>metric_id\<close> is expected.
\<close>

theorem examples_conformance:
  "promise_examples v = doc_examples v
   \<and> map fst (filter (\<lambda>(n, e). \<not> call_documented (ex_call e)) (doc_examples v))
       = [''updateComponent'', ''updateIncident'', ''getIncidentUpdates'', ''addMetric'', ''addMetricPoint'']"
  by (simp add: promise_examples_def promise_example_defs doc_examples_def example_defs call_documented_def doc_defs
      entity_typedefs_def conforms_fields_def component_type_def component_group_type_def incident_type_def
      incident_update_type_def metric_type_def metric_point_type_def subscriber_type_def)

text \<open>
  C32: every example that conforms to its \<open>@param\<close> tags returns what its comment
  announces (\<open>"Pong!"\<close>, the version \<open>"2.4.0-dev"\<close>, \<open>true\<close>, a record or an array
  of records of the named typedef) when it resolves against a typed reference service of
  that version.
\<close>

theorem example_results:
  assumes "(n, e) \<in> set (doc_examples v)" and "call_documented (ex_call e)" and "typed_service (net w)"
    and "version (net w) = ''2.4.0-dev''" and "fst (run_state (invoke cachet c (ex_call e)) w) = Inr x"
  shows "example_holds (ex_result e) x"
proof -
  have "result_shape (net w) (spec_of (ex_call e)) x"
    using typed_result_shape [OF assms(3) documented_typed [OF assms(2)] examples_not_raw [OF assms(1)] assms(5)] .
  then show ?thesis using assms(1,2,4)
    by (auto simp: doc_examples_def example_defs call_documented_def doc_defs doc_conforms_entity_result
        entity_typedefs_def split: jsval.splits)
qed

theorem example_results_witness:
  "(''addComponent'', addComponent_example) \<in> set (doc_examples JNull)
   \<and> call_documented (ex_call addComponent_example)
   \<and> typed_service (net \<lparr>net = empty_service, console = []\<rparr>)
   \<and> version (net \<lparr>net = empty_service, console = []\<rparr>) = ''2.4.0-dev''
   \<and> fst (run_state (invoke cachet test_api (ex_call addComponent_example)) \<lparr>net = empty_service, console = []\<rparr>)
       = Inr (JObj [(''id'', JNum 1), (''name'', JStr ''My Component''), (''description'', JStr ''My Description''), (''status'', JNum 0)])
   \<and> example_holds (ex_result addComponent_example)
       (JObj [(''id'', JNum 1), (''name'', JStr ''My Component''), (''description'', JStr ''My Description''), (''status'', JNum 0)])"
proof -
  have run: "fst (run_state (invoke cachet test_api (ex_call addComponent_example)) \<lparr>net = empty_service, console = []\<rparr>)
       = Inr (JObj [(''id'', JNum 1), (''name'', JStr ''My Component''), (''description'', JStr ''My Description''), (''status'', JNum 0)])"
    using run_invoke_ok [of test_api "ex_call addComponent_example" "\<lparr>net = empty_service, console = []\<rparr>"]
      server_create [of Components KComponents empty_service test_api
        "[(''name'', JStr ''My Component''), (''description'', JStr ''My Description''), (''status'', JNum 0)]"]
    by (simp add: addComponent_example_def empty_service_def response_obj_def unwrap_data_def new_record_def strip_id_def)
  show ?thesis
    using example_results [of "''addComponent''" addComponent_example JNull "\<lparr>net = empty_service, console = []\<rparr>" test_api
      "JObj [(''id'', JNum 1), (''name'', JStr ''My Component''), (''description'', JStr ''My Description''), (''status'', JNum 0)]"] run
    by (simp add: doc_examples_def addComponent_example_def typed_service_def empty_service_def call_documented_def
        doc_defs entity_typedefs_def conforms_fields_def component_type_def)
qed

text \<open>
  C33: the two examples with wrong arguments address no endpoint. \<open>getIncidentUpdates()\<close>
  requests \<open>/v1/incidents/undefined/updates\<close> and \<open>addMetricPoint({value: 0.75})\<close> posts
  to \<open>/v1/metrics/[object Object]/points\<close>; against the reference service, in any state,
  both reject with the normalised 404 error.
\<close>

theorem broken_examples_not_found:
  "fst (run_state (invoke cachet c (ex_call getIncidentUpdates_example)) w)
     = Inl (unable_to ''GET'' ''/v1/incidents/undefined/updates'' not_found_text)
   \<and> fst (run_state (invoke cachet c (ex_call (addMetricPoint_example v))) w)
     = Inl (unable_to ''POST'' ''/v1/metrics/[object Object]/points'' not_found_text)"
proof -
  have "cachet_server (spec_request c (spec_of (ex_call getIncidentUpdates_example))) (net w) = (not_found, net w)"
    by (simp add: getIncidentUpdates_example_def cachet_server_def spec_request_def parse_path_broken_examples)
  moreover have "cachet_server (spec_request c (spec_of (ex_call (addMetricPoint_example v)))) (net w) = (not_found, net w)"
    by (simp add: addMetricPoint_example_def cachet_server_def spec_request_def parse_path_broken_examples)
  ultimately show ?thesis
    using run_invoke_not_found [of c "ex_call getIncidentUpdates_example" w]
      run_invoke_not_found [of c "ex_call (addMetricPoint_example v)" w]
    by (simp add: getIncidentUpdates_example_def addMetricPoint_example_def)
qed

end
