(* ===== verification/Spec2Isabelle.thy ===== *)
theory Spec2Isabelle
  imports Suite_Updates Concurrency Docs
begin

text \<open>
  \<^bold>\<open>A verification development of the CachetAPI client (oipwg/cachetapi).\<close>

  \<^bold>\<open>The program.\<close> \<^verbatim>\<open>src/src/CachetAPI.js\<close> is one JavaScript class, \<open>CachetAPI\<close>,
  followed (from line 1122) by its Jest test suite. The constructor (lines 19-26) checks
  \<open>options.url\<close> and builds an axios instance bound to the base URL with an
  \<open>X-Cachet-Token\<close> header. Each of the 32 methods (lines 43-1099) builds a path by
  string concatenation, sends exactly one request through that instance inside a
  \<open>try\<close>, rethrows a failure through \<open>createError\<close> (lines 1102-1119), and unwraps the
  two envelopes of the answer (\<open>response.data.data\<close>; \<open>response.data\<close> when the
  \<open>with_meta\<close> argument is truthy; \<open>true\<close> for the deletes). \<open>createError\<close> builds a
  diagnostic from the rejection's HTTP response (status, status text, JSON body) or from
  its \<open>toString()\<close>, logs the original with \<open>console.error\<close> and returns
  \<open>new Error("Unable to " + type + " " + url + ": " + extra)\<close>. The client keeps no
  state between calls; its collaborators are axios and the remote Cachet service.

  \<^bold>\<open>Theories and what models what.\<close>
  \<^item> \<open>Prelude\<close>: the named collections \<open>js_simps\<close> and \<open>api_defs\<close>, and generic lemmas
    on strings (prefix stripping, splitting at a separator, joining) and on sums used as
    exceptions (\<open>sum_bind\<close>).
  \<^item> \<open>JsValue\<close>: the JavaScript semantics the code relies on, as executable functions:
    values (\<open>jsval\<close>: numbers as integers, strings of 8-bit characters, arrays,
    objects as association lists), thrown values (\<open>thrown\<close>: \<open>Error\<close> objects with
    name, message and own properties, or any value), truthiness (\<open>truthy\<close>), \<open>String(v)\<close>
    (\<open>js_to_string\<close>, with decimal printing \<open>int_to_dec\<close> and its parser, proved
    inverse), property access with its TypeError (\<open>js_get\<close>), \<open>toString()\<close> of a
    thrown value, and \<open>JSON.stringify\<close> (\<open>json_stringify\<close>).
  \<^item> \<open>Http\<close>: the interface to axios. A \<open>request\<close> record (verb, base URL, headers,
    path, body), the effects of a call as the state \<open>'w world\<close> (the remote service of any
    type \<open>'w\<close> and the console log), and a \<open>transport\<close>: the function that settles
    one request into a rejection or a response object. \<open>axios\<close> builds the transport
    axios makes of a server answering with a status and a body (2xx resolves, anything
    else rejects with an \<open>AxiosError\<close> carrying the response); \<open>stub\<close> settles every
    request alike.
  \<^item> \<open>ClientCore\<close>: the record \<open>cachet_api\<close> (\<open>this.options\<close> and the axios instance),
    \<open>CachetAPI_constructor\<close>, \<open>api_request\<close> (\<open>this.api.get(url)\<close> and its kin),
    \<open>createError\<close> with \<open>error_text\<close> and \<open>response_text\<close> (its \<open>extraErrorText\<close>),
    \<open>rethrow\<close> (the \<open>catch\<close> of every method), \<open>unwrap_data\<close> and \<open>unwrap_meta\<close>.
    The effects are threaded by the state monad of HOL-Library.State_Monad over
    \<open>'w world\<close>: the request changes the service, \<open>console.error\<close> appends to the log.
  \<^item> \<open>Resources\<close>: one definition per method of the source, named as in the source,
    with its parameters in the source's order after the transport and the instance;
    \<open>api_op\<close> names the methods and \<open>invoke\<close> dispatches a call.
  \<^item> \<open>ApiSpec\<close>: the contract of spec.md (sections 4.2-4.4 and 6): resource families,
    the uniform actions list/get/create/update/delete, collection paths, verbs, bodies and
    result shapes, one request of that shape as \<open>spec_call\<close>, the method implementing an
    operation (\<open>implemented_by\<close>) and the operation a method performs (\<open>spec_of\<close>).
  \<^item> \<open>Requests\<close>: a recording transport, and the router of the endpoint table
    (\<open>parse_path\<close>) reading a path back into the endpoint it addresses.
  \<^item> \<open>Service\<close>: a reference Cachet service written from spec.md (its code is not in the
    repository): the state \<open>service\<close> (collections keyed by fresh integer ids), the
    request handler \<open>cachet_server\<close> (\<open>handle_coll\<close>, \<open>handle_item\<close>, 404 for unknown
    paths, records and parents), \<open>cachet\<close> = the axios transport over it, the invariant
    \<open>service_inv\<close> with the reachable states \<open>reachable_service\<close>.
  \<^item> \<open>Types\<close>: the JSDoc \<open>@typedef\<close> blocks of the source (\<open>component_type\<close> for
    \<open>Component\<close>, lines 92-100, and its six siblings) as lists of documented properties over
    a small type language, conformance of objects to them, the typed service
    (\<open>typed_service\<close>) and typed calls (\<open>call_typed\<close>).
  \<^item> \<open>Jest\<close>: the fragment of Jest the test file uses: statements (\<open>Await\<close>,
    \<open>Expect\<close>, \<open>Assign\<close>), matchers, the execution of a test over its block's variables
    and the world (\<open>exec\<close>), blocks with their hooks (\<open>run_describe\<close>) and suites
    (\<open>run_suite\<close>).
  \<^item> \<open>Suite\<close>: the test file's describe blocks (\<open>general_tests\<close> ... \<open>subscribers_tests\<close>,
    lines 1129-1491) statement by statement, and their symbolic runs against the reference
    service, one lemma per block.
  \<^item> \<open>Suite_Updates\<close>: the \<open>Incident Updates\<close> block (\<open>incident_updates_tests\<close>,
    lines 1328-1393), which the source keeps commented out because incident updates are
    "broken" on the demo API and "work fine" on a regular Cachet API (lines 1325-1327),
    and its run against the reference service.
  \<^item> \<open>Concurrency\<close>: concurrent calls on one instance (spec.md sections 5 and 8). A
    method runs synchronously up to its single \<open>await this.api.<verb>(url)\<close>; the rest
    of the method (\<open>resume\<close>, lines 49-54 in \<open>ping\<close> and alike in every method) is
    the method itself run on a transport that replays the request's settlement: it unwraps
    the response or normalises and logs the rejection through \<open>createError\<close>. A configuration is the list of calls
    in flight (\<open>pending\<close>: \<open>Ready\<close>, \<open>Sent\<close> with its settlement, \<open>Finished\<close> with
    its result) and the world; the inductive \<open>conc_step\<close> lets the service process any
    ready call's request or the event loop resume any sent call. \<open>run_seq\<close> awaits calls
    one after the other; \<open>settle_seq\<close> is the service settling requests in order. The
    invariant \<open>conc_invariant\<close>, by rule induction on the reflexive transitive closure,
    ties every reachable configuration to a sequential settlement in the service's order.
  \<^item> \<open>Docs\<close>: the JSDoc of every method, generated from the source: the \<open>@param\<close>
    and \<open>@return\<close> tags (\<open>getComponents_doc\<close> for lines 104-105 and its 31
    siblings, read by \<open>method_doc_of\<close>) over a type language \<open>doc_type\<close> for the
    JSDoc types, and the call and announced result of each \<open>Async/Await\<close> example
    (\<open>getComponents_example\<close> for lines 108-109, \<open>getComponents_promise_example\<close>
    for the \<open>Promise\<close> example of lines 112-114, and their siblings). \<open>call_documented\<close>
    checks a call's arguments (\<open>op_args\<close>) against the \<open>@param\<close> tags,
    \<open>doc_conforms\<close> a value against a documented type. The constructor's tags and
    example (lines 6-17) are \<open>constructor_doc\<close> and \<open>constructor_example\<close>.
  \<^item> This theory: properties that combine the client with the axios transport.

  \<^bold>\<open>What is proved.\<close> Refinement: every method is the implementation of its entry of
  the endpoint table and runs as that entry's contract (C1); the raw-mode lists of metric
  points and subscribers are the exception (C10). Errors: a rejected request gives exactly
  one normalised \<open>Error\<close> with the method's verb and path and logs the original once
  (C2, C5); the diagnostic of an HTTP failure is status, status text and JSON body (C11,
  C16), and the message reads back into verb, path and diagnostic (C12); a thrown
  \<open>undefined\<close> or \<open>null\<close> escapes as a TypeError (C6); a resolved \<open>null\<close> body
  escapes as the TypeError of \<open>response.data.data\<close> (C7). Results: the contract's result
  on success (C3), the envelope or the payload depending on \<open>with_meta\<close> (C9), \<open>true\<close>
  for any resolved delete (C8). Construction: success exactly for an object with a truthy
  \<open>url\<close>, the configuration error and nothing else otherwise (C4). Requests: one request
  per call (C13), results determined by that request's settlement alone (C14), paths with
  numeric ids read back as their endpoints (C15). End to end against the reference
  service: a created record is read back (C17), an update merges the fields sent into the
  stored record and is read back (C18), a deleted record answers \<open>true\<close> and then a
  normalised 404 (C19), a nested create under a missing parent is a normalised 404 that
  changes nothing (C20), \<open>ping\<close> and \<open>getVersion\<close> answer from the state and change
  nothing (C21); the commented-out \<open>Incident Updates\<close> block passes against the
  reference service in any typed state and restores its collections (C22). Types: calls
  whose bodies conform to the typedefs keep the service's records typed (C23) and return
  conforming records (C24). The test suite: against any demo-like service state every
  test passes and the collections are restored (C25); against a fresh service exactly the
  two list tests that expect preloaded data fail (C26); a test run alone fails, because
  tests pass ids through block variables (C27). Concurrency: a finished concurrent run
  equals the sequential run in the order the service processed the requests, results,
  service state and logged errors alike, the log only up to its order (C28); the console
  grows by at most one line per finished call, since each resumed method logs through
  \<open>createError\<close> at most once (C29); and the sequential run is one of the schedules
  (C30). Documentation: a call conforming to its \<open>@param\<close> tags resolves with a value
  of its \<open>@return\<close> type against a typed service (C31); the examples that conform return
  what their comments announce (C32); and the two examples with wrong arguments address
  no endpoint and answer 404 (C33). Three evaluations back findings without being
  properties of the code: \<open>string_id_collision\<close> (the path of a string id),
  \<open>suite_bodies_vs_typedefs\<close> (the suite's literals against the typedefs) and
  \<open>examples_conformance\<close> (the examples' literals against the \<open>@param\<close> tags).

  \<^bold>\<open>Bounds and choices.\<close> No loop of the source needs fuel: the client has no loop, and
  the recursive functions of the model (decimal printing, string splitting, JSON
  serialisation) terminate by measure or structure. JavaScript numbers are modelled as
  integers: \<open>int_to_dec\<close> is \<open>Number.prototype.toString\<close> for integers of magnitude
  below \<open>10^21\<close> that a double represents exactly, which covers the ids of the
  service; fractions (a metric point's value) are outside the model. Strings are lists of
  8-bit characters, so \<open>JSON.stringify\<close>'s treatment of lone UTF-16 surrogates is not
  modelled. Property access reads own properties of objects; the client reads only names
  (\<open>url\<close>, \<open>apiToken\<close>, \<open>data\<close>, \<open>response\<close>, \<open>status\<close>, \<open>statusText\<close>) that
  no primitive value, array or prototype provides.

  \<^bold>\<open>Not modelled.\<close> axios itself (only its documented settle rule); the remote Cachet
  service beyond the reference model of \<open>Service\<close> (every client lemma of the other
  theories holds for any transport; authentication, pagination parameters and the
  service's validation rules are not modelled); Jest beyond the fragment the suite uses,
  and its timeouts (the 10000 ms of "Add a Subscriber": every call of the model
  settles); the metric point's value \<open>0.75\<close> and \<open>Date.now()\<close>, which are parameters of
  the metrics block since numbers are integers and the clock is outside the model; and
  the text printed by \<open>console.error\<close> (the log keeps the logged value); and
  timeouts and cancellation of requests (spec.md section 5: the source defines none, so
  every request of the concurrency model settles); the \<open>then\<close> and \<open>catch\<close>
  callbacks of the \<open>Promise\<close> examples, which are placeholder comments; and the value \<open>0.75\<close> of the \<open>addMetricPoint\<close> example, a parameter
  of that example. The lines of the file no definition maps are the \<open>import\<close> and
  \<open>module.exports\<close> statements, the one-line titles and the comment delimiters of the
  JSDoc blocks, and the prose comments of the test file: none of them computes or
  documents a type or a result. The inverse of \<open>JSON.stringify\<close> is not modelled: the
  client only produces JSON, in the diagnostic of \<open>createError\<close>.
\<close>

text \<open>
  C16: over the axios transport, a method whose request the service answers with a
  status outside 2xx rejects with \<open>Error("Unable to <VERB> <path>: <status> <text> |
  <JSON body>")\<close>, keeps the service's new state, and logs the \<open>AxiosError\<close>
  carrying the response. This holds for the deletes too: a delete answered 404 is an
  error, not \<open>true\<close>.
\<close>

theorem http_error_normalised:
  assumes "server (spec_request c (spec_of m)) (net s) = (Answer r, w')"
    and "\<not> (200 \<le> status r \<and> status r < 300)"
  shows "run_state (invoke (axios server) c m) s =
           (Inl (unable_to (method_name (spec_method (spec_of m))) (spec_path (spec_of m))
                  ((if status r = 0 then [] else nat_to_dec (status r) @ '' '')
                   @ (if status_text r = [] then [] else status_text r @ '' | '')
                   @ (if truthy (body r) then (case json_stringify (body r) of None \<Rightarrow> ''undefined'' | Some t \<Rightarrow> t)
                      else []))),
            s\<lparr>net := w', console := console s @
               [JSError ''AxiosError'' (''Request failed with status code '' @ nat_to_dec (status r))
                  [(''response'', response_obj r)]]\<rparr>)"
  using assms
  by (simp add: invoke_spec_call run_spec_call axios_reject error_text_def response_text_def
      response_obj_def int_to_dec_def)

theorem http_error_normalised_witness:
  "(\<lambda>rq w. (Answer \<lparr>status = 404, status_text = ''Not Found'', body = JObj [(''message'', JStr ''Not Found'')]\<rparr>, w)) (spec_request test_api (spec_of (OpDeleteComponent (JNum 7)))) ()
     = (Answer \<lparr>status = 404, status_text = ''Not Found'', body = JObj [(''message'', JStr ''Not Found'')]\<rparr>, ())
   \<and> \<not> (200 \<le> status \<lparr>status = 404, status_text = ''Not Found'', body = JObj [(''message'', JStr ''Not Found'')]\<rparr> \<and> status \<lparr>status = 404, status_text = ''Not Found'', body = JObj [(''message'', JStr ''Not Found'')]\<rparr> < 300)
   \<and> fst (run_state (invoke (axios (\<lambda>rq w. (Answer \<lparr>status = 404, status_text = ''Not Found'', body = JObj [(''message'', JStr ''Not Found'')]\<rparr>, w))) test_api (OpDeleteComponent (JNum 7)))
            \<lparr>net = (), console = []\<rparr>)
       = Inl (JSError ''Error''
               (''Unable to DELETE /v1/components/7: 404 Not Found | {'' @ [CHR 0x22] @ ''message''
                @ [CHR 0x22] @ '':'' @ [CHR 0x22] @ ''Not Found'' @ [CHR 0x22] @ ''}'') [])"
  using http_error_normalised [of "\<lambda>rq w. (Answer \<lparr>status = 404, status_text = ''Not Found'', body = JObj [(''message'', JStr ''Not Found'')]\<rparr>, w)" test_api "OpDeleteComponent (JNum 7)"
      "\<lparr>net = (), console = []\<rparr>" "\<lparr>status = 404, status_text = ''Not Found'', body = JObj [(''message'', JStr ''Not Found'')]\<rparr>" "()"]
  by (simp add: unable_to_def json_quote_def json_escape_char_def nat_to_dec.simps js_simps)

end
